(* ===== verification/Prelude.thy ===== *)
theory Prelude
  imports Main
begin

text \<open>
  Shared vocabulary of the development. Python exceptions are values of
  \<open>py_error\<close>; a fallible Python expression is a sum \<open>py_error + 'a\<close>
  (\<open>Inl\<close> the exception). A Python generator that yields some values and then
  either returns or raises is a \<open>'a gen\<close>: the list of values it yielded, and
  the exception it raised, if any. The combinators below compose generators the
  way the source composes \<open>for\<close> loops and \<open>yield\<close> statements, so that the
  rows a generator yielded before an exception are kept, as a consumer of the
  Python generator would have seen them.
\<close>

named_theorems gen_simps "evaluation rules of the generator combinators"
named_theorems gen_yieldsD "where a value yielded by a composed generator comes from"

datatype py_error =
    KeyError string
  | TypeError
  | AttributeError
  | IndexError
  | ValueError
  | LoopDetected
  | RequestFailed

type_synonym 'a result = "py_error + 'a"

type_synonym 'a gen = "'a list \<times> py_error option"

text \<open>Sequencing of fallible expressions: the first exception wins.\<close>

definition r_bind :: "'a result \<Rightarrow> ('a \<Rightarrow> 'b result) \<Rightarrow> 'b result" where
  "r_bind r f = (case r of Inl e \<Rightarrow> Inl e | Inr x \<Rightarrow> f x)"

definition gen_yield :: "'a \<Rightarrow> 'a gen" where
  "gen_yield x = ([x], None)"

definition gen_raise :: "py_error \<Rightarrow> 'a gen" where
  "gen_raise e = ([], Some e)"

definition gen_skip :: "'a gen" where
  "gen_skip = ([], None)"

text \<open>\<open>gen_seq g h\<close>: run \<open>g\<close>; if it did not raise, go on with \<open>h\<close>.\<close>

definition gen_seq :: "'a gen \<Rightarrow> 'a gen \<Rightarrow> 'a gen" where
  "gen_seq g h = (case snd g of
       Some e \<Rightarrow> g
     | None \<Rightarrow> (fst g @ fst h, snd h))"

text \<open>\<open>gen_let r f\<close>: evaluate a fallible expression; an exception ends the generator.\<close>

definition gen_let :: "'b result \<Rightarrow> ('b \<Rightarrow> 'a gen) \<Rightarrow> 'a gen" where
  "gen_let r f = (case r of Inl e \<Rightarrow> gen_raise e | Inr x \<Rightarrow> f x)"

text \<open>\<open>gen_for f xs\<close>: the body \<open>f\<close> run on each element of \<open>xs\<close> in order.\<close>

fun gen_for :: "('b \<Rightarrow> 'a gen) \<Rightarrow> 'b list \<Rightarrow> 'a gen" where
  "gen_for f [] = gen_skip"
| "gen_for f (x # xs) = gen_seq (f x) (gen_for f xs)"

definition gen_ok :: "'a gen \<Rightarrow> bool" where
  "gen_ok g \<longleftrightarrow> snd g = None"

subsection \<open>Evaluation rules\<close>

lemma r_bind_simps [simp]:
  "r_bind (Inl e) f = Inl e"
  "r_bind (Inr x) f = f x"
  by (simp_all add: r_bind_def)

lemma gen_basic [simp, gen_simps]:
  "gen_seq (xs, None) h = (xs @ fst h, snd h)"
  "gen_seq (xs, Some e) h = (xs, Some e)"
  "gen_let (Inl e) f = gen_raise e"
  "gen_let (Inr x) f = f x"
  "fst (gen_yield y) = [y]" "snd (gen_yield y) = None"
  "fst (gen_raise e) = []" "snd (gen_raise e) = Some e"
  "fst gen_skip = []" "snd gen_skip = None"
  by (simp_all add: gen_seq_def gen_let_def gen_yield_def gen_raise_def gen_skip_def)

lemma gen_seq_yield [simp, gen_simps]:
  "gen_seq (gen_yield y) h = (y # fst h, snd h)"
  "gen_seq gen_skip h = h"
  "gen_seq (gen_raise e) h = gen_raise e"
  by (simp_all add: gen_seq_def gen_yield_def gen_skip_def gen_raise_def)

lemma gen_seq_skip_right [simp, gen_simps]: "gen_seq g gen_skip = g"
  by (cases g) (auto simp: gen_seq_def gen_skip_def split: option.splits)

lemma gen_seq_assoc: "gen_seq (gen_seq f g) h = gen_seq f (gen_seq g h)"
  by (cases f; cases g) (auto simp: gen_seq_def split: option.splits)

lemma gen_for_append [gen_simps]:
  "gen_for f (xs @ ys) = gen_seq (gen_for f xs) (gen_for f ys)"
  by (induction xs) (simp_all add: gen_seq_assoc)

text \<open>A loop none of whose bodies raise yields the concatenation of their yields.\<close>

lemma gen_for_ok:
  assumes "\<forall>x \<in> set xs. snd (f x) = None"
  shows "gen_for f xs = (concat (map (\<lambda>x. fst (f x)) xs), None)"
  using assms
proof (induction xs)
  case Nil
  then show ?case by (simp add: gen_skip_def)
next
  case (Cons x xs)
  then have "snd (f x) = None" and "gen_for f xs = (concat (map (\<lambda>x. fst (f x)) xs), None)"
    by simp_all
  then show ?case by (cases "f x") simp
qed

text \<open>The same, with the yields of each body given.\<close>

lemma gen_for_map_ok:
  assumes "\<And>x. x \<in> set xs \<Longrightarrow> f (h x) = (g x, None)"
  shows "gen_for f (map h xs) = (concat (map g xs), None)"
  using assms by (induction xs) (simp_all add: gen_skip_def)

lemma gen_for_eq_ok:
  assumes "\<And>x. x \<in> set xs \<Longrightarrow> f x = (g x, None)"
  shows "gen_for f xs = (concat (map g xs), None)"
  using gen_for_map_ok [of xs f id g] assms by simp

text \<open>A loop whose every body yields exactly one value.\<close>

lemma gen_for_map_yield:
  assumes "\<And>x. x \<in> set xs \<Longrightarrow> f (h x) = gen_yield (g x)"
  shows "gen_for f (map h xs) = (map g xs, None)"
  using assms by (induction xs) (simp_all add: gen_skip_def)

lemma gen_for_yield_eq:
  assumes "\<And>x. x \<in> set xs \<Longrightarrow> f x = gen_yield (g x)"
  shows "gen_for f xs = (map g xs, None)"
  using gen_for_map_yield [of xs f id g] assms by simp

text \<open>What a loop yields was yielded by one of its bodies.\<close>

lemma gen_for_yields:
  "y \<in> set (fst (gen_for f xs)) \<Longrightarrow> \<exists>x \<in> set xs. y \<in> set (fst (f x))"
proof (induction xs)
  case Nil
  then show ?case by simp
next
  case (Cons x xs)
  then show ?case
    by (cases "f x") (auto simp: gen_seq_def split: option.splits)
qed

text \<open>
  A loop raises exactly when one of its bodies raises, after all the bodies before
  it have run without raising.
\<close>

lemma gen_for_raises:
  "snd (gen_for f xs) = Some e \<longleftrightarrow>
     (\<exists>ys x zs. xs = ys @ x # zs \<and> (\<forall>y \<in> set ys. snd (f y) = None) \<and> snd (f x) = Some e)"
proof (induction xs)
  case Nil
  then show ?case by simp
next
  case (Cons x xs)
  show ?case
  proof (cases "snd (f x)")
    case None
    then have run: "snd (gen_for f (x # xs)) = snd (gen_for f xs)"
      by (cases "f x") simp
    show ?thesis
    proof
      assume "snd (gen_for f (x # xs)) = Some e"
      with run have "snd (gen_for f xs) = Some e" by simp
      then obtain ys x' zs where "xs = ys @ x' # zs"
        and "\<forall>y \<in> set ys. snd (f y) = None" and "snd (f x') = Some e"
        using Cons.IH by blast
      with None show "\<exists>ys x' zs. x # xs = ys @ x' # zs \<and> (\<forall>y \<in> set ys. snd (f y) = None)
          \<and> snd (f x') = Some e"
        by (intro exI [of _ "x # ys"] exI [of _ x'] exI [of _ zs]) simp
    next
      assume "\<exists>ys x' zs. x # xs = ys @ x' # zs \<and> (\<forall>y \<in> set ys. snd (f y) = None)
          \<and> snd (f x') = Some e"
      then obtain ys x' zs where split: "x # xs = ys @ x' # zs"
        and pre: "\<forall>y \<in> set ys. snd (f y) = None" and raised: "snd (f x') = Some e"
        by blast
      show "snd (gen_for f (x # xs)) = Some e"
      proof (cases ys)
        case Nil
        with split raised None show ?thesis by simp
      next
        case (Cons y ys')
        with split pre raised have "\<exists>ys x' zs. xs = ys @ x' # zs \<and> (\<forall>y \<in> set ys. snd (f y) = None)
            \<and> snd (f x') = Some e"
          by auto
        with run Cons.IH show ?thesis by simp
      qed
    qed
  next
    case (Some e')
    then have run: "snd (gen_for f (x # xs)) = Some e'"
      by (cases "f x") simp
    show ?thesis
    proof
      assume "snd (gen_for f (x # xs)) = Some e"
      with run Some show "\<exists>ys x' zs. x # xs = ys @ x' # zs \<and> (\<forall>y \<in> set ys. snd (f y) = None)
          \<and> snd (f x') = Some e"
        by (intro exI [of _ "[]"] exI [of _ x] exI [of _ xs]) simp
    next
      assume "\<exists>ys x' zs. x # xs = ys @ x' # zs \<and> (\<forall>y \<in> set ys. snd (f y) = None)
          \<and> snd (f x') = Some e"
      then obtain ys x' zs where split: "x # xs = ys @ x' # zs"
        and pre: "\<forall>y \<in> set ys. snd (f y) = None" and raised: "snd (f x') = Some e"
        by blast
      have "ys = []"
      proof (rule ccontr)
        assume "ys \<noteq> []"
        with split have "x \<in> set ys" by (cases ys) auto
        with pre Some show False by simp
      qed
      with split raised run Some show "snd (gen_for f (x # xs)) = Some e" by simp
    qed
  qed
qed

subsection \<open>Association lists\<close>

text \<open>Facts on \<open>map_of\<close> that the dictionary model uses.\<close>

lemma map_of_filter_neq [simp]:
  "k' \<noteq> k \<Longrightarrow> map_of (filter (\<lambda>(a, _). a \<noteq> k) kvs) k' = map_of kvs k'"
  by (induction kvs) auto

lemma map_of_filter_eq [simp]:
  "map_of (filter (\<lambda>(a, _). a \<noteq> k) kvs) k = None"
  by (induction kvs) auto

lemma filter_key_absent:
  "k \<notin> fst ` set kvs \<Longrightarrow> filter (\<lambda>(a, _). a \<noteq> k) kvs = kvs"
  by (induction kvs) auto

subsection \<open>Where yielded values come from\<close>

lemma gen_seq_yieldsD [gen_yieldsD]:
  "y \<in> set (fst (gen_seq g h)) \<Longrightarrow> y \<in> set (fst g) \<or> y \<in> set (fst h)"
  by (auto simp: gen_seq_def split: option.splits)

lemma gen_let_yieldsD [gen_yieldsD]:
  "y \<in> set (fst (gen_let r f)) \<Longrightarrow> \<exists>x. r = Inr x \<and> y \<in> set (fst (f x))"
  by (cases r) simp_all

lemma gen_yield_yieldsD [gen_yieldsD]: "y \<in> set (fst (gen_yield x)) \<Longrightarrow> y = x"
  by simp

lemma gen_raise_yieldsD [gen_yieldsD]: "y \<in> set (fst (gen_raise e)) \<Longrightarrow> False"
  by simp

lemma gen_skip_yieldsD [gen_yieldsD]: "y \<in> set (fst gen_skip) \<Longrightarrow> False"
  by simp

lemma r_bind_InrD [gen_yieldsD]: "r_bind r f = Inr y \<Longrightarrow> \<exists>x. r = Inr x \<and> f x = Inr y"
  by (cases r) simp_all

end
