(* ===== verification/PyValue.thy ===== *)
theory PyValue
  imports Prelude
begin

text \<open>
  The Python values the source handles: what \<open>response.json()\<close> returns
  (\<open>None\<close>, booleans, integers, strings, lists and dicts) and the parameter
  dicts it builds. A Python dict keeps insertion order and one entry per key, so it is
  an association list with distinct keys; the dict operations of the source
  (\<open>d[k]\<close>, \<open>d[k] = v\<close>, \<open>d.update(e)\<close>, \<open>d.pop(k)\<close>, \<open>k in d\<close>,
  iteration, \<open>isinstance(v, dict)\<close>) are modelled with the exception each raises
  on a value of the wrong type or a missing key. Python floats are not modelled:
  no branch of the source depends on them.
\<close>

datatype json =
    JNull
  | JBool bool
  | JInt int
  | JStr string
  | JList "json list"
  | JObj "(string \<times> json) list"

type_synonym dict = "(string \<times> json) list"

subsection \<open>Dict primitives\<close>

text \<open>\<open>d[k] = v\<close>: overwrite the entry in place, or append a new one.\<close>

fun dict_set :: "dict \<Rightarrow> string \<Rightarrow> json \<Rightarrow> dict" where
  "dict_set [] k v = [(k, v)]"
| "dict_set ((k', v') # kvs) k v =
     (if k' = k then (k, v) # kvs else (k', v') # dict_set kvs k v)"

text \<open>\<open>d.update(e)\<close>: the entries of \<open>e\<close> stored one by one, in order.\<close>

definition dict_update :: "dict \<Rightarrow> dict \<Rightarrow> dict" where
  "dict_update d e = foldl (\<lambda>acc (k, v). dict_set acc k v) d e"

definition dict_delete :: "dict \<Rightarrow> string \<Rightarrow> dict" where
  "dict_delete d k = filter (\<lambda>(a, _). a \<noteq> k) d"

definition dict_keys :: "dict \<Rightarrow> string list" where
  "dict_keys d = map fst d"

subsection \<open>Python operations on values\<close>

text \<open>\<open>v[k]\<close> with a string key.\<close>

fun py_getitem :: "json \<Rightarrow> string \<Rightarrow> json result" where
  "py_getitem (JObj kvs) k = (case map_of kvs k of None \<Rightarrow> Inl (KeyError k) | Some v \<Rightarrow> Inr v)"
| "py_getitem _ k = Inl TypeError"

text \<open>\<open>v[i]\<close> with an integer index on a list (negative indices count from the end).\<close>

fun py_index :: "json \<Rightarrow> int \<Rightarrow> json result" where
  "py_index (JList xs) i =
     (if - int (length xs) \<le> i \<and> i < int (length xs)
      then Inr (xs ! nat (i mod int (length xs))) else Inl IndexError)"
| "py_index (JObj kvs) i = Inl (KeyError [])"
| "py_index _ i = Inl TypeError"

text \<open>\<open>v[k] = x\<close>: only a dict accepts a string key.\<close>

fun py_setitem :: "json \<Rightarrow> string \<Rightarrow> json \<Rightarrow> json result" where
  "py_setitem (JObj kvs) k x = Inr (JObj (dict_set kvs k x))"
| "py_setitem _ k x = Inl TypeError"

text \<open>\<open>v.update(e)\<close>: only a dict has the method.\<close>

fun py_update :: "json \<Rightarrow> dict \<Rightarrow> json result" where
  "py_update (JObj kvs) e = Inr (JObj (dict_update kvs e))"
| "py_update (JList xs) e = Inl AttributeError"
| "py_update _ e = Inl AttributeError"

text \<open>\<open>v.pop(k)\<close>, the popped value discarded as the source discards it.\<close>

fun py_pop :: "json \<Rightarrow> string \<Rightarrow> json result" where
  "py_pop (JObj kvs) k =
     (if k \<in> set (dict_keys kvs) then Inr (JObj (dict_delete kvs k)) else Inl (KeyError k))"
| "py_pop (JList xs) k = Inl TypeError"
| "py_pop _ k = Inl AttributeError"

text \<open>\<open>k in v\<close> for a string \<open>k\<close>: a key of a dict, an element of a list, a substring of a string.\<close>

fun py_contains :: "json \<Rightarrow> string \<Rightarrow> bool result" where
  "py_contains (JObj kvs) k = Inr (k \<in> set (dict_keys kvs))"
| "py_contains (JList xs) k = Inr (JStr k \<in> set xs)"
| "py_contains (JStr s) k = Inr (\<exists>i \<le> length s. take (length k) (drop i s) = k)"
| "py_contains _ k = Inl TypeError"

text \<open>\<open>for x in v\<close>: the elements of a list, the keys of a dict, the characters of a string.\<close>

fun py_iter :: "json \<Rightarrow> json list result" where
  "py_iter (JList xs) = Inr xs"
| "py_iter (JObj kvs) = Inr (map (JStr \<circ> fst) kvs)"
| "py_iter (JStr s) = Inr (map (\<lambda>c. JStr [c]) s)"
| "py_iter _ = Inl TypeError"

fun is_dict :: "json \<Rightarrow> bool" where
  "is_dict (JObj _) = True"
| "is_dict _ = False"

text \<open>\<open>v.items()\<close>, called by the source only on a value that \<open>is_dict\<close> accepted.\<close>

fun dict_items :: "json \<Rightarrow> dict" where
  "dict_items (JObj kvs) = kvs"
| "dict_items _ = []"

text \<open>The value of a key of a dict row, for stating what the rows carry.\<close>

fun row_get :: "json \<Rightarrow> string \<Rightarrow> json option" where
  "row_get (JObj kvs) k = map_of kvs k"
| "row_get _ k = None"

text \<open>Python truthiness, as \<open>if token:\<close> and \<open>not token\<close> read it.\<close>

fun py_truthy :: "json \<Rightarrow> bool" where
  "py_truthy JNull = False"
| "py_truthy (JBool b) = b"
| "py_truthy (JInt i) = (i \<noteq> 0)"
| "py_truthy (JStr s) = (s \<noteq> [])"
| "py_truthy (JList xs) = (xs \<noteq> [])"
| "py_truthy (JObj kvs) = (kvs \<noteq> [])"

subsection \<open>Dict lemmas\<close>

lemma dict_keys_append [simp]:
  "dict_keys (d @ e) = dict_keys d @ dict_keys e"
  by (simp add: dict_keys_def)

lemma dict_keys_simps [simp]:
  "dict_keys [] = []" "dict_keys ((k, v) # d) = k # dict_keys d"
  by (simp_all add: dict_keys_def)

lemma map_of_dict_set [simp]:
  "map_of (dict_set d k v) = (map_of d)(k \<mapsto> v)"
  by (induction d) auto

lemma dict_keys_dict_set [simp]:
  "set (dict_keys (dict_set d k v)) = insert k (set (dict_keys d))"
  by (induction d) (auto split: if_splits)

lemma distinct_dict_set [simp]:
  "distinct (dict_keys d) \<Longrightarrow> distinct (dict_keys (dict_set d k v))"
  by (induction d) auto

lemma dict_set_absent:
  "k \<notin> set (dict_keys d) \<Longrightarrow> dict_set d k v = d @ [(k, v)]"
  by (induction d) auto

lemma dict_update_simps [simp]:
  "dict_update d [] = d"
  "dict_update d ((k, v) # e) = dict_update (dict_set d k v) e"
  by (simp_all add: dict_update_def)

text \<open>The last entry of \<open>e\<close> with a key wins, as in Python.\<close>

lemma map_of_dict_update [simp]:
  "map_of (dict_update d e) = map_of d ++ map_of (rev e)"
  by (induction e arbitrary: d) (auto simp: map_add_def fun_eq_iff split: option.splits)

lemma dict_keys_dict_update [simp]:
  "set (dict_keys (dict_update d e)) = set (dict_keys d) \<union> set (dict_keys e)"
  by (induction e arbitrary: d) auto

lemma distinct_dict_update [simp]:
  "distinct (dict_keys d) \<Longrightarrow> distinct (dict_keys (dict_update d e))"
  by (induction e arbitrary: d) auto

lemma map_of_dict_delete [simp]:
  "map_of (dict_delete d k) = (map_of d)(k := None)"
  by (auto simp: dict_delete_def fun_eq_iff)

lemma dict_delete_absent:
  "k \<notin> set (dict_keys d) \<Longrightarrow> dict_delete d k = d"
  by (simp add: dict_delete_def dict_keys_def filter_key_absent)

text \<open>A lookup in an updated dict: the update wins where it has the key.\<close>

lemma lookup_dict_update:
  "map_of (dict_update d e) k = (case map_of (rev e) k of Some v \<Rightarrow> Some v | None \<Rightarrow> map_of d k)"
  by (simp add: map_add_def split: option.splits)

end
