(* ===== verification/PyStr.thy ===== *)
theory PyStr
  imports PyValue
begin

text \<open>
  The string functions of Python's standard library that the source calls on
  pagination tokens and parameters: \<open>int(s)\<close> and \<open>str(n)\<close> on the \<open>since\<close> /
  \<open>until\<close> timestamps, \<open>','.join\<close> on column and metric lists, and
  \<open>urllib.parse.parse_qs(urllib.parse.urlparse(token).query)\<close>, which turns a
  next-page URL back into request parameters. Strings are byte strings
  (\<open>char\<close> is a byte): a percent-escape decodes to the byte it names, and
  UTF-8 decoding of the result is not modelled. Python's \<open>int\<close> also accepts
  Unicode digits and spaces; only the ASCII ones are modelled.
\<close>

section \<open>Integers and their decimal text\<close>

definition is_digit :: "char \<Rightarrow> bool" where
  "is_digit c \<longleftrightarrow> (48::nat) \<le> of_char c \<and> of_char c \<le> (57::nat)"

definition digit_value :: "char \<Rightarrow> nat" where
  "digit_value c = of_char c - 48"

definition digit_char :: "nat \<Rightarrow> char" where
  "digit_char d = char_of (48 + d)"

definition py_space :: "char \<Rightarrow> bool" where
  "py_space c \<longleftrightarrow> c \<in> {CHR '' '', CHR 0x09, CHR 0x0A, CHR 0x0B, CHR 0x0C, CHR 0x0D}"

text \<open>\<open>s.strip()\<close>.\<close>

definition py_strip :: "string \<Rightarrow> string" where
  "py_strip s = rev (dropWhile py_space (rev (dropWhile py_space s)))"

fun double_underscore :: "string \<Rightarrow> bool" where
  "double_underscore (a # b # cs) \<longleftrightarrow> (a = CHR ''_'' \<and> b = CHR ''_'') \<or> double_underscore (b # cs)"
| "double_underscore _ \<longleftrightarrow> False"

text \<open>Digits, with single underscores between them, as Python's \<open>int\<close> accepts.\<close>

definition digits_ok :: "string \<Rightarrow> bool" where
  "digits_ok ds \<longleftrightarrow> ds \<noteq> [] \<and> is_digit (hd ds) \<and> is_digit (last ds) \<and>
     list_all (\<lambda>c. is_digit c \<or> c = CHR ''_'') ds \<and> \<not> double_underscore ds"

definition digits_nat :: "string \<Rightarrow> nat" where
  "digits_nat ds = foldl (\<lambda>n c. 10 * n + digit_value c) 0 (filter is_digit ds)"

text \<open>\<open>int(s)\<close> on a string: \<open>ValueError\<close> unless it is a decimal integer literal.\<close>

definition py_int :: "string \<Rightarrow> int result" where
  "py_int s =
     (let t = py_strip s;
          (neg, ds) = (case t of
              c # r \<Rightarrow> if c = CHR ''-'' then (True, r) else if c = CHR ''+'' then (False, r) else (False, t)
            | [] \<Rightarrow> (False, []))
      in if digits_ok ds then Inr (if neg then - int (digits_nat ds) else int (digits_nat ds))
         else Inl ValueError)"

fun nat_digits :: "nat \<Rightarrow> string" where
  "nat_digits n = (if n < 10 then [digit_char n] else nat_digits (n div 10) @ [digit_char (n mod 10)])"

text \<open>\<open>str(n)\<close> on an integer.\<close>

definition py_str :: "int \<Rightarrow> string" where
  "py_str i = (if i < 0 then CHR ''-'' # nat_digits (nat (- i)) else nat_digits (nat i))"

section \<open>Joining and splitting\<close>

text \<open>\<open>sep.join(xs)\<close>.\<close>

fun py_join :: "string \<Rightarrow> string list \<Rightarrow> string" where
  "py_join sep [] = []"
| "py_join sep [x] = x"
| "py_join sep (x # y # zs) = x @ sep @ py_join sep (y # zs)"

text \<open>\<open>s.split(c)\<close> for a one-character separator: never empty.\<close>

fun py_split :: "char \<Rightarrow> string \<Rightarrow> string list" where
  "py_split c [] = [[]]"
| "py_split c (x # xs) =
     (if x = c then [] # py_split c xs
      else (case py_split c xs of w # ws \<Rightarrow> (x # w) # ws | [] \<Rightarrow> [[x]]))"

text \<open>\<open>s.split(c, 1)\<close> when \<open>c\<close> occurs in \<open>s\<close>.\<close>

definition split_first :: "char \<Rightarrow> string \<Rightarrow> (string \<times> string) option" where
  "split_first c s = (if c \<in> set s then Some (takeWhile (\<lambda>x. x \<noteq> c) s, tl (dropWhile (\<lambda>x. x \<noteq> c) s))
                      else None)"

section \<open>URLs\<close>

text \<open>\<open>urlparse(url).query\<close>: what follows the first \<open>?\<close>, up to the fragment.\<close>

definition url_query :: "string \<Rightarrow> string" where
  "url_query u = (let v = takeWhile (\<lambda>c. c \<noteq> CHR ''#'') u
                  in case dropWhile (\<lambda>c. c \<noteq> CHR ''?'') v of [] \<Rightarrow> [] | _ # q \<Rightarrow> q)"

definition hex_value :: "char \<Rightarrow> nat option" where
  "hex_value c =
     (let n = (of_char c :: nat) in
      if 48 \<le> n \<and> n \<le> 57 then Some (n - 48)
      else if 97 \<le> n \<and> n \<le> 102 then Some (n - 87)
      else if 65 \<le> n \<and> n \<le> 70 then Some (n - 55)
      else None)"

text \<open>\<open>unquote(s)\<close>: each \<open>%XX\<close> with two hex digits is the byte it names.\<close>

fun unquote :: "string \<Rightarrow> string" where
  "unquote [] = []"
| "unquote (c # cs) =
     (if c = CHR ''%'' then
        (case cs of
           a # b # rest \<Rightarrow>
             (case (hex_value a, hex_value b) of
                (Some x, Some y) \<Rightarrow> char_of (16 * x + y) # unquote rest
              | _ \<Rightarrow> c # unquote cs)
         | _ \<Rightarrow> c # unquote cs)
      else c # unquote cs)"

definition plus_to_space :: "string \<Rightarrow> string" where
  "plus_to_space s = map (\<lambda>c. if c = CHR ''+'' then CHR '' '' else c) s"

text \<open>One \<open>name=value\<close> field of a query, as \<open>parse_qsl\<close> keeps it
  (blank values dropped).\<close>

definition qs_field :: "string \<Rightarrow> (string \<times> string) option" where
  "qs_field f =
     (if f = [] then None
      else case split_first CHR ''='' f of
             None \<Rightarrow> None
           | Some (n, v) \<Rightarrow> if v = [] then None
                            else Some (unquote (plus_to_space n), unquote (plus_to_space v)))"

text \<open>\<open>parse_qs\<close> collects the values of a name into a list, names in first-seen order.\<close>

fun qs_add :: "dict \<Rightarrow> string \<times> string \<Rightarrow> dict" where
  "qs_add [] (n, v) = [(n, JList [JStr v])]"
| "qs_add ((k, x) # d) (n, v) =
     (if k = n then (k, case x of JList vs \<Rightarrow> JList (vs @ [JStr v]) | _ \<Rightarrow> x) # d
      else (k, x) # qs_add d (n, v))"

definition parse_qs :: "string \<Rightarrow> dict" where
  "parse_qs q = foldl qs_add [] (List.map_filter qs_field (py_split CHR ''&'' q))"

text \<open>\<open>parse_qs(urlparse(token).query)\<close> on a token that must be a string.\<close>

fun token_params :: "json \<Rightarrow> dict result" where
  "token_params (JStr u) = Inr (parse_qs (url_query u))"
| "token_params _ = Inl AttributeError"

section \<open>Lemmas\<close>

text \<open>Evaluation of the string functions on literals, for concrete instances.\<close>

lemmas py_int_eval = py_int_def py_strip_def py_space_def digits_ok_def is_digit_def
  digits_nat_def digit_value_def

lemmas py_str_eval = py_str_def nat_digits.simps digit_char_def char_of_def bit_0

lemmas parse_qs_eval = parse_qs_def url_query_def qs_field_def split_first_def plus_to_space_def
  List.map_filter_def

lemma is_digit_digit_char [simp]: "d < 10 \<Longrightarrow> is_digit (digit_char d)"
  by (simp add: is_digit_def digit_char_def)

lemma digit_value_digit_char [simp]: "d < 10 \<Longrightarrow> digit_value (digit_char d) = d"
  by (simp add: digit_value_def digit_char_def)

lemma digit_not_space: "is_digit c \<Longrightarrow> \<not> py_space c"
  by (auto simp: is_digit_def py_space_def)

lemma nat_digits_digits: "list_all is_digit (nat_digits n)"
  by (induction n rule: nat_digits.induct) (subst nat_digits.simps, simp)

lemma nat_digits_nonempty: "nat_digits n \<noteq> []"
  by (subst nat_digits.simps) simp

declare nat_digits.simps [simp del]

lemma digits_nat_nat_digits: "digits_nat (nat_digits n) = n"
proof (induction n rule: nat_digits.induct)
  case (1 n)
  have filt: "filter is_digit (nat_digits m) = nat_digits m" for m
    using nat_digits_digits [of m] by (simp add: list_all_iff)
  show ?case
  proof (cases "n < 10")
    case True
    then show ?thesis by (simp add: nat_digits.simps digits_nat_def)
  next
    case False
    with "1.IH" have "digits_nat (nat_digits (n div 10)) = n div 10" by simp
    with False show ?thesis
      by (simp add: nat_digits.simps [of n] digits_nat_def filt)
  qed
qed

lemma no_double_underscore: "list_all is_digit ds \<Longrightarrow> \<not> double_underscore ds"
  by (induction ds rule: double_underscore.induct) (auto simp: is_digit_def)

lemma digits_no_space: "list_all is_digit s \<Longrightarrow> list_all (\<lambda>c. \<not> py_space c) s"
  by (induction s) (auto dest: digit_not_space)

lemma strip_digits: "list_all (\<lambda>c. \<not> py_space c) s \<Longrightarrow> py_strip s = s"
proof -
  assume a: "list_all (\<lambda>c. \<not> py_space c) s"
  then have "dropWhile py_space s = s" by (cases s) simp_all
  moreover from a have "dropWhile py_space (rev s) = rev s" by (cases "rev s") (auto simp: list_all_iff dest: arg_cong[of _ _ set])
  ultimately show ?thesis by (simp add: py_strip_def)
qed

lemma digits_ok_nat_digits: "digits_ok (nat_digits n)"
  using nat_digits_digits [of n] nat_digits_nonempty [of n]
  by (auto simp: digits_ok_def list_all_iff no_double_underscore)

text \<open>The decimal text \<open>str(n)\<close> reads back as \<open>n\<close> with \<open>int\<close>.\<close>

lemma py_int_py_str: "py_int (py_str i) = Inr i"
proof -
  let ?ds = "nat_digits (nat \<bar>i\<bar>)"
  have dig: "list_all is_digit ?ds" by (rule nat_digits_digits)
  have ne: "?ds \<noteq> []" by (rule nat_digits_nonempty)
  show ?thesis
  proof (cases "i < 0")
    case True
    have "list_all (\<lambda>c. \<not> py_space c) (CHR ''-'' # ?ds)"
      using digits_no_space [OF dig] by (simp add: py_space_def)
    with True show ?thesis
      by (simp add: py_int_def py_str_def strip_digits digits_ok_nat_digits digits_nat_nat_digits)
  next
    case False
    have "list_all (\<lambda>c. \<not> py_space c) ?ds"
      using digits_no_space [OF dig] .
    moreover obtain c r where cr: "?ds = c # r" using ne by (cases ?ds) auto
    moreover from dig cr have "is_digit c" by simp
    then have "c \<noteq> CHR ''-'' \<and> c \<noteq> CHR ''+''" by (auto simp: is_digit_def)
    ultimately show ?thesis using False digits_ok_nat_digits [of "nat \<bar>i\<bar>"] digits_nat_nat_digits [of "nat \<bar>i\<bar>"]
      by (simp add: py_int_def py_str_def strip_digits)
  qed
qed

end
