(* ===== verification/Redact.thy ===== *)
theory Redact
  imports PyStr
begin

text \<open>
  Request logging, \<open>FacebookPagesStream.prepare_request\<close> (lines 69-72): the URL
  is percent-decoded and every match of the regular expression
  \<open>access_token=[a-zA-Z0-9]+&\<close> is replaced by \<open>access_token=*****&\<close> before the
  line is logged. \<open>re.sub\<close> scans left to right and replaces non-overlapping
  matches; since \<open>&\<close> is not alphanumeric, a match is the key, the longest
  alphanumeric run after it (non-empty) and the \<open>&\<close> that must follow it.
\<close>

definition is_alnum :: "char \<Rightarrow> bool" where
  "is_alnum c \<longleftrightarrow> (let n = (of_char c :: nat) in
     48 \<le> n \<and> n \<le> 57 \<or> 65 \<le> n \<and> n \<le> 90 \<or> 97 \<le> n \<and> n \<le> 122)"

definition token_key :: string where
  "token_key = ''access_token=''"

definition token_mask :: string where
  "token_mask = ''access_token=*****&''"

text \<open>One attempt of the pattern at the start of \<open>s\<close>: the rest of \<open>s\<close> after the match.\<close>

definition match_token :: "string \<Rightarrow> string option" where
  "match_token s =
     (if take (length token_key) s = token_key then
        (let r = drop (length token_key) s;
             t = takeWhile is_alnum r;
             r' = dropWhile is_alnum r
         in if t \<noteq> [] \<and> r' \<noteq> [] \<and> hd r' = CHR ''&'' then Some (tl r') else None)
      else None)"

text \<open>\<open>re.sub(pattern, 'access_token=*****&', s)\<close>.\<close>

function redact :: "string \<Rightarrow> string" where
  "redact [] = []"
| "redact (c # cs) =
     (case match_token (c # cs) of
        Some rest \<Rightarrow> token_mask @ redact rest
      | None \<Rightarrow> c # redact cs)"
  by pat_completeness auto
termination
proof (relation "measure length")
  fix c cs rest
  assume m: "match_token (c # cs) = Some rest"
  let ?r = "dropWhile is_alnum (drop (length token_key) (c # cs))"
  from m have "?r \<noteq> [] \<and> rest = tl ?r"
    by (auto simp: match_token_def Let_def split: if_splits)
  moreover have "length ?r \<le> length (c # cs)"
    by (metis length_dropWhile_le length_drop diff_le_self order_trans)
  ultimately show "(rest, c # cs) \<in> measure length" by (cases ?r) auto
qed auto

text \<open>The logged line: \<open>re.sub(..., urllib.parse.unquote(req.url))\<close>.\<close>

definition log_line :: "string \<Rightarrow> string" where
  "log_line url = redact (unquote url)"


section \<open>Lemmas\<close>

lemma match_token_shorter: "match_token s = Some r \<Longrightarrow> length r < length s"
proof -
  assume m: "match_token s = Some r"
  let ?r = "dropWhile is_alnum (drop (length token_key) s)"
  from m have "?r \<noteq> [] \<and> r = tl ?r"
    by (auto simp: match_token_def Let_def split: if_splits)
  moreover have "length ?r \<le> length s"
    by (metis length_dropWhile_le length_drop diff_le_self order_trans)
  ultimately show ?thesis by (cases ?r) auto
qed

lemma amp_not_alnum [simp]: "\<not> is_alnum CHR ''&''"
  by (simp add: is_alnum_def)

lemma match_token_SomeD:
  assumes "match_token s = Some r"
  shows "\<exists>t. s = token_key @ t @ CHR ''&'' # r \<and> t \<noteq> [] \<and> list_all is_alnum t"
proof -
  let ?d = "drop (length token_key) s"
  from assms have k: "take (length token_key) s = token_key"
    and ne: "takeWhile is_alnum ?d \<noteq> []" and amp: "dropWhile is_alnum ?d = CHR ''&'' # r"
    by (auto simp: match_token_def Let_def split: if_splits) (cases "dropWhile is_alnum ?d"; simp)+
  have "s = token_key @ takeWhile is_alnum ?d @ dropWhile is_alnum ?d"
    using k by (metis append_take_drop_id takeWhile_dropWhile_id)
  with ne amp show ?thesis
    by (intro exI [of _ "takeWhile is_alnum ?d"]) (auto simp: list_all_iff dest: set_takeWhileD)
qed

lemma match_token_intro:
  "t \<noteq> [] \<Longrightarrow> list_all is_alnum t \<Longrightarrow> match_token (token_key @ t @ CHR ''&'' # r) = Some r"
  by (simp add: match_token_def takeWhile_append2 dropWhile_append3 list_all_iff)

lemma match_token_has_amp: "match_token s = Some r \<Longrightarrow> CHR ''&'' \<in> set s"
  by (auto dest: match_token_SomeD)

lemma redact_no_amp: "CHR ''&'' \<notin> set s \<Longrightarrow> redact s = s"
proof (induction s rule: redact.induct)
  case 1
  then show ?case by simp
next
  case (2 c cs)
  then have "match_token (c # cs) = None"
    by (cases "match_token (c # cs)") (auto dest: match_token_has_amp)
  with 2 show ?case by simp
qed

lemma alnum_no_underscore: "list_all is_alnum t \<Longrightarrow> count_list t CHR ''_'' = 0"
  by (induction t) (auto simp: is_alnum_def)

lemma key_not_inside:
  assumes t: "list_all is_alnum t" and eq: "token_key @ t @ [CHR ''&''] = xs @ token_key @ w"
  shows "xs = []"
proof -
  have "count_list (token_key @ t @ [CHR ''&'']) CHR ''_'' = 1"
    using alnum_no_underscore [OF t] by (simp add: token_key_def)
  then have "count_list xs CHR ''_'' = 0"
    unfolding eq by (simp add: token_key_def)
  then have "\<forall>c \<in> set xs. c \<noteq> CHR ''_''"
    by (auto simp: count_list_0_iff)
  then have "takeWhile (\<lambda>c. c \<noteq> CHR ''_'') (xs @ token_key @ w) = xs @ ''access''"
    by (simp add: takeWhile_append2 token_key_def)
  moreover have "takeWhile (\<lambda>c. c \<noteq> CHR ''_'') (token_key @ t @ [CHR ''&'']) = ''access''"
    by (simp add: token_key_def)
  ultimately show ?thesis using eq by simp
qed

lemma match_no_cross:
  assumes "xs \<noteq> []" and "match_token (xs @ token_key @ rest) = Some r"
  shows "\<exists>zs. r = zs @ token_key @ rest \<and> match_token xs = Some zs"
proof -
  obtain t where eq0: "xs @ token_key @ rest = token_key @ t @ CHR ''&'' # r"
    and t: "t \<noteq> []" "list_all is_alnum t"
    using match_token_SomeD [OF assms(2)] by blast
  have eq: "xs @ (token_key @ rest) = (token_key @ t @ [CHR ''&'']) @ r"
    using eq0 by simp
  obtain us where
    "xs = (token_key @ t @ [CHR ''&'']) @ us \<and> us @ token_key @ rest = r \<or>
     xs @ us = token_key @ t @ [CHR ''&''] \<and> token_key @ rest = us @ r"
    using append_eq_append_conv2 [THEN iffD1, OF eq] by blast
  then show ?thesis
  proof
    assume "xs = (token_key @ t @ [CHR ''&'']) @ us \<and> us @ token_key @ rest = r"
    with t show ?thesis by (auto intro: match_token_intro)
  next
    assume c: "xs @ us = token_key @ t @ [CHR ''&''] \<and> token_key @ rest = us @ r"
    show ?thesis
    proof (cases "us = []")
      case True
      with c t show ?thesis by (auto intro: match_token_intro [where r = "[]", simplified])
    next
      case False
      from c have xu: "xs @ us = token_key @ t @ [CHR ''&'']" and ku: "token_key @ rest = us @ r" by simp_all
      have "last us = CHR ''&''"
        using arg_cong [OF xu, of last] False by simp
      then have amp: "CHR ''&'' \<in> set us" using False last_in_set by metis
      have tu: "take (length us) (token_key @ rest) = us" by (simp add: ku)
      have long: "length token_key < length us"
      proof (rule ccontr)
        assume "\<not> length token_key < length us"
        then have "us = take (length us) token_key" using tu by simp
        then have "set us \<subseteq> set token_key" by (metis set_take_subset)
        with amp show False by (auto simp: token_key_def)
      qed
      have "take (length token_key) us = token_key"
        using arg_cong [OF ku, of "take (length token_key)"] long by simp
      then obtain w where "us = token_key @ w" by (metis append_take_drop_id)
      with xu t have "xs = []" by (intro key_not_inside [of t xs w]) simp_all
      with assms(1) show ?thesis by simp
    qed
  qed
qed

lemma redact_append_key:
  "redact (pre @ token_key @ rest) = redact pre @ redact (token_key @ rest)"
proof (induction pre rule: length_induct)
  case (1 pre)
  show ?case
  proof (cases pre)
    case Nil
    then show ?thesis by simp
  next
    case (Cons c cs)
    show ?thesis
    proof (cases "match_token (pre @ token_key @ rest)")
      case None
      have "match_token pre = None"
      proof (rule ccontr)
        assume "match_token pre \<noteq> None"
        then obtain z where "match_token pre = Some z" by blast
        then obtain t where "pre = token_key @ t @ CHR ''&'' # z" "t \<noteq> []" "list_all is_alnum t"
          by (blast dest: match_token_SomeD)
        then have "match_token (pre @ token_key @ rest) = Some (z @ token_key @ rest)"
          by (simp add: match_token_intro)
        with None show False by simp
      qed
      with None Cons "1.IH" show ?thesis by simp
    next
      case (Some r)
      with Cons obtain zs where r: "r = zs @ token_key @ rest" and m: "match_token pre = Some zs"
        using match_no_cross by blast
      have "length zs < length pre" using match_token_shorter [OF m] .
      with "1.IH" have "redact (zs @ token_key @ rest) = redact zs @ redact (token_key @ rest)" by blast
      with Some Cons r m show ?thesis by simp
    qed
  qed
qed

lemma match_token_extend:
  "match_token xs = Some z \<Longrightarrow> match_token (xs @ ys) = Some (z @ ys)"
  by (auto dest!: match_token_SomeD intro: match_token_intro)

lemma redact_first_match:
  "redact s = s \<or>
   (\<exists>u t w. s = u @ token_key @ t @ CHR ''&'' # w \<and> t \<noteq> [] \<and> list_all is_alnum t \<and>
      redact s = u @ token_mask @ redact w \<and> redact u = u)"
proof (induction s rule: redact.induct)
  case 1
  then show ?case by simp
next
  case (2 c cs)
  show ?case
  proof (cases "match_token (c # cs)")
    case (Some rest)
    then obtain t where "c # cs = token_key @ t @ CHR ''&'' # rest" "t \<noteq> []" "list_all is_alnum t"
      by (blast dest: match_token_SomeD)
    moreover from Some have "redact (c # cs) = token_mask @ redact rest" by simp
    ultimately show ?thesis
      by (rule_tac disjI2, rule_tac exI [of _ "[]"], rule_tac exI [of _ t], rule_tac exI [of _ rest]) simp
  next
    case None
    from "2.IH"(1) [OF None] show ?thesis
    proof
      assume "redact cs = cs"
      with None show ?thesis by simp
    next
      assume "\<exists>u t w. cs = u @ token_key @ t @ CHR ''&'' # w \<and> t \<noteq> [] \<and> list_all is_alnum t \<and>
        redact cs = u @ token_mask @ redact w \<and> redact u = u"
      then obtain u t w where cs: "cs = u @ token_key @ t @ CHR ''&'' # w" "t \<noteq> []" "list_all is_alnum t"
        "redact cs = u @ token_mask @ redact w" "redact u = u" by blast
      have "match_token (c # u) = None"
      proof (rule ccontr)
        assume "match_token (c # u) \<noteq> None"
        then obtain z where "match_token (c # u) = Some z" by blast
        from match_token_extend [OF this, of "token_key @ t @ CHR ''&'' # w"] None cs(1)
        show False by simp
      qed
      with None cs have "redact (c # cs) = (c # u) @ token_mask @ redact w" "redact (c # u) = c # u"
        by simp_all
      with cs(1-3) show ?thesis
        by (rule_tac disjI2, rule_tac exI [of _ "c # u"], rule_tac exI [of _ t], rule_tac exI [of _ w]) simp
    qed
  qed
qed

lemma redact_mask: "redact (token_mask @ x) = token_mask @ redact x"
  by (simp add: token_mask_def match_token_def token_key_def)

section \<open>Properties of the request log\<close>

text \<open>C16 A token that the pattern reaches is masked: in a logged URL, the value of an
  \<open>access_token\<close> made of letters and digits and followed by \<open>&\<close> is
  replaced by \<open>*****\<close>, and the text around it is redacted independently.\<close>

theorem redact_masks_token:
  assumes "t \<noteq> []" and "list_all is_alnum t"
  shows "redact (pre @ token_key @ t @ CHR ''&'' # post) = redact pre @ token_mask @ redact post"
proof -
  have "redact (token_key @ t @ CHR ''&'' # post) = token_mask @ redact post"
    using match_token_intro [OF assms, of post] by (simp add: token_key_def)
  then show ?thesis using redact_append_key [of pre "t @ CHR ''&'' # post"] by simp
qed

theorem redact_masks_token_witness:
  "''ABCD1234'' \<noteq> [] \<and> list_all is_alnum ''ABCD1234'' \<and>
   redact ''https://graph.facebook.com/v10.0/1?access_token=ABCD1234&limit=100'' =
  ''https://graph.facebook.com/v10.0/1?access_token=*****&limit=100''"
proof -
  have pre: "redact ''https://graph.facebook.com/v10.0/1?'' = ''https://graph.facebook.com/v10.0/1?''"
    by (rule redact_no_amp) simp
  have post: "redact ''limit=100'' = ''limit=100''"
    by (rule redact_no_amp) simp
  have alnum: "list_all is_alnum ''ABCD1234''" by (simp add: is_alnum_def)
  with pre post show ?thesis
    using redact_masks_token [of "''ABCD1234''" "''https://graph.facebook.com/v10.0/1?''" "''limit=100''"]
    by (simp add: is_alnum_def token_key_def token_mask_def del: redact.simps)
qed

text \<open>C17 A token at the end of the URL is logged in clear: the pattern requires a
  trailing \<open>&\<close>, so an \<open>access_token\<close> that is the last parameter is not
  redacted.\<close>

theorem redact_trailing_token:
  assumes "list_all is_alnum t"
  shows "redact (pre @ token_key @ t) = redact pre @ token_key @ t"
proof -
  have "CHR ''&'' \<notin> set (token_key @ t)"
    using assms by (auto simp: token_key_def list_all_iff)
  then show ?thesis by (simp add: redact_append_key redact_no_amp)
qed

theorem redact_trailing_token_witness:
  "list_all is_alnum ''ABCD1234'' \<and>
   redact ''https://graph.facebook.com/v10.0/1/posts?access_token=ABCD1234'' =
     ''https://graph.facebook.com/v10.0/1/posts?access_token=ABCD1234''"
proof -
  have alnum: "list_all is_alnum ''ABCD1234''" by (simp add: is_alnum_def)
  have pre: "redact ''https://graph.facebook.com/v10.0/1/posts?'' = ''https://graph.facebook.com/v10.0/1/posts?''"
    by (rule redact_no_amp) simp
  show ?thesis
    using redact_trailing_token [OF alnum, of "''https://graph.facebook.com/v10.0/1/posts?''"] pre alnum
    by (simp add: token_key_def del: redact.simps)
qed

text \<open>C30 Redaction is idempotent: the mask never matches the pattern and no new
  match forms around it, so a redacted line is left unchanged by another pass.\<close>

theorem redact_idempotent: "redact (redact s) = redact s"
proof (induction s rule: redact.induct)
  case 1
  then show ?case by simp
next
  case (2 c cs)
  show ?case
  proof (cases "match_token (c # cs)")
    case (Some rest)
    with "2.IH"(2) [OF Some] show ?thesis by (simp add: redact_mask)
  next
    case None
    have "match_token (c # redact cs) = None"
      using redact_first_match [of cs]
    proof
      assume "redact cs = cs"
      with None show ?thesis by simp
    next
      assume "\<exists>u t w. cs = u @ token_key @ t @ CHR ''&'' # w \<and> t \<noteq> [] \<and> list_all is_alnum t \<and>
        redact cs = u @ token_mask @ redact w \<and> redact u = u"
      then obtain u t w where cs: "cs = u @ token_key @ t @ CHR ''&'' # w"
        "redact cs = u @ token_mask @ redact w" by blast
      show ?thesis
      proof (rule ccontr)
        assume "match_token (c # redact cs) \<noteq> None"
        then obtain r where "match_token ((c # u) @ token_key @ ''*****&'' @ redact w) = Some r"
          using cs(2) by (auto simp: token_mask_def token_key_def)
        then obtain zs where "match_token (c # u) = Some zs"
          using match_no_cross by blast
        from match_token_extend [OF this, of "token_key @ t @ CHR ''&'' # w"] None cs(1)
        show False by simp
      qed
    qed
    with None "2.IH"(1) [OF None] show ?thesis by simp
  qed
qed

end
