(* ===== verification/Flatten.thy ===== *)
theory Flatten
  imports PyValue
begin

text \<open>
  The response flatteners: \<open>parse_response\<close> of each stream class of
  src/tap_facebook_pages/streams.py, one definition per class, and the
  \<open>parent_info\<close> / \<open>base_item\<close> dict literals they build. Each takes the
  stream object's \<open>self.page_id\<close> (\<open>None\<close> while the attribute is unset, which
  raises \<open>AttributeError\<close> when read) and the decoded response, and is a
  generator: the rows it yielded and the exception, if any, that ended it.
  Each \<open>d[k]\<close>, \<open>k in d\<close>, \<open>d.update\<close>, \<open>d.pop\<close> and \<open>for\<close> is the
  dict operation of \<open>PyValue\<close> with its exception, evaluated in the source's
  order.

  The second half states, for the schema the Graph API promises, what each stream
  yields as a typed specification (records for posts, attachments, insight metrics)
  and proves that the JSON-level parser refines it: on the encoding of any
  well-formed typed response it raises nothing and yields exactly the specified rows.
\<close>

section \<open>The parsers\<close>

definition self_page_id :: "string option \<Rightarrow> json result" where
  "self_page_id pid = (case pid of None \<Rightarrow> Inl AttributeError | Some p \<Rightarrow> Inr (JStr p))"

text \<open>\<open>row["page_id"] = self.page_id; yield row\<close> (\<open>Posts.parse_response\<close>).\<close>

definition posts_parse_response :: "string option \<Rightarrow> json \<Rightarrow> json gen" where
  "posts_parse_response pid resp =
     gen_let (py_getitem resp ''data'') (\<lambda>data.
     gen_let (py_iter data) (gen_for (\<lambda>row.
       gen_let (self_page_id pid) (\<lambda>p.
       gen_let (py_setitem row ''page_id'' p) gen_yield))))"

text \<open>The \<open>parent_info\<close> literal of \<open>PostTaggedProfile\<close> and \<open>PostAttachments\<close>.\<close>

definition parent_info :: "string option \<Rightarrow> json \<Rightarrow> dict result" where
  "parent_info pid row =
     r_bind (self_page_id pid) (\<lambda>p.
     r_bind (py_getitem row ''id'') (\<lambda>i.
     r_bind (py_getitem row ''created_time'') (\<lambda>c.
     Inr [(''page_id'', p), (''post_id'', i), (''post_created_time'', c)])))"

text \<open>\<open>x.update(info); yield x\<close>.\<close>

definition emit_tagged :: "dict \<Rightarrow> json \<Rightarrow> json gen" where
  "emit_tagged info x = gen_let (py_update x info) gen_yield"

text \<open>\<open>v[k1][k2]\<close>.\<close>

definition getitem2 :: "json \<Rightarrow> string \<Rightarrow> string \<Rightarrow> json result" where
  "getitem2 v k1 k2 = r_bind (py_getitem v k1) (\<lambda>w. py_getitem w k2)"

text \<open>The body of the loop over posts of \<open>PostTaggedProfile.parse_response\<close>.\<close>

definition tagged_profile_row :: "string option \<Rightarrow> json \<Rightarrow> json gen" where
  "tagged_profile_row pid row =
     gen_let (parent_info pid row) (\<lambda>info.
     gen_let (py_contains row ''to'') (\<lambda>has_to.
       if has_to then
         gen_let (getitem2 row ''to'' ''data'') (\<lambda>tos.
         gen_let (py_iter tos) (gen_for (emit_tagged info)))
       else gen_skip))"

definition tagged_profile_parse_response :: "string option \<Rightarrow> json \<Rightarrow> json gen" where
  "tagged_profile_parse_response pid resp =
     gen_let (py_getitem resp ''data'') (\<lambda>data.
     gen_let (py_iter data) (gen_for (tagged_profile_row pid)))"

text \<open>One attachment of \<open>PostAttachments.parse_response\<close>: its sub-attachments,
  tagged, then the attachment itself with \<open>subattachments\<close> popped, tagged.\<close>

definition attachment_parse :: "dict \<Rightarrow> json \<Rightarrow> json gen" where
  "attachment_parse info att =
     gen_let (py_contains att ''subattachments'') (\<lambda>has_subs.
       if has_subs then
         gen_let (getitem2 att ''subattachments'' ''data'') (\<lambda>sd.
         gen_let (py_iter sd) (\<lambda>subs.
         gen_seq (gen_for (emit_tagged info) subs)
                 (gen_let (py_pop att ''subattachments'') (emit_tagged info))))
       else emit_tagged info att)"

text \<open>The body of the loop over posts of \<open>PostAttachments.parse_response\<close>.\<close>

definition post_attachments_row :: "string option \<Rightarrow> json \<Rightarrow> json gen" where
  "post_attachments_row pid row =
     gen_let (parent_info pid row) (\<lambda>info.
     gen_let (py_contains row ''attachments'') (\<lambda>has_atts.
       if has_atts then
         gen_let (getitem2 row ''attachments'' ''data'') (\<lambda>ad.
         gen_let (py_iter ad) (gen_for (attachment_parse info)))
       else gen_skip))"

definition post_attachments_parse_response :: "string option \<Rightarrow> json \<Rightarrow> json gen" where
  "post_attachments_parse_response pid resp =
     gen_let (py_getitem resp ''data'') (\<lambda>data.
     gen_let (py_iter data) (gen_for (post_attachments_row pid)))"

text \<open>The \<open>base_item\<close> literal of \<open>PageInsights.parse_response\<close>.\<close>

definition page_base_item :: "json \<Rightarrow> dict result" where
  "page_base_item row =
     r_bind (py_getitem row ''name'') (\<lambda>n.
     r_bind (py_getitem row ''period'') (\<lambda>pe.
     r_bind (py_getitem row ''title'') (\<lambda>t.
     r_bind (py_getitem row ''id'') (\<lambda>i.
     Inr [(''name'', n), (''period'', pe), (''title'', t), (''id'', i)]))))"

text \<open>
  One entry of a metric's \<open>values\<close> (\<open>PageInsights\<close>): a dict \<open>value\<close> is
  exploded into one row per key, carrying \<open>end_time\<close>; any other value is
  emitted as the entry itself, merged with the metric's metadata.
\<close>

definition page_insight_values_parse :: "dict \<Rightarrow> json \<Rightarrow> json gen" where
  "page_insight_values_parse base values =
     gen_let (py_getitem values ''value'') (\<lambda>v.
       if is_dict v then
         gen_for (\<lambda>(key, value).
             gen_let (py_getitem values ''end_time'') (\<lambda>et.
             gen_yield (JObj (dict_update
               [(''context'', JStr key), (''value'', value), (''end_time'', et)] base))))
           (dict_items v)
       else emit_tagged base values)"

definition page_insights_row :: "json \<Rightarrow> json gen" where
  "page_insights_row row =
     gen_let (page_base_item row) (\<lambda>base.
     gen_let (py_contains row ''values'') (\<lambda>has_values.
       if has_values then
         gen_let (py_getitem row ''values'') (\<lambda>vs.
         gen_let (py_iter vs) (gen_for (page_insight_values_parse base)))
       else gen_skip))"

definition page_insights_parse_response :: "json \<Rightarrow> json gen" where
  "page_insights_parse_response resp =
     gen_let (py_getitem resp ''data'') (\<lambda>data.
     gen_let (py_iter data) (gen_for page_insights_row))"

text \<open>The \<open>base_item\<close> literal of \<open>PostInsights.parse_response\<close>, built per metric.\<close>

definition post_base_item :: "string option \<Rightarrow> json \<Rightarrow> json \<Rightarrow> dict result" where
  "post_base_item pid row insights =
     r_bind (py_getitem row ''id'') (\<lambda>i.
     r_bind (self_page_id pid) (\<lambda>p.
     r_bind (py_getitem row ''created_time'') (\<lambda>c.
     r_bind (py_getitem insights ''name'') (\<lambda>n.
     r_bind (py_getitem insights ''period'') (\<lambda>pe.
     r_bind (py_getitem insights ''title'') (\<lambda>t.
     r_bind (py_getitem insights ''description'') (\<lambda>d.
     r_bind (py_getitem insights ''id'') (\<lambda>ii.
     Inr [(''post_id'', i), (''page_id'', p), (''post_created_time'', c), (''name'', n),
          (''period'', pe), (''title'', t), (''description'', d), (''id'', ii)]))))))))"

text \<open>One entry of a post metric's \<open>values\<close>: as for pages, but the exploded rows
  carry no \<open>end_time\<close>.\<close>

definition post_insight_values_parse :: "dict \<Rightarrow> json \<Rightarrow> json gen" where
  "post_insight_values_parse base values =
     gen_let (py_getitem values ''value'') (\<lambda>v.
       if is_dict v then
         gen_for (\<lambda>(key, value).
             gen_yield (JObj (dict_update [(''context'', JStr key), (''value'', value)] base)))
           (dict_items v)
       else emit_tagged base values)"

definition post_insight_parse :: "string option \<Rightarrow> json \<Rightarrow> json \<Rightarrow> json gen" where
  "post_insight_parse pid row insights =
     gen_let (post_base_item pid row insights) (\<lambda>base.
     gen_let (py_contains insights ''values'') (\<lambda>has_values.
       if has_values then
         gen_let (py_getitem insights ''values'') (\<lambda>vs.
         gen_let (py_iter vs) (gen_for (post_insight_values_parse base)))
       else gen_skip))"

definition post_insights_row :: "string option \<Rightarrow> json \<Rightarrow> json gen" where
  "post_insights_row pid row =
     gen_let (getitem2 row ''insights'' ''data'') (\<lambda>ins.
     gen_let (py_iter ins) (gen_for (post_insight_parse pid row)))"

definition post_insights_parse_response :: "string option \<Rightarrow> json \<Rightarrow> json gen" where
  "post_insights_parse_response pid resp =
     gen_let (py_getitem resp ''data'') (\<lambda>data.
     gen_let (py_iter data) (gen_for (post_insights_row pid)))"

text \<open>
  \<open>Page\<close> does not override \<open>parse_response\<close>: the SDK's default yields a dict
  response as the one row, and the elements of any other iterable response.
\<close>

definition page_parse_response :: "json \<Rightarrow> json gen" where
  "page_parse_response resp =
     (if is_dict resp then gen_yield resp
      else gen_let (py_iter resp) (gen_for gen_yield))"

section \<open>The schema-level specification\<close>

text \<open>
  The response of every stream is \<open>{"data": [...]}\<close>; a post of the
  \<open>PostAttachments\<close> request carries \<open>id\<close>, \<open>created_time\<close> and, when it has
  any, \<open>attachments.data\<close>; an attachment carries its own fields and, when it
  is an album, \<open>subattachments.data\<close>.
\<close>

definition enc_data :: "json list \<Rightarrow> json" where
  "enc_data rows = JObj [(''data'', JList rows)]"

record attachment =
  att_fields :: dict
  att_subs :: "dict list option"

record att_post =
  ap_id :: json
  ap_created :: json
  ap_attachments :: "attachment list option"

definition enc_attachment :: "attachment \<Rightarrow> json" where
  "enc_attachment a = JObj (att_fields a @ (case att_subs a of None \<Rightarrow> []
     | Some ss \<Rightarrow> [(''subattachments'', enc_data (map JObj ss))]))"

definition enc_att_post :: "att_post \<Rightarrow> json" where
  "enc_att_post p = JObj ([(''id'', ap_id p), (''created_time'', ap_created p)] @
     (case ap_attachments p of None \<Rightarrow> []
      | Some as \<Rightarrow> [(''attachments'', enc_data (map enc_attachment as))]))"

definition attachment_wf :: "attachment \<Rightarrow> bool" where
  "attachment_wf a \<longleftrightarrow> ''subattachments'' \<notin> set (dict_keys (att_fields a))"

definition att_post_wf :: "att_post \<Rightarrow> bool" where
  "att_post_wf p \<longleftrightarrow> (case ap_attachments p of None \<Rightarrow> True | Some as \<Rightarrow> list_all attachment_wf as)"

text \<open>The parent linkage every flattened row is tagged with, and the tagging itself.\<close>

definition link_info :: "string \<Rightarrow> json \<Rightarrow> json \<Rightarrow> dict" where
  "link_info pid i c = [(''page_id'', JStr pid), (''post_id'', i), (''post_created_time'', c)]"

definition tag :: "dict \<Rightarrow> dict \<Rightarrow> json" where
  "tag info d = JObj (dict_update d info)"

text \<open>
  Spec, PostAttachments: each sub-attachment is a row of its own, tagged with the
  parent linkage, and the attachment follows its sub-attachments as a row without
  its \<open>subattachments\<close> key.
\<close>

definition attachment_rows_spec :: "dict \<Rightarrow> attachment \<Rightarrow> json list" where
  "attachment_rows_spec info a =
     map (tag info) (case att_subs a of None \<Rightarrow> [] | Some ss \<Rightarrow> ss) @ [tag info (att_fields a)]"

definition post_attachments_spec :: "string \<Rightarrow> att_post list \<Rightarrow> json list" where
  "post_attachments_spec pid ps = concat (map (\<lambda>p. case ap_attachments p of None \<Rightarrow> []
     | Some as \<Rightarrow> concat (map (attachment_rows_spec (link_info pid (ap_id p) (ap_created p))) as)) ps)"

text \<open>
  Spec, PostTaggedProfile: each tagged profile of a post's \<open>to.data\<close> is a row,
  tagged with the parent linkage; a post without \<open>to\<close> contributes no row.
\<close>

record tp_post =
  tp_id :: json
  tp_created :: json
  tp_to :: "dict list option"

definition enc_tp_post :: "tp_post \<Rightarrow> json" where
  "enc_tp_post p = JObj ([(''id'', tp_id p), (''created_time'', tp_created p)] @
     (case tp_to p of None \<Rightarrow> [] | Some ts \<Rightarrow> [(''to'', enc_data (map JObj ts))]))"

definition tagged_profile_spec :: "string \<Rightarrow> tp_post list \<Rightarrow> json list" where
  "tagged_profile_spec pid ps = concat (map (\<lambda>p. case tp_to p of None \<Rightarrow> []
     | Some ts \<Rightarrow> map (tag (link_info pid (tp_id p) (tp_created p))) ts) ps)"

text \<open>
  Insight metrics: a metric has \<open>name\<close>, \<open>period\<close>, \<open>title\<close>, \<open>id\<close> (post
  metrics also \<open>description\<close>) and, when it has data, \<open>values\<close>: entries with a
  \<open>value\<close>, an \<open>end_time\<close> and possibly other fields. A value is a scalar or a
  breakdown by key (a dict).
\<close>

datatype insight_value = Scalar json | Breakdown dict

record value_entry =
  ve_value :: insight_value
  ve_end_time :: json
  ve_extra :: dict

record metric =
  m_name :: json
  m_period :: json
  m_title :: json
  m_id :: json
  m_values :: "value_entry list option"

record post_metric = metric +
  m_description :: json

record insights_post =
  ip_id :: json
  ip_created :: json
  ip_metrics :: "post_metric list"

fun enc_value :: "insight_value \<Rightarrow> json" where
  "enc_value (Scalar v) = v"
| "enc_value (Breakdown kvs) = JObj kvs"

fun value_wf :: "insight_value \<Rightarrow> bool" where
  "value_wf (Scalar v) \<longleftrightarrow> \<not> is_dict v"
| "value_wf (Breakdown kvs) \<longleftrightarrow> True"

definition enc_entry :: "value_entry \<Rightarrow> json" where
  "enc_entry e = JObj ([(''value'', enc_value (ve_value e)), (''end_time'', ve_end_time e)] @ ve_extra e)"

definition enc_values :: "value_entry list option \<Rightarrow> dict" where
  "enc_values vs = (case vs of None \<Rightarrow> [] | Some es \<Rightarrow> [(''values'', JList (map enc_entry es))])"

definition values_wf :: "value_entry list option \<Rightarrow> bool" where
  "values_wf vs \<longleftrightarrow> (case vs of None \<Rightarrow> True | Some es \<Rightarrow> list_all (\<lambda>e. value_wf (ve_value e)) es)"

definition enc_metric :: "metric \<Rightarrow> json" where
  "enc_metric m = JObj ([(''name'', m_name m), (''period'', m_period m), (''title'', m_title m),
     (''id'', m_id m)] @ enc_values (m_values m))"

definition enc_post_metric :: "post_metric \<Rightarrow> json" where
  "enc_post_metric m = JObj ([(''name'', m_name m), (''period'', m_period m), (''title'', m_title m),
     (''description'', m_description m), (''id'', m_id m)] @ enc_values (m_values m))"

definition enc_insights_post :: "insights_post \<Rightarrow> json" where
  "enc_insights_post p = JObj [(''id'', ip_id p), (''created_time'', ip_created p),
     (''insights'', enc_data (map enc_post_metric (ip_metrics p)))]"

text \<open>
  Spec, insights: a breakdown is exploded into one row per key, with \<open>context\<close>
  the key and \<open>value\<close> its value; a scalar entry is one row, the entry itself;
  both merged with the metric's metadata. Page metric rows carry \<open>end_time\<close> in
  both cases; the exploded rows of post metrics do not.
\<close>

definition scalar_row :: "dict \<Rightarrow> json \<Rightarrow> value_entry \<Rightarrow> json" where
  "scalar_row base v e =
     JObj (dict_update ([(''value'', v), (''end_time'', ve_end_time e)] @ ve_extra e) base)"

definition page_entry_rows_spec :: "dict \<Rightarrow> value_entry \<Rightarrow> json list" where
  "page_entry_rows_spec base e = (case ve_value e of
       Breakdown kvs \<Rightarrow> map (\<lambda>(k, x). JObj (dict_update
         [(''context'', JStr k), (''value'', x), (''end_time'', ve_end_time e)] base)) kvs
     | Scalar v \<Rightarrow> [scalar_row base v e])"

definition metric_base :: "metric \<Rightarrow> dict" where
  "metric_base m = [(''name'', m_name m), (''period'', m_period m), (''title'', m_title m),
     (''id'', m_id m)]"

definition page_insights_spec :: "metric list \<Rightarrow> json list" where
  "page_insights_spec ms = concat (map (\<lambda>m. case m_values m of None \<Rightarrow> []
     | Some es \<Rightarrow> concat (map (page_entry_rows_spec (metric_base m)) es)) ms)"

definition post_entry_rows_spec :: "dict \<Rightarrow> value_entry \<Rightarrow> json list" where
  "post_entry_rows_spec base e = (case ve_value e of
       Breakdown kvs \<Rightarrow> map (\<lambda>(k, x). JObj (dict_update
         [(''context'', JStr k), (''value'', x)] base)) kvs
     | Scalar v \<Rightarrow> [scalar_row base v e])"

definition post_metric_base :: "string \<Rightarrow> insights_post \<Rightarrow> post_metric \<Rightarrow> dict" where
  "post_metric_base pid p m = [(''post_id'', ip_id p), (''page_id'', JStr pid),
     (''post_created_time'', ip_created p), (''name'', m_name m), (''period'', m_period m),
     (''title'', m_title m), (''description'', m_description m), (''id'', m_id m)]"

definition post_insights_spec :: "string \<Rightarrow> insights_post list \<Rightarrow> json list" where
  "post_insights_spec pid ps = concat (map (\<lambda>p. concat (map (\<lambda>m. case m_values m of None \<Rightarrow> []
     | Some es \<Rightarrow> concat (map (post_entry_rows_spec (post_metric_base pid p m)) es)) (ip_metrics p))) ps)"

text \<open>A row that is a dict whose \<open>page_id\<close> is \<open>pid\<close>.\<close>

definition has_page_id :: "string \<Rightarrow> json \<Rightarrow> bool" where
  "has_page_id pid r = (case r of JObj d \<Rightarrow> map_of d ''page_id'' = Some (JStr pid) | _ \<Rightarrow> False)"

section \<open>Lemmas\<close>

lemma dict_delete_append: "dict_delete (d @ e) k = dict_delete d k @ dict_delete e k"
  by (simp add: dict_delete_def)

lemma emit_tagged_obj [simp]: "emit_tagged info (JObj d) = gen_yield (tag info d)"
  by (simp add: emit_tagged_def tag_def)

lemma gen_for_emit_tagged [simp]:
  "gen_for (emit_tagged info) (map JObj ds) = (map (tag info) ds, None)"
  using gen_for_map_ok [of ds "emit_tagged info" JObj "\<lambda>d. [tag info d]"]
  by (simp add: gen_yield_def)

lemma parse_enc_data [simp]:
  "py_getitem (enc_data rows) ''data'' = Inr (JList rows)"
  by (simp add: enc_data_def)

lemma attachment_parse_enc:
  assumes "attachment_wf a"
  shows "attachment_parse info (enc_attachment a) = (attachment_rows_spec info a, None)"
proof (cases "att_subs a")
  case None
  with assms show ?thesis
    by (simp add: attachment_parse_def enc_attachment_def attachment_rows_spec_def
        attachment_wf_def gen_yield_def)
next
  case (Some ss)
  from assms have absent: "''subattachments'' \<notin> set (dict_keys (att_fields a))"
    by (simp add: attachment_wf_def)
  then have "map_of (att_fields a) ''subattachments'' = None"
    by (simp add: dict_keys_def map_of_eq_None_iff)
  with Some absent show ?thesis
    by (simp add: attachment_parse_def enc_attachment_def attachment_rows_spec_def getitem2_def
        dict_delete_append dict_delete_absent gen_yield_def map_add_def)
       (simp add: dict_delete_def)
qed

lemma parent_info_post [simp]:
  "parent_info (Some pid) (JObj ((''id'', i) # (''created_time'', c) # rest)) = Inr (link_info pid i c)"
  by (simp add: parent_info_def self_page_id_def link_info_def)

lemma parent_info_enc [simp]:
  "parent_info (Some pid) (enc_att_post p) = Inr (link_info pid (ap_id p) (ap_created p))"
  by (simp add: enc_att_post_def)

lemma contains_attachments_enc [simp]:
  "py_contains (enc_att_post p) ''attachments'' = Inr (ap_attachments p \<noteq> None)"
  by (simp add: enc_att_post_def split: option.splits)

lemma getitem2_attachments_enc [simp]:
  "ap_attachments p = Some as \<Longrightarrow>
   getitem2 (enc_att_post p) ''attachments'' ''data'' = Inr (JList (map enc_attachment as))"
  by (simp add: enc_att_post_def getitem2_def)

lemma post_attachments_row_enc:
  assumes "att_post_wf p"
  shows "post_attachments_row (Some pid) (enc_att_post p) =
    (case ap_attachments p of None \<Rightarrow> []
     | Some as \<Rightarrow> concat (map (attachment_rows_spec (link_info pid (ap_id p) (ap_created p))) as),
     None)"
proof (cases "ap_attachments p")
  case None
  then show ?thesis by (simp add: post_attachments_row_def gen_skip_def)
next
  case (Some as)
  with assms have "list_all attachment_wf as" by (simp add: att_post_wf_def)
  then have "gen_for (attachment_parse (link_info pid (ap_id p) (ap_created p))) (map enc_attachment as)
      = (concat (map (attachment_rows_spec (link_info pid (ap_id p) (ap_created p))) as), None)"
    by (intro gen_for_map_ok) (simp add: attachment_parse_enc list_all_iff)
  with Some show ?thesis by (simp add: post_attachments_row_def)
qed


lemma tagged_profile_row_enc:
  "tagged_profile_row (Some pid) (enc_tp_post p) =
    (case tp_to p of None \<Rightarrow> [] | Some ts \<Rightarrow> map (tag (link_info pid (tp_id p) (tp_created p))) ts, None)"
  by (cases "tp_to p") (simp_all add: tagged_profile_row_def enc_tp_post_def getitem2_def gen_skip_def)


lemma getitem_enc_entry [simp]:
  "py_getitem (enc_entry e) ''value'' = Inr (enc_value (ve_value e))"
  "py_getitem (enc_entry e) ''end_time'' = Inr (ve_end_time e)"
  by (simp_all add: enc_entry_def)

lemma page_values_parse_enc:
  assumes "value_wf (ve_value e)"
  shows "page_insight_values_parse base (enc_entry e) = (page_entry_rows_spec base e, None)"
proof (cases "ve_value e")
  case (Scalar v)
  with assms show ?thesis
    by (simp add: page_insight_values_parse_def page_entry_rows_spec_def scalar_row_def
        emit_tagged_def enc_entry_def gen_yield_def)
next
  case (Breakdown kvs)
  show ?thesis
    by (simp add: page_insight_values_parse_def page_entry_rows_spec_def Breakdown,
        rule gen_for_yield_eq) (simp split: prod.splits)
qed

lemma post_values_parse_enc:
  assumes "value_wf (ve_value e)"
  shows "post_insight_values_parse base (enc_entry e) = (post_entry_rows_spec base e, None)"
proof (cases "ve_value e")
  case (Scalar v)
  with assms show ?thesis
    by (simp add: post_insight_values_parse_def post_entry_rows_spec_def scalar_row_def
        emit_tagged_def enc_entry_def gen_yield_def)
next
  case (Breakdown kvs)
  show ?thesis
    by (simp add: post_insight_values_parse_def post_entry_rows_spec_def Breakdown,
        rule gen_for_yield_eq) (simp split: prod.splits)
qed

lemma contains_values [simp]:
  "py_contains (JObj (d @ enc_values vs)) ''values'' = Inr (''values'' \<in> set (dict_keys d) \<or> vs \<noteq> None)"
  by (auto simp: enc_values_def split: option.splits)

lemma page_insights_row_enc:
  assumes "values_wf (m_values m)"
  shows "page_insights_row (enc_metric m) =
    (case m_values m of None \<Rightarrow> [] | Some es \<Rightarrow> concat (map (page_entry_rows_spec (metric_base m)) es), None)"
proof (cases "m_values m")
  case None
  then show ?thesis
    by (simp add: page_insights_row_def enc_metric_def page_base_item_def gen_skip_def enc_values_def)
next
  case (Some es)
  with assms have "\<forall>e \<in> set es. value_wf (ve_value e)" by (simp add: values_wf_def list_all_iff)
  with Some show ?thesis
    by (simp add: page_insights_row_def enc_metric_def page_base_item_def enc_values_def
        metric_base_def, intro gen_for_map_ok) (simp add: page_values_parse_enc metric_base_def)
qed


lemma post_insight_parse_enc:
  assumes "values_wf (m_values m)"
  shows "post_insight_parse (Some pid) (enc_insights_post p) (enc_post_metric m) =
    (case m_values m of None \<Rightarrow> []
     | Some es \<Rightarrow> concat (map (post_entry_rows_spec (post_metric_base pid p m)) es), None)"
proof (cases "m_values m")
  case None
  then show ?thesis
    by (simp add: post_insight_parse_def enc_post_metric_def enc_insights_post_def
        post_base_item_def self_page_id_def gen_skip_def enc_values_def)
next
  case (Some es)
  with assms have "\<forall>e \<in> set es. value_wf (ve_value e)" by (simp add: values_wf_def list_all_iff)
  with Some show ?thesis
    by (simp add: post_insight_parse_def enc_post_metric_def enc_insights_post_def
        post_base_item_def self_page_id_def enc_values_def post_metric_base_def,
        intro gen_for_map_ok) (simp add: post_values_parse_enc post_metric_base_def)
qed

lemma post_insights_row_enc:
  assumes "list_all (\<lambda>m. values_wf (m_values m)) (ip_metrics p)"
  shows "post_insights_row (Some pid) (enc_insights_post p) =
    (concat (map (\<lambda>m. case m_values m of None \<Rightarrow> []
       | Some es \<Rightarrow> concat (map (post_entry_rows_spec (post_metric_base pid p m)) es)) (ip_metrics p)),
     None)"
proof -
  have "getitem2 (enc_insights_post p) ''insights'' ''data'' = Inr (JList (map enc_post_metric (ip_metrics p)))"
    by (simp add: getitem2_def enc_insights_post_def)
  with assms show ?thesis
    by (simp add: post_insights_row_def, intro gen_for_map_ok)
       (simp add: post_insight_parse_enc list_all_iff)
qed


lemma post_insights_posts_enc:
  assumes "list_all (\<lambda>p. list_all (\<lambda>m. values_wf (m_values m)) (ip_metrics p)) ps"
  shows "gen_for (post_insights_row (Some pid)) (map enc_insights_post ps) = (post_insights_spec pid ps, None)"
  using assms unfolding post_insights_spec_def
  by (intro gen_for_map_ok) (simp add: post_insights_row_enc list_all_iff)

lemma posts_rows_enc:
  "gen_for (\<lambda>row. gen_let (py_setitem row ''page_id'' (JStr pid)) gen_yield)
     (map JObj ds) = (map (\<lambda>d. JObj (dict_set d ''page_id'' (JStr pid))) ds, None)"
  by (rule gen_for_map_yield) simp

lemma emit_tagged_yieldsD:
  "r \<in> set (fst (emit_tagged info x)) \<Longrightarrow> \<exists>kvs. x = JObj kvs \<and> r = JObj (dict_update kvs info)"
  by (cases x) (simp_all add: emit_tagged_def)

lemma parent_info_InrD:
  "parent_info (Some pid) row = Inr info \<Longrightarrow>
   \<exists>i c. py_getitem row ''id'' = Inr i \<and> py_getitem row ''created_time'' = Inr c \<and> info = link_info pid i c"
  by (auto simp: parent_info_def self_page_id_def link_info_def dest!: r_bind_InrD)

lemma attachment_parse_yieldsD:
  "r \<in> set (fst (attachment_parse info att)) \<Longrightarrow> \<exists>kvs. r = JObj (dict_update kvs info)"
  unfolding attachment_parse_def
  by (fastforce split: if_splits dest!: gen_yieldsD gen_for_yields emit_tagged_yieldsD)

text \<open>Every row a post stream's parser yields carries the page id it was given.\<close>

lemma has_page_id_update:
  "map_of (rev info) ''page_id'' = Some (JStr pid) \<Longrightarrow> has_page_id pid (JObj (dict_update kvs info))"
  by (simp add: has_page_id_def)

lemma link_info_page_id [simp]: "map_of (rev (link_info pid i c)) ''page_id'' = Some (JStr pid)"
  by (simp add: link_info_def)

lemma py_setitem_InrD [gen_yieldsD]: "py_setitem x k v = Inr y \<Longrightarrow> \<exists>kvs. y = JObj (dict_set kvs k v)"
  by (cases x) auto

lemma post_base_item_page_id:
  "post_base_item (Some pid) row ins = Inr base \<Longrightarrow> map_of (rev base) ''page_id'' = Some (JStr pid)"
  by (auto simp: post_base_item_def self_page_id_def dest!: r_bind_InrD)

lemma posts_yields_page_id:
  "r \<in> set (fst (posts_parse_response (Some pid) resp)) \<Longrightarrow> has_page_id pid r"
  unfolding posts_parse_response_def self_page_id_def
  by (fastforce simp: has_page_id_def dest!: gen_yieldsD gen_for_yields)

lemma tagged_profile_yields_page_id:
  "r \<in> set (fst (tagged_profile_parse_response (Some pid) resp)) \<Longrightarrow> has_page_id pid r"
  unfolding tagged_profile_parse_response_def tagged_profile_row_def
  by (fastforce split: if_splits intro: has_page_id_update
      dest!: gen_yieldsD gen_for_yields parent_info_InrD emit_tagged_yieldsD)

lemma post_attachments_yields_page_id:
  "r \<in> set (fst (post_attachments_parse_response (Some pid) resp)) \<Longrightarrow> has_page_id pid r"
  unfolding post_attachments_parse_response_def post_attachments_row_def
  by (fastforce split: if_splits intro: has_page_id_update
      dest!: gen_yieldsD gen_for_yields parent_info_InrD attachment_parse_yieldsD)

lemma post_insight_values_yields_page_id:
  "r \<in> set (fst (post_insight_values_parse base v)) \<Longrightarrow> map_of (rev base) ''page_id'' = Some (JStr pid) \<Longrightarrow>
   has_page_id pid r"
  unfolding post_insight_values_parse_def
  by (fastforce split: if_splits prod.splits intro: has_page_id_update
      dest!: gen_yieldsD gen_for_yields emit_tagged_yieldsD)

lemma post_insights_yields_page_id:
  "r \<in> set (fst (post_insights_parse_response (Some pid) resp)) \<Longrightarrow> has_page_id pid r"
  unfolding post_insights_parse_response_def post_insights_row_def post_insight_parse_def
  by (fastforce split: if_splits dest!: gen_yieldsD gen_for_yields post_base_item_page_id
      intro: post_insight_values_yields_page_id)

section \<open>Properties of the flatteners\<close>

text \<open>C3 PostAttachments refines its specification: on every response that follows
  the schema, the parser raises nothing and yields, post by post and attachment by
  attachment, the sub-attachment rows and then the attachment row without its
  \<open>subattachments\<close> key, all tagged with the post's linkage.\<close>

theorem post_attachments_refines:
  assumes "list_all att_post_wf ps"
  shows "post_attachments_parse_response (Some pid) (enc_data (map enc_att_post ps)) =
         (post_attachments_spec pid ps, None)"
  using assms
  by (simp add: post_attachments_parse_response_def post_attachments_spec_def,
      intro gen_for_map_ok) (simp add: post_attachments_row_enc list_all_iff)

theorem post_attachments_refines_witness:
  "list_all att_post_wf [\<lparr>ap_id = JStr ''10'', ap_created = JStr ''t0'',
     ap_attachments = Some [\<lparr>att_fields = [(''title'', JStr ''album'')],
       att_subs = Some [[(''url'', JStr ''a'')], [(''url'', JStr ''b'')]]\<rparr>]\<rparr>] \<and>
   post_attachments_parse_response (Some ''p1'') (enc_data (map enc_att_post
     [\<lparr>ap_id = JStr ''10'', ap_created = JStr ''t0'',
      ap_attachments = Some [\<lparr>att_fields = [(''title'', JStr ''album'')],
        att_subs = Some [[(''url'', JStr ''a'')], [(''url'', JStr ''b'')]]\<rparr>]\<rparr>])) =
   ([JObj [(''url'', JStr ''a''), (''page_id'', JStr ''p1''), (''post_id'', JStr ''10''),
           (''post_created_time'', JStr ''t0'')],
     JObj [(''url'', JStr ''b''), (''page_id'', JStr ''p1''), (''post_id'', JStr ''10''),
           (''post_created_time'', JStr ''t0'')],
     JObj [(''title'', JStr ''album''), (''page_id'', JStr ''p1''), (''post_id'', JStr ''10''),
           (''post_created_time'', JStr ''t0'')]],
    None)"
  using post_attachments_refines [of "[\<lparr>ap_id = JStr ''10'', ap_created = JStr ''t0'',
     ap_attachments = Some [\<lparr>att_fields = [(''title'', JStr ''album'')],
       att_subs = Some [[(''url'', JStr ''a'')], [(''url'', JStr ''b'')]]\<rparr>]\<rparr>]" "''p1''"]
  by (simp add: att_post_wf_def attachment_wf_def post_attachments_spec_def
      attachment_rows_spec_def tag_def link_info_def)

text \<open>C4 PageInsights refines its specification: a breakdown value yields one row per
  key (\<open>context\<close> the key), a scalar value one row, the entry itself, all merged
  with the metric's name, period, title and id.\<close>

theorem page_insights_refines:
  assumes "list_all (\<lambda>m. values_wf (m_values m)) ms"
  shows "page_insights_parse_response (enc_data (map enc_metric ms)) = (page_insights_spec ms, None)"
  using assms
  by (simp add: page_insights_parse_response_def page_insights_spec_def,
      intro gen_for_map_ok) (simp add: page_insights_row_enc list_all_iff)

theorem page_insights_refines_witness:
  "list_all (\<lambda>m. values_wf (m_values m))
     [\<lparr>m_name = JStr ''page_fans'', m_period = JStr ''day'', m_title = JStr ''Fans'', m_id = JStr ''m1'',
       m_values = Some [\<lparr>ve_value = Breakdown [(''a'', JInt 1), (''b'', JInt 2)],
                          ve_end_time = JStr ''T'', ve_extra = []\<rparr>,
                        \<lparr>ve_value = Scalar (JInt 7), ve_end_time = JStr ''T'', ve_extra = []\<rparr>]\<rparr>] \<and>
   page_insights_parse_response (enc_data (map enc_metric
     [\<lparr>m_name = JStr ''page_fans'', m_period = JStr ''day'', m_title = JStr ''Fans'', m_id = JStr ''m1'',
       m_values = Some [\<lparr>ve_value = Breakdown [(''a'', JInt 1), (''b'', JInt 2)],
                          ve_end_time = JStr ''T'', ve_extra = []\<rparr>,
                        \<lparr>ve_value = Scalar (JInt 7), ve_end_time = JStr ''T'', ve_extra = []\<rparr>]\<rparr>])) =
   ([JObj [(''context'', JStr ''a''), (''value'', JInt 1), (''end_time'', JStr ''T''),
           (''name'', JStr ''page_fans''), (''period'', JStr ''day''), (''title'', JStr ''Fans''),
           (''id'', JStr ''m1'')],
     JObj [(''context'', JStr ''b''), (''value'', JInt 2), (''end_time'', JStr ''T''),
           (''name'', JStr ''page_fans''), (''period'', JStr ''day''), (''title'', JStr ''Fans''),
           (''id'', JStr ''m1'')],
     JObj [(''value'', JInt 7), (''end_time'', JStr ''T''), (''name'', JStr ''page_fans''),
           (''period'', JStr ''day''), (''title'', JStr ''Fans''), (''id'', JStr ''m1'')]], None)"
  using page_insights_refines [of "[\<lparr>m_name = JStr ''page_fans'', m_period = JStr ''day'',
       m_title = JStr ''Fans'', m_id = JStr ''m1'',
       m_values = Some [\<lparr>ve_value = Breakdown [(''a'', JInt 1), (''b'', JInt 2)],
                          ve_end_time = JStr ''T'', ve_extra = []\<rparr>,
                        \<lparr>ve_value = Scalar (JInt 7), ve_end_time = JStr ''T'', ve_extra = []\<rparr>]\<rparr>]"]
  by (simp add: values_wf_def page_insights_spec_def page_entry_rows_spec_def metric_base_def
      scalar_row_def)

text \<open>C6 PostTaggedProfile refines its specification: every tagged profile of a post
  is one row tagged with the post's linkage; posts without \<open>to\<close> yield nothing.\<close>

theorem tagged_profile_refines:
  "tagged_profile_parse_response (Some pid) (enc_data (map enc_tp_post ps)) =
   (tagged_profile_spec pid ps, None)"
  by (simp add: tagged_profile_parse_response_def tagged_profile_spec_def,
      intro gen_for_map_ok) (simp add: tagged_profile_row_enc)

text \<open>C5 PostInsights refines its specification: per post and per metric, the same
  breakdown-or-scalar explosion, every row tagged with post, page and metric metadata.\<close>

theorem post_insights_refines:
  assumes "list_all (\<lambda>p. list_all (\<lambda>m. values_wf (m_values m)) (ip_metrics p)) ps"
  shows "post_insights_parse_response (Some pid) (enc_data (map enc_insights_post ps)) =
         (post_insights_spec pid ps, None)"
  using assms by (simp add: post_insights_parse_response_def post_insights_posts_enc)

theorem post_insights_refines_witness:
  "list_all (\<lambda>p. list_all (\<lambda>m. values_wf (m_values m)) (ip_metrics p))
     [\<lparr>ip_id = JStr ''10'', ip_created = JStr ''t0'', ip_metrics =
       [\<lparr>m_name = JStr ''post_clicks'', m_period = JStr ''lifetime'', m_title = JStr ''Clicks'',
         m_id = JStr ''m2'', m_values = Some [\<lparr>ve_value = Scalar (JInt 3), ve_end_time = JNull,
         ve_extra = []\<rparr>], m_description = JStr ''d''\<rparr>]\<rparr>] \<and>
   post_insights_parse_response (Some ''p1'') (enc_data (map enc_insights_post
     [\<lparr>ip_id = JStr ''10'', ip_created = JStr ''t0'', ip_metrics =
       [\<lparr>m_name = JStr ''post_clicks'', m_period = JStr ''lifetime'', m_title = JStr ''Clicks'',
         m_id = JStr ''m2'', m_values = Some [\<lparr>ve_value = Scalar (JInt 3), ve_end_time = JNull,
         ve_extra = []\<rparr>], m_description = JStr ''d''\<rparr>]\<rparr>])) =
   ([JObj [(''value'', JInt 3), (''end_time'', JNull), (''post_id'', JStr ''10''),
      (''page_id'', JStr ''p1''), (''post_created_time'', JStr ''t0''), (''name'', JStr ''post_clicks''),
      (''period'', JStr ''lifetime''), (''title'', JStr ''Clicks''), (''description'', JStr ''d''),
      (''id'', JStr ''m2'')]], None)"
  using post_insights_refines [of "[\<lparr>ip_id = JStr ''10'', ip_created = JStr ''t0'', ip_metrics =
       [\<lparr>m_name = JStr ''post_clicks'', m_period = JStr ''lifetime'', m_title = JStr ''Clicks'',
         m_id = JStr ''m2'', m_values = Some [\<lparr>ve_value = Scalar (JInt 3), ve_end_time = JNull,
         ve_extra = []\<rparr>], m_description = JStr ''d''\<rparr>]\<rparr>]" "''p1''"]
  by (simp add: values_wf_def post_insights_spec_def post_entry_rows_spec_def post_metric_base_def
      scalar_row_def)

text \<open>Posts: every post of \<open>data\<close> is yielded once, in order, with
  \<open>page_id\<close> set to the stream's page id.\<close>

theorem posts_parse_tags_page_id:
  "posts_parse_response (Some pid) (enc_data (map JObj ds)) =
   (map (\<lambda>d. JObj (dict_set d ''page_id'' (JStr pid))) ds, None)"
  by (simp add: posts_parse_response_def self_page_id_def posts_rows_enc)

text \<open>C31 Every row PostAttachments yields, whatever the response, is a dict tagged
  with the page id and with the \<open>id\<close> and \<open>created_time\<close> of a post of the
  response's \<open>data\<close>.\<close>

theorem post_attachments_linked:
  assumes "r \<in> set (fst (post_attachments_parse_response (Some pid) resp))"
  shows "\<exists>data posts. py_getitem resp ''data'' = Inr data \<and> py_iter data = Inr posts \<and>
    (\<exists>row \<in> set posts. \<exists>i c kvs. py_getitem row ''id'' = Inr i \<and>
       py_getitem row ''created_time'' = Inr c \<and> r = JObj (dict_update kvs (link_info pid i c)))"
  using assms unfolding post_attachments_parse_response_def post_attachments_row_def
  by (fastforce split: if_splits dest!: gen_yieldsD gen_for_yields parent_info_InrD
      attachment_parse_yieldsD)

theorem post_attachments_linked_witness:
  "JObj [(''k'', JInt 1), (''page_id'', JStr ''p1''), (''post_id'', JStr ''10''),
         (''post_created_time'', JStr ''t0'')]
     \<in> set (fst (post_attachments_parse_response (Some ''p1'') (enc_data [JObj [(''id'', JStr ''10''),
       (''created_time'', JStr ''t0''), (''attachments'', enc_data [JObj [(''k'', JInt 1)]])]]))) \<and>
   (\<exists>data posts. py_getitem (enc_data [JObj [(''id'', JStr ''10''),
       (''created_time'', JStr ''t0''), (''attachments'', enc_data [JObj [(''k'', JInt 1)]])]]) ''data'' = Inr data
     \<and> py_iter data = Inr posts \<and>
    (\<exists>row \<in> set posts. \<exists>i c kvs. py_getitem row ''id'' = Inr i \<and>
       py_getitem row ''created_time'' = Inr c \<and>
       JObj [(''k'', JInt 1), (''page_id'', JStr ''p1''), (''post_id'', JStr ''10''),
         (''post_created_time'', JStr ''t0'')] = JObj (dict_update kvs (link_info ''p1'' i c))))"
proof -
  have mem: "JObj [(''k'', JInt 1), (''page_id'', JStr ''p1''), (''post_id'', JStr ''10''),
         (''post_created_time'', JStr ''t0'')]
     \<in> set (fst (post_attachments_parse_response (Some ''p1'') (enc_data [JObj [(''id'', JStr ''10''),
       (''created_time'', JStr ''t0''), (''attachments'', enc_data [JObj [(''k'', JInt 1)]])]])))"
    by (simp add: post_attachments_parse_response_def post_attachments_row_def attachment_parse_def
        getitem2_def enc_data_def emit_tagged_def gen_yield_def self_page_id_def parent_info_def)
  show ?thesis using mem post_attachments_linked [OF mem] by blast
qed

text \<open>C32 An exception ends a flattener but keeps what it yielded: when the posts of
  \<open>data\<close> are dicts up to one that is not, Posts yields the rows of the posts
  before it and then raises \<open>TypeError\<close>.\<close>

theorem posts_error_keeps_prefix:
  assumes "\<not> is_dict bad"
  shows "posts_parse_response (Some pid) (enc_data (map JObj ds @ bad # rest)) =
         (map (\<lambda>d. JObj (dict_set d ''page_id'' (JStr pid))) ds, Some TypeError)"
proof -
  from assms have "py_setitem bad ''page_id'' (JStr pid) = Inl TypeError"
    by (cases bad) simp_all
  then show ?thesis
    by (simp add: posts_parse_response_def gen_for_append posts_rows_enc self_page_id_def)
qed

theorem posts_error_keeps_prefix_witness:
  "\<not> is_dict (JStr ''x'') \<and>
   posts_parse_response (Some ''p1'') (enc_data (map JObj [[(''id'', JInt 1)]] @ JStr ''x'' # [])) =
   ([JObj [(''id'', JInt 1), (''page_id'', JStr ''p1'')]], Some TypeError)"
  using posts_error_keeps_prefix [of "JStr ''x''" "''p1''" "[[(''id'', JInt 1)]]" "[]"] by simp

text \<open>C33 PostInsights requires \<open>insights\<close> on every post: a post without it
  ends the page with \<open>KeyError\<close> after the rows of the posts before it, where the
  other post streams skip a post that lacks their nested key.\<close>

theorem post_insights_missing_insights:
  assumes "list_all (\<lambda>p. list_all (\<lambda>m. values_wf (m_values m)) (ip_metrics p)) ps"
  shows "post_insights_parse_response (Some pid)
           (enc_data (map enc_insights_post ps @ JObj [(''id'', i), (''created_time'', c)] # rest)) =
         (post_insights_spec pid ps, Some (KeyError ''insights''))"
  using assms
  by (simp add: post_insights_parse_response_def gen_for_append post_insights_posts_enc
      post_insights_row_def getitem2_def)

theorem post_insights_missing_insights_witness:
  "list_all (\<lambda>p. list_all (\<lambda>m. values_wf (m_values m)) (ip_metrics p)) [] \<and>
   post_insights_parse_response (Some ''p1'')
     (enc_data (map enc_insights_post [] @ JObj [(''id'', JStr ''10''), (''created_time'', JStr ''t0'')] # [])) =
   ([], Some (KeyError ''insights''))"
  using post_insights_missing_insights [of "[]" "''p1''" "JStr ''10''" "JStr ''t0''" "[]"]
  by (simp add: post_insights_spec_def)

text \<open>C34 The exploded rows of a post metric carry no \<open>end_time\<close>, while those of a
  page metric carry the entry's \<open>end_time\<close>.\<close>

theorem breakdown_end_time:
  assumes "''end_time'' \<notin> set (dict_keys base)"
  shows "(\<forall>r \<in> set (fst (post_insight_values_parse base (JObj ((''value'', JObj kvs) # rest)))).
            row_get r ''end_time'' = None) \<and>
         (\<forall>r \<in> set (fst (page_insight_values_parse base (JObj ((''value'', JObj kvs) # rest)))).
            row_get r ''end_time'' = map_of ((''value'', JObj kvs) # rest) ''end_time'')"
proof -
  from assms have none: "map_of (rev base) ''end_time'' = None"
    by (simp add: dict_keys_def map_of_eq_None_iff)
  show ?thesis
    using none
    by (auto simp: post_insight_values_parse_def page_insight_values_parse_def map_add_def
        dest!: gen_for_yields gen_yieldsD split: prod.splits option.splits)
qed

theorem breakdown_end_time_witness:
  "''end_time'' \<notin> set (dict_keys [(''name'', JStr ''n'')]) \<and>
   fst (post_insight_values_parse [(''name'', JStr ''n'')]
     (JObj [(''value'', JObj [(''a'', JInt 1)]), (''end_time'', JStr ''T'')])) =
     [JObj [(''context'', JStr ''a''), (''value'', JInt 1), (''name'', JStr ''n'')]] \<and>
   list_all (\<lambda>r. row_get r ''end_time'' = None) (fst (post_insight_values_parse [(''name'', JStr ''n'')]
     (JObj [(''value'', JObj [(''a'', JInt 1)]), (''end_time'', JStr ''T'')])))"
  using breakdown_end_time [of "[(''name'', JStr ''n'')]" "[(''a'', JInt 1)]" "[(''end_time'', JStr ''T'')]"]
  by (simp add: post_insight_values_parse_def gen_yield_def list_all_iff)

end
