(* ===== verification/Stream.thy ===== *)
theory Stream
  imports PyStr
begin

text \<open>
  The stream classes of src/tap_facebook_pages/streams.py as data. The six
  subclasses of \<open>FacebookPagesStream\<close> are the constructors of
  \<open>stream_kind\<close>, the attributes each class declares are a \<open>stream_class\<close>
  record value, and each method they override is a definition that dispatches
  on the kind. The configuration a run gives the streams (the class-level
  \<open>access_tokens\<close> table and \<open>metrics\<close> list, \<open>config['columns']\<close>, the
  schema's property names) is the record \<open>config\<close>; a partition is the page it
  reads and the starting timestamp the SDK derives for it from the stored state;
  the one attribute the stream object changes during a run, \<open>self.page_id\<close>, is
  the record \<open>stream_obj\<close>.
\<close>

datatype stream_kind = Page | Posts | PostTaggedProfile | PostAttachments | PageInsights | PostInsights

record config =
  access_tokens :: "(string \<times> string) list"
  metrics :: "string list"
  columns :: "string list option"
  schema_properties :: "string list"

record partition =
  part_page_id :: string
  part_start :: "int option"

record stream_obj =
  page_id :: "string option"

text \<open>The class attributes a stream class declares (lines 147-154 and their
  counterparts in the other classes): \<open>name\<close> and \<open>tap_stream_id\<close>
  (\<open>None\<close> where the class sets \<open>None\<close>), \<open>path\<close>, \<open>primary_keys\<close>,
  \<open>replication_key\<close>, the \<open>forced_replication_method\<close> or
  \<open>replication_method\<close> attribute where the class sets one, and the schema file
  under \<open>SCHEMAS_DIR\<close>.\<close>

record stream_class =
  cls_name :: "string option"
  cls_tap_stream_id :: "string option"
  cls_path :: string
  cls_primary_keys :: "string list"
  cls_replication_key :: "string option"
  cls_forced_replication_method :: "string option"
  cls_replication_method :: "string option"
  cls_schema_file :: string

definition page_class :: stream_class where
  "page_class = \<lparr>cls_name = Some ''page'', cls_tap_stream_id = Some ''page'', cls_path = [],
     cls_primary_keys = [''id''], cls_replication_key = None,
     cls_forced_replication_method = Some ''FULL_TABLE'', cls_replication_method = None,
     cls_schema_file = ''page.json''\<rparr>"

definition posts_class :: stream_class where
  "posts_class = \<lparr>cls_name = Some ''posts'', cls_tap_stream_id = Some ''posts'',
     cls_path = ''/posts'', cls_primary_keys = [''id''], cls_replication_key = Some ''created_time'',
     cls_forced_replication_method = None, cls_replication_method = Some ''INCREMENTAL'',
     cls_schema_file = ''posts.json''\<rparr>"

definition tagged_profile_class :: stream_class where
  "tagged_profile_class = \<lparr>cls_name = Some ''post_tagged_profile'',
     cls_tap_stream_id = Some ''post_tagged_profile'', cls_path = ''/posts'',
     cls_primary_keys = [''id''], cls_replication_key = Some ''post_created_time'',
     cls_forced_replication_method = None, cls_replication_method = Some ''INCREMENTAL'',
     cls_schema_file = ''post_tagged_profile.json''\<rparr>"

definition post_attachments_class :: stream_class where
  "post_attachments_class = \<lparr>cls_name = Some ''post_attachments'',
     cls_tap_stream_id = Some ''post_attachments'', cls_path = ''/posts'',
     cls_primary_keys = [''id''], cls_replication_key = Some ''post_created_time'',
     cls_forced_replication_method = None, cls_replication_method = Some ''INCREMENTAL'',
     cls_schema_file = ''post_attachments.json''\<rparr>"

definition page_insights_class :: stream_class where
  "page_insights_class = \<lparr>cls_name = None, cls_tap_stream_id = None, cls_path = ''/insights'',
     cls_primary_keys = [''id''], cls_replication_key = None,
     cls_forced_replication_method = Some ''FULL_TABLE'', cls_replication_method = None,
     cls_schema_file = ''page_insights.json''\<rparr>"

definition post_insights_class :: stream_class where
  "post_insights_class = \<lparr>cls_name = Some [], cls_tap_stream_id = Some [],
     cls_path = ''/published_posts'', cls_primary_keys = [''id''],
     cls_replication_key = Some ''post_created_time'',
     cls_forced_replication_method = None, cls_replication_method = Some ''INCREMENTAL'',
     cls_schema_file = ''post_insights.json''\<rparr>"

text \<open>The class of each stream, whose attributes \<open>self.path\<close>,
  \<open>self.replication_key\<close>, ... read.\<close>

fun class_of :: "stream_kind \<Rightarrow> stream_class" where
  "class_of Page = page_class"
| "class_of Posts = posts_class"
| "class_of PostTaggedProfile = tagged_profile_class"
| "class_of PostAttachments = post_attachments_class"
| "class_of PageInsights = page_insights_class"
| "class_of PostInsights = post_insights_class"

text \<open>\<open>self.path\<close>, appended to the page's URL.\<close>

definition stream_path :: "stream_kind \<Rightarrow> string" where
  "stream_path k = cls_path (class_of k)"

text \<open>\<open>self.replication_key\<close>: \<open>None\<close> for the full-table streams.\<close>

definition replication_key :: "stream_kind \<Rightarrow> string option" where
  "replication_key k = cls_replication_key (class_of k)"

text \<open>\<open>BASE_URL.format(page_id=...)\<close> followed by the stream's path.\<close>

definition request_path :: "stream_kind \<Rightarrow> partition \<Rightarrow> string" where
  "request_path k part = ''https://graph.facebook.com/v10.0/'' @ part_page_id part @ stream_path k"

section \<open>Lemmas\<close>

lemmas stream_class_defs [simp] =
  page_class_def posts_class_def tagged_profile_class_def post_attachments_class_def
  page_insights_class_def post_insights_class_def stream_path_def replication_key_def

end
