(* ===== verification/Params.thy ===== *)
theory Params
  imports Stream
begin

text \<open>
  The parameter builders and next-page-token functions of the streams: the base
  \<open>FacebookPagesStream.get_url_params\<close> and \<open>get_next_page_token\<close>, the
  overrides of \<open>Page\<close>, \<open>Posts\<close>, \<open>PostTaggedProfile\<close>, \<open>PostAttachments\<close>,
  \<open>PostInsights\<close>, and the time-window clamp of \<open>PageInsights\<close> (its
  \<open>get_url_params\<close> bounds \<open>until\<close>, its \<open>get_next_page_token\<close> drops a
  \<open>next\<close> link whose window has stalled). \<open>now\<close> is \<open>int(t.time())\<close> at the
  call. Parameters are dicts: the base builds \<open>since\<close> (an int),
  \<open>access_token\<close> and \<open>limit\<close>; a token's parameters are
  \<open>parse_qs\<close>'s lists of strings. \<open>get_url_params\<close> also sets
  \<open>self.page_id\<close>, so it returns the updated stream object beside the parameters
  or the exception.
\<close>

section \<open>Parameter builders\<close>

definition base_url_params :: "config \<Rightarrow> partition \<Rightarrow> json \<Rightarrow> dict result" where
  "base_url_params cfg part tok =
     (if py_truthy tok then token_params tok
      else
        (let p0 = (case part_start part of None \<Rightarrow> [] | Some ts \<Rightarrow> dict_set [] ''since'' (JInt ts));
             p1 = (case map_of (access_tokens cfg) (part_page_id part) of
                     Some t \<Rightarrow> dict_set p0 ''access_token'' (JStr t)
                   | None \<Rightarrow> p0)
         in Inr (dict_set p1 ''limit'' (JInt 100))))"

text \<open>\<open>','.join(config['columns'])\<close> if configured, else the schema's property names.\<close>

definition fields_param :: "config \<Rightarrow> string" where
  "fields_param cfg = py_join '','' (case columns cfg of Some cs \<Rightarrow> cs | None \<Rightarrow> schema_properties cfg)"

definition day_seconds :: int where
  "day_seconds = 86400"

definition window_seconds :: int where
  "window_seconds = 8035200"

definition stall_seconds :: int where
  "stall_seconds = 172800"

text \<open>\<open>x + n\<close> for an int parameter, \<open>int(x)\<close> for a parameter value.\<close>

fun py_add_int :: "json \<Rightarrow> int \<Rightarrow> int result" where
  "py_add_int (JInt i) n = Inr (i + n)"
| "py_add_int _ n = Inl TypeError"

fun py_int_json :: "json \<Rightarrow> int result" where
  "py_int_json (JStr s) = py_int s"
| "py_int_json (JInt i) = Inr i"
| "py_int_json _ = Inl TypeError"

text \<open>\<open>xs[0] = v\<close> on a list.\<close>

fun py_set_first :: "json \<Rightarrow> json \<Rightarrow> json result" where
  "py_set_first (JList (x # xs)) v = Inr (JList (v # xs))"
| "py_set_first (JList []) v = Inl IndexError"
| "py_set_first _ v = Inl TypeError"

text \<open>\<open>PageInsights.get_url_params\<close>, lines 272-280: the window's \<open>until\<close>.\<close>

definition page_insights_until :: "int \<Rightarrow> dict \<Rightarrow> json \<Rightarrow> dict result" where
  "page_insights_until now params tok =
     (if \<not> py_truthy tok then
        r_bind (py_getitem (JObj params) ''since'') (\<lambda>since.
        r_bind (py_add_int since window_seconds) (\<lambda>until.
        Inr (dict_set params ''until'' (JInt (if until \<le> now then until else now - day_seconds)))))
      else
        r_bind (py_getitem (JObj params) ''until'') (\<lambda>us.
        r_bind (py_index us 0) (\<lambda>u0.
        r_bind (py_int_json u0) (\<lambda>until.
          if now < until then
            r_bind (py_set_first us (JStr (py_str (now - day_seconds)))) (\<lambda>us'.
            Inr (dict_set params ''until'' us'))
          else Inr params))))"

definition page_insights_url_params :: "config \<Rightarrow> int \<Rightarrow> dict \<Rightarrow> json \<Rightarrow> dict result" where
  "page_insights_url_params cfg now params tok =
     r_bind (page_insights_until now params tok) (\<lambda>p.
     Inr (dict_set p ''metric'' (JStr (py_join '','' (metrics cfg)))))"

text \<open>What each subclass adds to the base parameters: \<open>Page.get_url_params\<close>
  adds \<open>fields\<close> whether or not there is a token; the post streams return the
  token's parameters unchanged.\<close>

definition page_url_params :: "config \<Rightarrow> dict \<Rightarrow> dict result" where
  "page_url_params cfg params = Inr (dict_set params ''fields'' (JStr (fields_param cfg)))"

definition posts_url_params :: "config \<Rightarrow> json \<Rightarrow> dict \<Rightarrow> dict result" where
  "posts_url_params cfg tok params =
     (if py_truthy tok then Inr params else Inr (dict_set params ''fields'' (JStr (fields_param cfg))))"

definition tagged_profile_url_params :: "json \<Rightarrow> dict \<Rightarrow> dict result" where
  "tagged_profile_url_params tok params =
     (if py_truthy tok then Inr params else Inr (dict_set params ''fields'' (JStr ''id,created_time,to'')))"

definition post_attachments_url_params :: "json \<Rightarrow> dict \<Rightarrow> dict result" where
  "post_attachments_url_params tok params =
     (if py_truthy tok then Inr params
      else Inr (dict_set params ''fields'' (JStr ''id,created_time,attachments'')))"

definition post_insights_url_params :: "config \<Rightarrow> json \<Rightarrow> dict \<Rightarrow> dict result" where
  "post_insights_url_params cfg tok params =
     (if py_truthy tok then Inr params
      else Inr (dict_set params ''fields''
             (JStr (''id,created_time,insights.metric('' @ py_join '','' (metrics cfg) @ '')''))))"

text \<open>Method dispatch on the stream class.\<close>

fun stream_url_params :: "stream_kind \<Rightarrow> config \<Rightarrow> int \<Rightarrow> json \<Rightarrow> dict \<Rightarrow> dict result" where
  "stream_url_params Page cfg now tok params = page_url_params cfg params"
| "stream_url_params Posts cfg now tok params = posts_url_params cfg tok params"
| "stream_url_params PostTaggedProfile cfg now tok params = tagged_profile_url_params tok params"
| "stream_url_params PostAttachments cfg now tok params = post_attachments_url_params tok params"
| "stream_url_params PageInsights cfg now tok params = page_insights_url_params cfg now params tok"
| "stream_url_params PostInsights cfg now tok params = post_insights_url_params cfg tok params"

text \<open>\<open>get_url_params\<close>: \<open>self.page_id\<close> is set first, whatever follows.\<close>

definition get_url_params ::
  "stream_kind \<Rightarrow> config \<Rightarrow> int \<Rightarrow> stream_obj \<Rightarrow> partition \<Rightarrow> json \<Rightarrow> stream_obj \<times> dict result" where
  "get_url_params k cfg now st part tok =
     (st\<lparr>page_id := Some (part_page_id part)\<rparr>,
      r_bind (base_url_params cfg part tok) (stream_url_params k cfg now tok))"

section \<open>Next-page tokens\<close>

text \<open>\<open>resp_json["paging"]["next"]\<close> if present, else \<open>None\<close>.\<close>

definition base_next_page_token :: "json \<Rightarrow> json result" where
  "base_next_page_token resp =
     r_bind (py_contains resp ''paging'') (\<lambda>has_paging.
       if \<not> has_paging then Inr JNull
       else r_bind (py_getitem resp ''paging'') (\<lambda>pg.
            r_bind (py_contains pg ''next'') (\<lambda>has_next.
              if has_next then py_getitem pg ''next'' else Inr JNull)))"

text \<open>\<open>int(params[k][0])\<close>.\<close>

definition int_param :: "dict \<Rightarrow> string \<Rightarrow> int result" where
  "int_param ps k = r_bind (py_getitem (JObj ps) k) (\<lambda>v. r_bind (py_index v 0) py_int_json)"

text \<open>\<open>PageInsights.get_next_page_token\<close>: the \<open>next\<close> link, unless its window
  starts within two days of now or ends within the two days after now.\<close>

definition insights_next_page_token :: "int \<Rightarrow> json \<Rightarrow> json result" where
  "insights_next_page_token now resp =
     r_bind (py_contains resp ''paging'') (\<lambda>has_paging.
       if \<not> has_paging then Inr JNull
       else r_bind (py_getitem resp ''paging'') (\<lambda>pg.
            r_bind (py_contains pg ''next'') (\<lambda>has_next.
              if \<not> has_next then Inr JNull
              else r_bind (py_getitem pg ''next'') (\<lambda>nxt.
                   r_bind (token_params nxt) (\<lambda>ps.
                   r_bind (int_param ps ''since'') (\<lambda>since.
                   r_bind (int_param ps ''until'') (\<lambda>until.
                     if now - stall_seconds \<le> since \<or> (now \<le> until \<and> until \<le> now + stall_seconds)
                     then Inr JNull else Inr nxt)))))))"

fun get_next_page_token :: "stream_kind \<Rightarrow> int \<Rightarrow> json \<Rightarrow> json result" where
  "get_next_page_token PageInsights now resp = insights_next_page_token now resp"
| "get_next_page_token Page now resp = base_next_page_token resp"
| "get_next_page_token Posts now resp = base_next_page_token resp"
| "get_next_page_token PostTaggedProfile now resp = base_next_page_token resp"
| "get_next_page_token PostAttachments now resp = base_next_page_token resp"
| "get_next_page_token PostInsights now resp = base_next_page_token resp"

text \<open>The values \<open>requests\<close> encodes into a query string: ints, strings, and
  lists of strings (the lists \<open>parse_qs\<close> returns).\<close>

fun param_value_ok :: "json \<Rightarrow> bool" where
  "param_value_ok (JInt i) = True"
| "param_value_ok (JStr s) = True"
| "param_value_ok (JList vs) = list_all (\<lambda>v. case v of JStr s \<Rightarrow> True | _ \<Rightarrow> False) vs"
| "param_value_ok _ = False"

section \<open>Lemmas\<close>

lemmas url_params_defs = page_url_params_def posts_url_params_def tagged_profile_url_params_def
  post_attachments_url_params_def post_insights_url_params_def

declare url_params_defs [simp]

lemma base_first_Inr: "\<exists>ps. base_url_params cfg part JNull = Inr ps"
  by (simp add: base_url_params_def Let_def)

lemma map_of_base_first:
  "base_url_params cfg part JNull = Inr ps \<Longrightarrow>
   map_of ps ''limit'' = Some (JInt 100) \<and>
   map_of ps ''access_token'' = map_option JStr (map_of (access_tokens cfg) (part_page_id part)) \<and>
   map_of ps ''since'' = map_option JInt (part_start part)"
  by (auto simp: base_url_params_def Let_def split: option.splits)

lemma dict_set_params_ok:
  "list_all (param_value_ok \<circ> snd) d \<Longrightarrow> param_value_ok v \<Longrightarrow> list_all (param_value_ok \<circ> snd) (dict_set d k v)"
  by (induction d k v rule: dict_set.induct) auto

lemma qs_add_params_ok:
  "list_all (param_value_ok \<circ> snd) d \<Longrightarrow> list_all (param_value_ok \<circ> snd) (qs_add d (n, v))"
  by (induction d "(n, v)" rule: qs_add.induct) (auto split: json.splits)

lemma parse_qs_params_ok: "list_all (param_value_ok \<circ> snd) (parse_qs q)"
proof -
  have "list_all (param_value_ok \<circ> snd) (foldl qs_add d fs)" if "list_all (param_value_ok \<circ> snd) d" for d fs
    using that by (induction fs arbitrary: d) (auto intro: qs_add_params_ok)
  then show ?thesis by (simp add: parse_qs_def)
qed

lemma params_ok_lookup:
  "list_all (param_value_ok \<circ> snd) d \<Longrightarrow> map_of d k = Some v \<Longrightarrow> param_value_ok v"
  by (induction d) (auto split: if_splits)

lemma py_set_first_ok:
  "param_value_ok us \<Longrightarrow> py_set_first us (JStr s) = Inr us' \<Longrightarrow> param_value_ok us'"
  by (cases "(us, JStr s)" rule: py_set_first.cases) auto

lemma base_url_params_ok:
  "base_url_params cfg part tok = Inr ps \<Longrightarrow> list_all (param_value_ok \<circ> snd) ps"
  by (cases tok rule: token_params.cases)
     (auto simp: base_url_params_def Let_def parse_qs_params_ok intro!: dict_set_params_ok
       split: option.splits if_splits)

lemma page_insights_until_ok:
  assumes ok: "list_all (param_value_ok \<circ> snd) ps0" and r: "page_insights_until now ps0 tok = Inr ps"
  shows "list_all (param_value_ok \<circ> snd) ps"
proof (cases "py_truthy tok")
  case False
  with r obtain u where "ps = dict_set ps0 ''until'' (JInt u)"
    unfolding page_insights_until_def r_bind_def
    by (simp split: sum.splits option.splits) metis
  with ok show ?thesis by (simp add: dict_set_params_ok)
next
  case True
  show ?thesis
  proof (cases "map_of ps0 ''until''")
    case None
    with True r show ?thesis by (simp add: page_insights_until_def)
  next
    case (Some us)
    have us_ok: "param_value_ok us" using params_ok_lookup [OF ok Some] .
    from True r Some have
      "r_bind (py_index us 0) (\<lambda>u0. r_bind (py_int_json u0) (\<lambda>until.
         if now < until then r_bind (py_set_first us (JStr (py_str (now - day_seconds))))
                               (\<lambda>us'. Inr (dict_set ps0 ''until'' us'))
         else Inr ps0)) = Inr ps"
      by (simp add: page_insights_until_def)
    then have "ps = ps0 \<or> (\<exists>us'. py_set_first us (JStr (py_str (now - day_seconds))) = Inr us' \<and>
                                  ps = dict_set ps0 ''until'' us')"
      unfolding r_bind_def by (simp split: sum.splits if_splits)
    with ok us_ok show ?thesis by (auto intro: dict_set_params_ok py_set_first_ok)
  qed
qed

section \<open>Properties of the parameter builders\<close>

text \<open>C29 A page after the first is requested with exactly the parameters its token
  encodes: for Posts, PostTaggedProfile, PostAttachments and PostInsights the
  parameters are \<open>parse_qs\<close> of the token's query, and nothing is added.\<close>

theorem token_params_passthrough:
  assumes "k \<in> {Posts, PostTaggedProfile, PostAttachments, PostInsights}" and "py_truthy tok"
  shows "snd (get_url_params k cfg now st part tok) = token_params tok"
  using assms
  by (cases "token_params tok") (auto simp: get_url_params_def base_url_params_def)

theorem token_params_passthrough_witness:
  "Posts \<in> {Posts, PostTaggedProfile, PostAttachments, PostInsights} \<and> py_truthy (JStr ''h?a=1'') \<and>
   snd (get_url_params Posts \<lparr>access_tokens = [], metrics = [], columns = None, schema_properties = []\<rparr> 0
          \<lparr>page_id = None\<rparr> \<lparr>part_page_id = ''1'', part_start = None\<rparr> (JStr ''h?a=1'')) =
   Inr [(''a'', JList [JStr ''1''])]"
  using token_params_passthrough [of Posts "JStr ''h?a=1''"
      "\<lparr>access_tokens = [], metrics = [], columns = None, schema_properties = []\<rparr>" 0
      "\<lparr>page_id = None\<rparr>" "\<lparr>part_page_id = ''1'', part_start = None\<rparr>"]
  by (simp add: parse_qs_eval)

text \<open>C35 Page does not return early on a token: its parameters for a later page are
  the token's parameters with \<open>fields\<close> added.\<close>

theorem page_fields_on_token:
  assumes "py_truthy tok"
  shows "snd (get_url_params Page cfg now st part tok) =
         r_bind (token_params tok) (\<lambda>ps. Inr (dict_set ps ''fields'' (JStr (fields_param cfg))))"
  using assms by (cases "token_params tok") (simp_all add: get_url_params_def base_url_params_def)

theorem page_fields_on_token_witness:
  "py_truthy (JStr ''h?a=1'') \<and>
   snd (get_url_params Page \<lparr>access_tokens = [(''1'', ''TOK'')], metrics = [''page_fans''], columns = None, schema_properties = [''id'', ''name'']\<rparr> 0 \<lparr>page_id = None\<rparr> \<lparr>part_page_id = ''1'', part_start = None\<rparr> (JStr ''h?a=1'')) =
     Inr [(''a'', JList [JStr ''1'']), (''fields'', JStr ''id,name'')]"
  using page_fields_on_token [where tok = "JStr ''h?a=1''" and cfg = "\<lparr>access_tokens = [(''1'', ''TOK'')], metrics = [''page_fans''], columns = None, schema_properties = [''id'', ''name'']\<rparr>" and now = 0 and st = "\<lparr>page_id = None\<rparr>" and part = "\<lparr>part_page_id = ''1'', part_start = None\<rparr>"]
  by (simp add: parse_qs_eval fields_param_def)

text \<open>C28 The first request of every stream carries \<open>limit=100\<close>, the partition's
  access token exactly when the token table has one, and \<open>since\<close> exactly when
  a starting timestamp is known (PageInsights needs one, see below).\<close>

theorem first_request_params:
  assumes "k \<noteq> PageInsights \<or> part_start part \<noteq> None"
  shows "\<exists>ps. snd (get_url_params k cfg now st part JNull) = Inr ps \<and>
    map_of ps ''limit'' = Some (JInt 100) \<and>
    map_of ps ''access_token'' = map_option JStr (map_of (access_tokens cfg) (part_page_id part)) \<and>
    map_of ps ''since'' = map_option JInt (part_start part)"
proof -
  obtain ps0 where b: "base_url_params cfg part JNull = Inr ps0"
    using base_first_Inr by blast
  note m = map_of_base_first [OF b]
  show ?thesis
  proof (cases k)
    case PageInsights
    with assms obtain s where s: "part_start part = Some s" by auto
    with m have "map_of ps0 ''since'' = Some (JInt s)" by simp
    with PageInsights b m s show ?thesis
      by (simp add: get_url_params_def page_insights_url_params_def page_insights_until_def)
  qed (use b m in \<open>simp_all add: get_url_params_def\<close>)
qed

theorem first_request_params_witness:
  "Posts \<noteq> PageInsights \<and>
   snd (get_url_params Posts \<lparr>access_tokens = [(''1'', ''TOK'')], metrics = [''page_fans''], columns = None, schema_properties = [''id'', ''name'']\<rparr> 0 \<lparr>page_id = None\<rparr> \<lparr>part_page_id = ''1'', part_start = Some 5\<rparr> JNull) =
     Inr [(''since'', JInt 5), (''access_token'', JStr ''TOK''), (''limit'', JInt 100),
          (''fields'', JStr ''id,name'')] \<and>
   (\<exists>ps. snd (get_url_params Posts \<lparr>access_tokens = [(''1'', ''TOK'')], metrics = [''page_fans''], columns = None, schema_properties = [''id'', ''name'']\<rparr> 0 \<lparr>page_id = None\<rparr> \<lparr>part_page_id = ''1'', part_start = Some 5\<rparr> JNull) = Inr ps \<and>
    map_of ps ''limit'' = Some (JInt 100) \<and> map_of ps ''access_token'' = Some (JStr ''TOK'') \<and>
    map_of ps ''since'' = Some (JInt 5))"
  using first_request_params [where k = Posts and part = "\<lparr>part_page_id = ''1'', part_start = Some 5\<rparr>" and cfg = "\<lparr>access_tokens = [(''1'', ''TOK'')], metrics = [''page_fans''], columns = None, schema_properties = [''id'', ''name'']\<rparr>" and now = 0 and st = "\<lparr>page_id = None\<rparr>"]
  by (simp add: get_url_params_def base_url_params_def fields_param_def)

text \<open>C24 Window clamp, first request of PageInsights: \<open>until\<close> is
  \<open>since + 8035200\<close> when that is not in the future, else one day before now;
  so \<open>until\<close> never exceeds now. \<open>metric\<close> is the comma-joined metric list.\<close>

theorem page_insights_first_window:
  assumes "part_start part = Some s"
  shows "\<exists>ps u. snd (get_url_params PageInsights cfg now st part JNull) = Inr ps \<and>
    map_of ps ''until'' = Some (JInt u) \<and>
    u = (if s + 8035200 \<le> now then s + 8035200 else now - 86400) \<and> u \<le> now \<and>
    map_of ps ''metric'' = Some (JStr (py_join '','' (metrics cfg)))"
proof -
  obtain ps0 where b: "base_url_params cfg part JNull = Inr ps0"
    using base_first_Inr by blast
  with assms have "map_of ps0 ''since'' = Some (JInt s)" using map_of_base_first [OF b] by simp
  with b show ?thesis
    by (simp add: get_url_params_def page_insights_url_params_def page_insights_until_def
        window_seconds_def day_seconds_def)
qed

theorem page_insights_first_window_witness:
  "part_start \<lparr>part_page_id = ''1'', part_start = Some 5\<rparr> = Some 5 \<and>
   (\<exists>ps u. snd (get_url_params PageInsights \<lparr>access_tokens = [(''1'', ''TOK'')], metrics = [''page_fans''], columns = None, schema_properties = [''id'', ''name'']\<rparr> 1000000000 \<lparr>page_id = None\<rparr> \<lparr>part_page_id = ''1'', part_start = Some 5\<rparr> JNull) = Inr ps \<and>
    map_of ps ''until'' = Some (JInt u) \<and> u = 8035205 \<and> u \<le> 1000000000 \<and>
    map_of ps ''metric'' = Some (JStr ''page_fans''))"
  using page_insights_first_window [where part = "\<lparr>part_page_id = ''1'', part_start = Some 5\<rparr>" and s = 5 and now = 1000000000 and cfg = "\<lparr>access_tokens = [(''1'', ''TOK'')], metrics = [''page_fans''], columns = None, schema_properties = [''id'', ''name'']\<rparr>" and st = "\<lparr>page_id = None\<rparr>"]
  by simp

text \<open>C36 PageInsights without a starting timestamp cannot build its first request:
  \<open>params['since']\<close> raises \<open>KeyError\<close> in \<open>get_url_params\<close>.\<close>

theorem page_insights_no_start:
  assumes "part_start part = None"
  shows "snd (get_url_params PageInsights cfg now st part JNull) = Inl (KeyError ''since'')"
proof -
  obtain ps0 where b: "base_url_params cfg part JNull = Inr ps0"
    using base_first_Inr by blast
  with assms have "map_of ps0 ''since'' = None" using map_of_base_first [OF b] by simp
  with b show ?thesis
    by (simp add: get_url_params_def page_insights_url_params_def page_insights_until_def)
qed

theorem page_insights_no_start_witness:
  "part_start \<lparr>part_page_id = ''1'', part_start = None\<rparr> = None \<and>
   snd (get_url_params PageInsights \<lparr>access_tokens = [(''1'', ''TOK'')], metrics = [''page_fans''], columns = None, schema_properties = [''id'', ''name'']\<rparr> 0 \<lparr>page_id = None\<rparr> \<lparr>part_page_id = ''1'', part_start = None\<rparr> JNull) = Inl (KeyError ''since'')"
  using page_insights_no_start [where part = "\<lparr>part_page_id = ''1'', part_start = None\<rparr>" and cfg = "\<lparr>access_tokens = [(''1'', ''TOK'')], metrics = [''page_fans''], columns = None, schema_properties = [''id'', ''name'']\<rparr>" and now = 0 and st = "\<lparr>page_id = None\<rparr>"] by simp

text \<open>C25 Window clamp, later requests of PageInsights: the token's \<open>until\<close> is
  kept unless it is in the future, where it becomes one day before now, so the
  \<open>until\<close> sent never exceeds now; its text reads back as that number.\<close>

theorem page_insights_token_clamp:
  assumes "py_truthy tok" and "token_params tok = Inr ps"
    and "map_of ps ''until'' = Some (JList (JStr u # rest))" and "py_int u = Inr t"
  shows "\<exists>ps' u'. snd (get_url_params PageInsights cfg now st part tok) = Inr ps' \<and>
    map_of ps' ''until'' = Some (JList (JStr u' # rest)) \<and>
    py_int u' = Inr (if now < t then now - 86400 else t)"
  using assms
  by (auto simp: get_url_params_def base_url_params_def page_insights_url_params_def
      page_insights_until_def py_int_py_str day_seconds_def)

theorem page_insights_token_clamp_witness:
  "py_truthy (JStr ''h?until=200000'') \<and> token_params (JStr ''h?until=200000'') = Inr [(''until'', JList [JStr ''200000''])] \<and>
   map_of [(''until'', JList [JStr ''200000''])] ''until'' = Some (JList [JStr ''200000'']) \<and>
   py_int ''200000'' = Inr 200000 \<and>
   (\<exists>ps' u'. snd (get_url_params PageInsights \<lparr>access_tokens = [], metrics = [''m''], columns = None,
        schema_properties = []\<rparr> 100000 \<lparr>page_id = None\<rparr> \<lparr>part_page_id = ''1'', part_start = None\<rparr>
        (JStr ''h?until=200000'')) = Inr ps' \<and>
      map_of ps' ''until'' = Some (JList [JStr u']) \<and> py_int u' = Inr 13600)"
proof -
  have tp: "token_params (JStr ''h?until=200000'') = Inr [(''until'', JList [JStr ''200000''])]"
    by (simp add: parse_qs_eval)
  have pi: "py_int ''200000'' = Inr 200000" by (simp add: py_int_eval)
  show ?thesis
    using page_insights_token_clamp [of "JStr ''h?until=200000''" "[(''until'', JList [JStr ''200000''])]"
        "''200000''" "[]" 200000 "\<lparr>access_tokens = [], metrics = [''m''], columns = None, schema_properties = []\<rparr>"
        100000 "\<lparr>page_id = None\<rparr>" "\<lparr>part_page_id = ''1'', part_start = None\<rparr>"] tp pi
    by simp
qed


text \<open>C26 Stall suppression: PageInsights follows a \<open>next\<close> link only when its
  window neither starts within two days before now nor ends within the two days from
  now; otherwise pagination ends there.\<close>

theorem insights_next_token:
  assumes "base_next_page_token resp = Inr (JStr u)" and "parse_qs (url_query u) = ps"
    and "int_param ps ''since'' = Inr s" and "int_param ps ''until'' = Inr t"
  shows "get_next_page_token PageInsights now resp =
    Inr (if now - 172800 \<le> s \<or> (now \<le> t \<and> t \<le> now + 172800) then JNull else JStr u)"
  using assms
  by (auto simp: insights_next_page_token_def base_next_page_token_def stall_seconds_def
      split: if_splits dest!: r_bind_InrD)

theorem insights_next_token_witness:
  "base_next_page_token (JObj [(''paging'', JObj [(''next'', JStr ''h?since=110000&until=150000'')])]) =
     Inr (JStr ''h?since=110000&until=150000'') \<and>
   parse_qs (url_query ''h?since=110000&until=150000'') =
     [(''since'', JList [JStr ''110000'']), (''until'', JList [JStr ''150000''])] \<and>
   int_param [(''since'', JList [JStr ''110000'']), (''until'', JList [JStr ''150000''])] ''since'' = Inr 110000 \<and>
   int_param [(''since'', JList [JStr ''110000'']), (''until'', JList [JStr ''150000''])] ''until'' = Inr 150000 \<and>
   get_next_page_token PageInsights 200000
     (JObj [(''paging'', JObj [(''next'', JStr ''h?since=110000&until=150000'')])]) = Inr JNull"
proof -
  have b: "base_next_page_token (JObj [(''paging'', JObj [(''next'', JStr ''h?since=110000&until=150000'')])]) =
     Inr (JStr ''h?since=110000&until=150000'')" by (simp add: base_next_page_token_def)
  have q: "parse_qs (url_query ''h?since=110000&until=150000'') =
     [(''since'', JList [JStr ''110000'']), (''until'', JList [JStr ''150000''])]"
    by (simp add: parse_qs_eval)
  have s: "int_param [(''since'', JList [JStr ''110000'']), (''until'', JList [JStr ''150000''])] ''since''
     = Inr 110000"
    by (simp add: int_param_def py_int_eval)
  have u: "int_param [(''since'', JList [JStr ''110000'']), (''until'', JList [JStr ''150000''])] ''until''
     = Inr 150000"
    by (simp add: int_param_def py_int_eval)
  show ?thesis using insights_next_token [OF b q s u, of 200000] b q s u by simp
qed


text \<open>C27 Every parameter dict \<open>get_url_params\<close> builds, for every stream and every
  token, holds only ints, strings and lists of strings, the values \<open>requests\<close>
  encodes into a query string.\<close>

theorem url_params_typed:
  assumes "snd (get_url_params k cfg now st part tok) = Inr ps"
  shows "list_all (param_value_ok \<circ> snd) ps"
proof -
  from assms have "r_bind (base_url_params cfg part tok) (stream_url_params k cfg now tok) = Inr ps"
    by (simp add: get_url_params_def)
  then obtain ps0 where b: "base_url_params cfg part tok = Inr ps0"
    and s: "stream_url_params k cfg now tok ps0 = Inr ps"
    by (cases "base_url_params cfg part tok") simp_all
  have ok0: "list_all (param_value_ok \<circ> snd) ps0" using base_url_params_ok [OF b] .
  show ?thesis
  proof (cases "k = PageInsights")
    case True
    with s have "r_bind (page_insights_until now ps0 tok) (\<lambda>p.
        Inr (dict_set p ''metric'' (JStr (py_join '','' (metrics cfg))))) = Inr ps"
      by (simp add: page_insights_url_params_def)
    then obtain p where "page_insights_until now ps0 tok = Inr p"
      and "ps = dict_set p ''metric'' (JStr (py_join '','' (metrics cfg)))"
      by (cases "page_insights_until now ps0 tok") simp_all
    with ok0 show ?thesis by (simp add: dict_set_params_ok page_insights_until_ok)
  next
    case False
    then have "ps = ps0 \<or> (\<exists>f. ps = dict_set ps0 ''fields'' (JStr f))"
      using s by (cases k) (auto split: if_splits)
    with ok0 show ?thesis by (auto simp: dict_set_params_ok)
  qed
qed

theorem url_params_typed_witness:
  "snd (get_url_params PageInsights \<lparr>access_tokens = [(''1'', ''TOK'')], metrics = [''page_fans''], columns = None,
      schema_properties = []\<rparr> 100000 \<lparr>page_id = None\<rparr> \<lparr>part_page_id = ''1'', part_start = None\<rparr>
      (JStr ''https://g/1/insights?since=10&until=200000'')) =
     Inr [(''since'', JList [JStr ''10'']), (''until'', JList [JStr ''13600'']), (''metric'', JStr ''page_fans'')] \<and>
   list_all (param_value_ok \<circ> snd)
     [(''since'', JList [JStr ''10'']), (''until'', JList [JStr ''13600'']), (''metric'', JStr ''page_fans'')]"
proof -
  have g: "snd (get_url_params PageInsights \<lparr>access_tokens = [(''1'', ''TOK'')], metrics = [''page_fans''], columns = None,
      schema_properties = []\<rparr> 100000 \<lparr>page_id = None\<rparr> \<lparr>part_page_id = ''1'', part_start = None\<rparr>
      (JStr ''https://g/1/insights?since=10&until=200000'')) =
     Inr [(''since'', JList [JStr ''10'']), (''until'', JList [JStr ''13600'']), (''metric'', JStr ''page_fans'')]"
    by (simp add: get_url_params_def base_url_params_def page_insights_url_params_def page_insights_until_def
        parse_qs_eval py_int_eval py_str_eval day_seconds_def hex_value_def)
  show ?thesis using url_params_typed [OF g] g by simp
qed

end
