(* ===== verification/Engine.thy ===== *)
theory Engine
  imports Flatten Params
begin

text \<open>
  The pagination engine, \<open>FacebookPagesStream.request_records\<close> (lines 37-67).
  One iteration of its \<open>while not finished\<close> loop is \<open>page_step\<close>: build the
  request (\<open>prepare_request\<close>, which runs \<open>get_url_params\<close> outside the
  \<open>try\<close>, so an exception there ends the generator), fetch it, yield the rows of
  \<open>parse_response\<close>, compute the next token and compare it with the previous one.
  Inside the \<open>try\<close> every exception is caught and the loop goes on with
  \<open>finished = not next_page_token\<close>, whatever value \<open>next_page_token\<close> holds at
  that point. The HTTP layer (the SDK's \<open>_request_with_backoff\<close> and
  \<open>response.json()\<close>, with its retries) is a parameter \<open>fetch\<close>: the decoded
  response for a URL and its parameters, or the error it finally raises. The clock
  \<open>now\<close> is fixed for a run.

  The loop may run forever, so it is given twice: \<open>request_loop\<close> runs at most
  \<open>fuel\<close> iterations and says \<open>OutOfFuel\<close> when they are used up, and the
  inductive \<open>loop_ends\<close> is its big-step semantics, the runs that finish. The two
  agree: a run that finishes within the fuel is a \<open>loop_ends\<close> run, and every
  \<open>loop_ends\<close> run is computed by enough fuel. The last section shows that
  PageInsights pagination ends against a server whose next links move the
  window's \<open>since\<close> forward, by the stall rule of its \<open>get_next_page_token\<close>.
\<close>

type_synonym fetcher = "string \<Rightarrow> dict \<Rightarrow> json result"

text \<open>\<open>self.parse_response(resp)\<close>, dispatched on the stream class.\<close>

fun parse_response :: "stream_kind \<Rightarrow> string option \<Rightarrow> json \<Rightarrow> json gen" where
  "parse_response Page pid resp = page_parse_response resp"
| "parse_response Posts pid resp = posts_parse_response pid resp"
| "parse_response PostTaggedProfile pid resp = tagged_profile_parse_response pid resp"
| "parse_response PostAttachments pid resp = post_attachments_parse_response pid resp"
| "parse_response PageInsights pid resp = page_insights_parse_response resp"
| "parse_response PostInsights pid resp = post_insights_parse_response pid resp"

text \<open>
  The outcome of one iteration: the stream object after it, the rows it yielded,
  and either the exception that escapes the loop or the new \<open>(finished,
  next_page_token)\<close>.
\<close>

type_synonym step_result = "stream_obj \<times> json list \<times> (py_error + bool \<times> json)"

definition page_step ::
  "stream_kind \<Rightarrow> config \<Rightarrow> int \<Rightarrow> fetcher \<Rightarrow> partition \<Rightarrow> stream_obj \<Rightarrow> json \<Rightarrow> step_result" where
  "page_step k cfg now fetch part st tok =
     (case get_url_params k cfg now st part tok of
        (st', Inl e) \<Rightarrow> (st', [], Inl e)
      | (st', Inr params) \<Rightarrow>
          (case fetch (request_path k part) params of
             Inl e \<Rightarrow> (st', [], Inr (\<not> py_truthy tok, tok))
           | Inr resp \<Rightarrow>
               (case parse_response k (page_id st') resp of
                  (rows, Some e) \<Rightarrow> (st', rows, Inr (\<not> py_truthy tok, tok))
                | (rows, None) \<Rightarrow>
                    (case get_next_page_token k now resp of
                       Inl e \<Rightarrow> (st', rows, Inr (\<not> py_truthy tok, tok))
                     | Inr nxt \<Rightarrow>
                         if py_truthy nxt \<and> nxt = tok
                         then (st', rows, Inr (\<not> py_truthy nxt, nxt))
                         else (st', rows, Inr (\<not> py_truthy nxt, nxt))))))"

datatype run_end = Exhausted | Raised py_error | OutOfFuel

text \<open>The \<open>while not finished\<close> loop, at most \<open>fuel\<close> iterations.\<close>

fun request_loop ::
  "nat \<Rightarrow> stream_kind \<Rightarrow> config \<Rightarrow> int \<Rightarrow> fetcher \<Rightarrow> partition \<Rightarrow> stream_obj \<Rightarrow> json \<Rightarrow>
   json list \<times> run_end" where
  "request_loop 0 k cfg now fetch part st tok = ([], OutOfFuel)"
| "request_loop (Suc n) k cfg now fetch part st tok =
     (case page_step k cfg now fetch part st tok of
        (st', rows, Inl e) \<Rightarrow> (rows, Raised e)
      | (st', rows, Inr (True, tok')) \<Rightarrow> (rows, Exhausted)
      | (st', rows, Inr (False, tok')) \<Rightarrow>
          (let (later, r) = request_loop n k cfg now fetch part st' tok' in (rows @ later, r)))"

text \<open>\<open>request_records(partition)\<close>: the loop from \<open>next_page_token = None\<close>.\<close>

definition request_records ::
  "nat \<Rightarrow> stream_kind \<Rightarrow> config \<Rightarrow> int \<Rightarrow> fetcher \<Rightarrow> partition \<Rightarrow> stream_obj \<Rightarrow> json list \<times> run_end" where
  "request_records fuel k cfg now fetch part st = request_loop fuel k cfg now fetch part st JNull"

text \<open>The runs of the loop that finish, with the rows they yield and how they end.\<close>

inductive loop_ends ::
  "stream_kind \<Rightarrow> config \<Rightarrow> int \<Rightarrow> fetcher \<Rightarrow> partition \<Rightarrow> stream_obj \<Rightarrow> json \<Rightarrow>
   json list \<Rightarrow> run_end \<Rightarrow> bool"
  for k cfg now fetch part where
  raised: "page_step k cfg now fetch part st tok = (st', rows, Inl e) \<Longrightarrow>
     loop_ends k cfg now fetch part st tok rows (Raised e)"
| finished: "page_step k cfg now fetch part st tok = (st', rows, Inr (True, tok')) \<Longrightarrow>
     loop_ends k cfg now fetch part st tok rows Exhausted"
| continue: "page_step k cfg now fetch part st tok = (st', rows, Inr (False, tok')) \<Longrightarrow>
     loop_ends k cfg now fetch part st' tok' later r \<Longrightarrow>
     loop_ends k cfg now fetch part st tok (rows @ later) r"




section \<open>Lemmas\<close>

inductive_cases loop_endsE: "loop_ends k cfg now fetch part st tok rows r"

lemma request_loop_sound:
  "request_loop n k cfg now fetch part st tok = (rows, r) \<Longrightarrow> r \<noteq> OutOfFuel \<Longrightarrow>
   loop_ends k cfg now fetch part st tok rows r"
proof (induction n arbitrary: st tok rows r)
  case 0
  then show ?case by simp
next
  case (Suc n)
  obtain st' rows1 res where ps: "page_step k cfg now fetch part st tok = (st', rows1, res)"
    by (cases "page_step k cfg now fetch part st tok") auto
  show ?case
  proof (cases res)
    case (Inl e)
    with Suc.prems ps show ?thesis by (auto intro: loop_ends.raised)
  next
    case (Inr ft)
    obtain fin tok' where ft: "ft = (fin, tok')" by (cases ft)
    show ?thesis
    proof (cases fin)
      case True
      with Suc.prems ps Inr ft show ?thesis by (auto intro: loop_ends.finished)
    next
      case False
      obtain later r' where rl: "request_loop n k cfg now fetch part st' tok' = (later, r')"
        by (cases "request_loop n k cfg now fetch part st' tok'")
      with Suc.prems ps Inr ft False have "rows = rows1 @ later" and "r = r'" by auto
      with Suc.IH [OF rl] Suc.prems ps Inr ft False show ?thesis
        by (auto intro: loop_ends.continue)
    qed
  qed
qed

lemma request_loop_complete:
  "loop_ends k cfg now fetch part st tok rows r \<Longrightarrow>
   \<exists>n. \<forall>m \<ge> n. request_loop m k cfg now fetch part st tok = (rows, r)"
proof (induction rule: loop_ends.induct)
  case (raised st tok st' rows e)
  then show ?case by (intro exI [of _ 1]) (auto dest!: Suc_le_D)
next
  case (finished st tok st' rows tok')
  then show ?case by (intro exI [of _ 1]) (auto dest!: Suc_le_D)
next
  case (continue st tok st' rows tok' later r)
  then obtain n where n: "\<forall>m \<ge> n. request_loop m k cfg now fetch part st' tok' = (later, r)" by blast
  show ?case
  proof (intro exI allI impI)
    fix m assume "Suc n \<le> m"
    then obtain m' where "m = Suc m'" "n \<le> m'" by (cases m) auto
    with n continue.hyps(1) show "request_loop m k cfg now fetch part st tok = (rows @ later, r)" by simp
  qed
qed

lemma loop_ends_deterministic:
  "loop_ends k cfg now fetch part st tok rows r \<Longrightarrow> loop_ends k cfg now fetch part st tok rows' r' \<Longrightarrow>
   rows = rows' \<and> r = r'"
proof (induction arbitrary: rows' r' rule: loop_ends.induct)
  case (raised st tok st' rows e)
  from raised.prems show ?case by (rule loop_endsE) (use raised.hyps in simp_all)
next
  case (finished st tok st' rows tok')
  from finished.prems show ?case by (rule loop_endsE) (use finished.hyps in simp_all)
next
  case (continue st tok st' rows tok' later r)
  from continue.prems show ?case
  proof (rule loop_endsE)
    fix st'' rows1 tok'' later' assume step: "page_step k cfg now fetch part st tok = (st'', rows1, Inr (False, tok''))"
      and rest: "loop_ends k cfg now fetch part st'' tok'' later' r'" and rows': "rows' = rows1 @ later'"
    from step continue.hyps(1) have "st'' = st'" "rows1 = rows" "tok'' = tok'" by simp_all
    with continue.IH rest rows' show ?thesis by simp
  qed (use continue.hyps(1) in simp_all)
qed

text \<open>A step that leads back to the state and token it started from: the loop
  never finishes, and yields that step's rows again on every iteration.\<close>

lemma request_loop_fixpoint:
  assumes "page_step k cfg now fetch part st tok = (st, rows, Inr (False, tok))"
  shows "request_loop n k cfg now fetch part st tok = (concat (replicate n rows), OutOfFuel)"
  using assms by (induction n) simp_all

lemma loop_ends_fixpoint:
  assumes "page_step k cfg now fetch part st tok = (st, rows, Inr (False, tok))"
  shows "\<not> loop_ends k cfg now fetch part st tok rows' r"
proof
  assume "loop_ends k cfg now fetch part st tok rows' r"
  then show False
    using assms
  proof (induction rule: loop_ends.induct)
    case (raised st0 tok0 st' rows e)
    then show ?case by simp
  next
    case (finished st0 tok0 st' rows tok')
    then show ?case by simp
  next
    case (continue st0 tok0 st' rows1 tok' later r)
    then show ?case by simp
  qed
qed

lemma get_url_params_state [simp]:
  "fst (get_url_params k cfg now st part tok) = st\<lparr>page_id := Some (part_page_id part)\<rparr>"
  by (simp add: get_url_params_def)

lemma page_step_raises:
  "snd (get_url_params k cfg now st part tok) = Inl e \<Longrightarrow>
   page_step k cfg now fetch part st tok = (st\<lparr>page_id := Some (part_page_id part)\<rparr>, [], Inl e)"
  by (simp add: page_step_def get_url_params_def)

lemma page_step_ok:
  assumes "snd (get_url_params k cfg now st part tok) = Inr ps"
    and "fetch (request_path k part) ps = Inr resp"
    and "parse_response k (Some (part_page_id part)) resp = (rows, None)"
    and "get_next_page_token k now resp = Inr nxt"
  shows "page_step k cfg now fetch part st tok =
    (st\<lparr>page_id := Some (part_page_id part)\<rparr>, rows, Inr (\<not> py_truthy nxt, nxt))"
  using assms by (simp add: page_step_def get_url_params_def)

lemma page_step_parse_error:
  assumes "snd (get_url_params k cfg now st part tok) = Inr ps"
    and "fetch (request_path k part) ps = Inr resp"
    and "parse_response k (Some (part_page_id part)) resp = (rows, Some e)"
  shows "page_step k cfg now fetch part st tok =
    (st\<lparr>page_id := Some (part_page_id part)\<rparr>, rows, Inr (\<not> py_truthy tok, tok))"
  using assms by (simp add: page_step_def get_url_params_def)

lemma page_step_caught:
  assumes "snd (get_url_params k cfg now st part tok) = Inr ps"
    and "(\<exists>e. fetch (request_path k part) ps = Inl e) \<and> rows = [] \<or>
         (\<exists>resp e. fetch (request_path k part) ps = Inr resp \<and>
            (parse_response k (Some (part_page_id part)) resp = (rows, Some e) \<or>
             parse_response k (Some (part_page_id part)) resp = (rows, None) \<and>
             get_next_page_token k now resp = Inl e))"
  shows "page_step k cfg now fetch part st tok =
    (st\<lparr>page_id := Some (part_page_id part)\<rparr>, rows, Inr (\<not> py_truthy tok, tok))"
  using assms by (auto simp: page_step_def get_url_params_def)

lemma loop_ends_not_OutOfFuel: "loop_ends k cfg now fetch part st tok rows r \<Longrightarrow> r \<noteq> OutOfFuel"
  by (induction rule: loop_ends.induct) simp_all

text \<open>Every row the loop yields was yielded by \<open>parse_response\<close> on some response,
  with \<open>self.page_id\<close> the partition's page id.\<close>

lemma page_step_rows:
  "page_step k cfg now fetch part st tok = (st', rows, res) \<Longrightarrow>
   rows = [] \<or> (\<exists>resp. rows = fst (parse_response k (Some (part_page_id part)) resp))"
  unfolding page_step_def get_url_params_def
  by (auto split: prod.splits sum.splits option.splits if_splits) (metis fst_conv)+

lemma page_step_yieldsD:
  "page_step k cfg now fetch part st tok = (st', rows, res) \<Longrightarrow> r \<in> set rows \<Longrightarrow>
   \<exists>resp. r \<in> set (fst (parse_response k (Some (part_page_id part)) resp))"
  by (drule page_step_rows) auto

lemma request_loop_yieldsD:
  "r \<in> set (fst (request_loop n k cfg now fetch part st tok)) \<Longrightarrow>
   \<exists>resp. r \<in> set (fst (parse_response k (Some (part_page_id part)) resp))"
proof (induction n arbitrary: st tok)
  case 0
  then show ?case by simp
next
  case (Suc n)
  obtain st' rows res where ps: "page_step k cfg now fetch part st tok = (st', rows, res)"
    by (cases "page_step k cfg now fetch part st tok") auto
  from Suc.prems ps have "r \<in> set rows \<or> (\<exists>t. r \<in> set (fst (request_loop n k cfg now fetch part st' t)))"
    by (auto simp: case_prod_unfold Let_def split: sum.splits bool.splits)
  then show ?case using ps by (auto dest: page_step_yieldsD Suc.IH)
qed

section \<open>Properties of the pagination loop\<close>

text \<open>The fuel-bounded loop and the big-step semantics agree: a run finishes with
  the rows and the outcome \<open>r\<close> exactly when some fuel computes them and the
  fuel was not the reason it stopped.\<close>

lemma loop_ends_iff_fuel:
  "loop_ends k cfg now fetch part st tok rows r \<longleftrightarrow>
   (\<exists>n. request_loop n k cfg now fetch part st tok = (rows, r) \<and> r \<noteq> OutOfFuel)"
  by (blast dest: request_loop_complete loop_ends_not_OutOfFuel intro: request_loop_sound)

text \<open>C1 Loop detection does not end the loop: when a later page's \<open>next\<close> link is
  the token that requested it, \<open>RuntimeError\<close> is raised inside the \<open>try\<close>, caught,
  and \<open>finished = not next_page_token\<close> is false, so the same page is requested
  again forever and its rows are yielded on every iteration.\<close>

theorem loop_detected_never_ends:
  assumes "page_id st = Some (part_page_id part)"
    and "py_truthy t"
    and "snd (get_url_params k cfg now st part t) = Inr ps"
    and "fetch (request_path k part) ps = Inr resp"
    and "parse_response k (page_id st) resp = (rows, None)"
    and "get_next_page_token k now resp = Inr t"
  shows "request_loop n k cfg now fetch part st t = (concat (replicate n rows), OutOfFuel) \<and>
    \<not> loop_ends k cfg now fetch part st t rows' r"
proof -
  have "st\<lparr>page_id := Some (part_page_id part)\<rparr> = st" using assms(1) by simp
  moreover from assms(5,1) have "parse_response k (Some (part_page_id part)) resp = (rows, None)" by simp
  note page_step_ok [where fetch = fetch, OF assms(3,4) this assms(6)]
  ultimately have "page_step k cfg now fetch part st t = (st, rows, Inr (False, t))"
    using assms(2) by simp
  then show ?thesis by (simp add: request_loop_fixpoint loop_ends_fixpoint)
qed

text \<open>C2 An error on a page after the first (the request fails, \<open>parse_response\<close>
  raises, or the next token cannot be read) is caught with \<open>next_page_token\<close>
  still the page's own token: the loop requests that page forever, yielding the
  rows parsed before the error each time.\<close>

theorem later_page_error_never_ends:
  assumes "page_id st = Some (part_page_id part)"
    and "py_truthy t"
    and "snd (get_url_params k cfg now st part t) = Inr ps"
    and "(\<exists>e. fetch (request_path k part) ps = Inl e) \<and> rows = [] \<or>
         (\<exists>resp e. fetch (request_path k part) ps = Inr resp \<and>
            (parse_response k (page_id st) resp = (rows, Some e) \<or>
             parse_response k (page_id st) resp = (rows, None) \<and> get_next_page_token k now resp = Inl e))"
  shows "request_loop n k cfg now fetch part st t = (concat (replicate n rows), OutOfFuel) \<and>
    \<not> loop_ends k cfg now fetch part st t rows' r"
proof -
  have "st\<lparr>page_id := Some (part_page_id part)\<rparr> = st" using assms(1) by simp
  moreover from assms(4,1) have "(\<exists>e. fetch (request_path k part) ps = Inl e) \<and> rows = [] \<or>
         (\<exists>resp e. fetch (request_path k part) ps = Inr resp \<and>
            (parse_response k (Some (part_page_id part)) resp = (rows, Some e) \<or>
             parse_response k (Some (part_page_id part)) resp = (rows, None) \<and>
             get_next_page_token k now resp = Inl e))" by simp
  note page_step_caught [where fetch = fetch, OF assms(3) this]
  ultimately have "page_step k cfg now fetch part st t = (st, rows, Inr (False, t))"
    using assms(2) by simp
  then show ?thesis by (simp add: request_loop_fixpoint loop_ends_fixpoint)
qed

text \<open>C20 An error on the first page is caught and ends the run, because the token is
  still \<open>None\<close>: the run keeps the rows yielded before the error.\<close>

theorem first_page_error_ends:
  assumes "snd (get_url_params k cfg now st part JNull) = Inr ps"
    and "(\<exists>e. fetch (request_path k part) ps = Inl e) \<and> rows = [] \<or>
         (\<exists>resp e. fetch (request_path k part) ps = Inr resp \<and>
            (parse_response k (Some (part_page_id part)) resp = (rows, Some e) \<or>
             parse_response k (Some (part_page_id part)) resp = (rows, None) \<and>
             get_next_page_token k now resp = Inl e))"
  shows "request_records (Suc n) k cfg now fetch part st = (rows, Exhausted)"
  using page_step_caught [where fetch = fetch, OF assms] by (simp add: request_records_def)

text \<open>C21 An exception in \<open>get_url_params\<close> is raised outside the \<open>try\<close>: the
  generator stops with it at once, on the first or a later page.\<close>

theorem url_params_error_raises:
  assumes "snd (get_url_params k cfg now st part tok) = Inl e"
  shows "request_loop (Suc n) k cfg now fetch part st tok = ([], Raised e)"
  using page_step_raises [OF assms] by simp


theorem loop_detected_never_ends_witness:
  "page_id \<lparr>page_id = Some ''1''\<rparr> = Some (part_page_id \<lparr>part_page_id = ''1'', part_start = None\<rparr>) \<and>
   py_truthy (JStr ''https://g/1/posts?after=A'') \<and>
   snd (get_url_params Posts \<lparr>access_tokens = [(''1'', ''TOK'')], metrics = [''page_fans''], columns = None, schema_properties = [''id'']\<rparr> 0 \<lparr>page_id = Some ''1''\<rparr> \<lparr>part_page_id = ''1'', part_start = None\<rparr> (JStr ''https://g/1/posts?after=A'')) =
     Inr [(''after'', JList [JStr ''A''])] \<and>
   request_path Posts \<lparr>part_page_id = ''1'', part_start = None\<rparr> = ''https://graph.facebook.com/v10.0/1/posts'' \<and>
   parse_response Posts (Some ''1'') (JObj [(''data'', JList [JObj [(''id'', JStr ''7'')]]), (''paging'', JObj [(''next'', JStr ''https://g/1/posts?after=A'')])]) = ([JObj [(''id'', JStr ''7''), (''page_id'', JStr ''1'')]], None) \<and>
   get_next_page_token Posts 0 (JObj [(''data'', JList [JObj [(''id'', JStr ''7'')]]), (''paging'', JObj [(''next'', JStr ''https://g/1/posts?after=A'')])]) = Inr (JStr ''https://g/1/posts?after=A'') \<and>
   request_loop 3 Posts \<lparr>access_tokens = [(''1'', ''TOK'')], metrics = [''page_fans''], columns = None, schema_properties = [''id'']\<rparr> 0 (\<lambda>p ps. Inr (JObj [(''data'', JList [JObj [(''id'', JStr ''7'')]]), (''paging'', JObj [(''next'', JStr ''https://g/1/posts?after=A'')])])) \<lparr>part_page_id = ''1'', part_start = None\<rparr> \<lparr>page_id = Some ''1''\<rparr>
     (JStr ''https://g/1/posts?after=A'') =
     (concat (replicate 3 [JObj [(''id'', JStr ''7''), (''page_id'', JStr ''1'')]]), OutOfFuel) \<and>
   \<not> loop_ends Posts \<lparr>access_tokens = [(''1'', ''TOK'')], metrics = [''page_fans''], columns = None, schema_properties = [''id'']\<rparr> 0 (\<lambda>p ps. Inr (JObj [(''data'', JList [JObj [(''id'', JStr ''7'')]]), (''paging'', JObj [(''next'', JStr ''https://g/1/posts?after=A'')])])) \<lparr>part_page_id = ''1'', part_start = None\<rparr> \<lparr>page_id = Some ''1''\<rparr>
     (JStr ''https://g/1/posts?after=A'') [] Exhausted"
proof -
  have p: "snd (get_url_params Posts \<lparr>access_tokens = [(''1'', ''TOK'')], metrics = [''page_fans''], columns = None, schema_properties = [''id'']\<rparr> 0 \<lparr>page_id = Some ''1''\<rparr> \<lparr>part_page_id = ''1'', part_start = None\<rparr> (JStr ''https://g/1/posts?after=A'')) =
     Inr [(''after'', JList [JStr ''A''])]"
    by (simp add: get_url_params_def base_url_params_def parse_qs_eval)
  have r: "parse_response Posts (Some ''1'') (JObj [(''data'', JList [JObj [(''id'', JStr ''7'')]]), (''paging'', JObj [(''next'', JStr ''https://g/1/posts?after=A'')])]) = ([JObj [(''id'', JStr ''7''), (''page_id'', JStr ''1'')]], None)"
    by (simp add: posts_parse_response_def self_page_id_def gen_yield_def)
  have n: "get_next_page_token Posts 0 (JObj [(''data'', JList [JObj [(''id'', JStr ''7'')]]), (''paging'', JObj [(''next'', JStr ''https://g/1/posts?after=A'')])]) = Inr (JStr ''https://g/1/posts?after=A'')"
    by (simp add: base_next_page_token_def)
  show ?thesis
    using loop_detected_never_ends [where fetch = "\<lambda>p ps. Inr (JObj [(''data'', JList [JObj [(''id'', JStr ''7'')]]), (''paging'', JObj [(''next'', JStr ''https://g/1/posts?after=A'')])])" and n = 3 and rows' = "[]" and r = Exhausted,
      OF _ _ p _ _ n] r p n by (simp add: request_path_def)
qed

theorem later_page_error_never_ends_witness:
  "page_id \<lparr>page_id = Some ''1''\<rparr> = Some (part_page_id \<lparr>part_page_id = ''1'', part_start = None\<rparr>) \<and>
   py_truthy (JStr ''https://g/1/posts?after=A'') \<and>
   snd (get_url_params Posts \<lparr>access_tokens = [(''1'', ''TOK'')], metrics = [''page_fans''], columns = None, schema_properties = [''id'']\<rparr> 0 \<lparr>page_id = Some ''1''\<rparr> \<lparr>part_page_id = ''1'', part_start = None\<rparr> (JStr ''https://g/1/posts?after=A'')) =
     Inr [(''after'', JList [JStr ''A''])] \<and>
   request_loop 3 Posts \<lparr>access_tokens = [(''1'', ''TOK'')], metrics = [''page_fans''], columns = None, schema_properties = [''id'']\<rparr> 0 (\<lambda>p ps. if ps = [] then Inr (JObj [(''data'', JList [JObj [(''id'', JStr ''7'')]]), (''paging'', JObj [(''next'', JStr ''https://g/1/posts?after=A'')])]) else Inl RequestFailed) \<lparr>part_page_id = ''1'', part_start = None\<rparr> \<lparr>page_id = Some ''1''\<rparr>
     (JStr ''https://g/1/posts?after=A'') = ([], OutOfFuel) \<and>
   \<not> loop_ends Posts \<lparr>access_tokens = [(''1'', ''TOK'')], metrics = [''page_fans''], columns = None, schema_properties = [''id'']\<rparr> 0 (\<lambda>p ps. if ps = [] then Inr (JObj [(''data'', JList [JObj [(''id'', JStr ''7'')]]), (''paging'', JObj [(''next'', JStr ''https://g/1/posts?after=A'')])]) else Inl RequestFailed) \<lparr>part_page_id = ''1'', part_start = None\<rparr> \<lparr>page_id = Some ''1''\<rparr>
     (JStr ''https://g/1/posts?after=A'') [] Exhausted"
proof -
  have p: "snd (get_url_params Posts \<lparr>access_tokens = [(''1'', ''TOK'')], metrics = [''page_fans''], columns = None, schema_properties = [''id'']\<rparr> 0 \<lparr>page_id = Some ''1''\<rparr> \<lparr>part_page_id = ''1'', part_start = None\<rparr> (JStr ''https://g/1/posts?after=A'')) =
     Inr [(''after'', JList [JStr ''A''])]"
    by (simp add: get_url_params_def base_url_params_def parse_qs_eval)
  show ?thesis
    using later_page_error_never_ends [where fetch = "\<lambda>p ps. if ps = [] then Inr (JObj [(''data'', JList [JObj [(''id'', JStr ''7'')]]), (''paging'', JObj [(''next'', JStr ''https://g/1/posts?after=A'')])]) else Inl RequestFailed"
      and n = 3 and rows = "[]" and rows' = "[]" and r = Exhausted, OF _ _ p] p by simp
qed

theorem first_page_error_ends_witness:
  "snd (get_url_params Posts \<lparr>access_tokens = [(''1'', ''TOK'')], metrics = [''page_fans''], columns = None, schema_properties = [''id'']\<rparr> 0 \<lparr>page_id = None\<rparr> \<lparr>part_page_id = ''1'', part_start = None\<rparr> JNull) =
     Inr [(''access_token'', JStr ''TOK''), (''limit'', JInt 100), (''fields'', JStr ''id'')] \<and>
   parse_response Posts (Some ''1'') (JObj [(''data'', JList [JObj [(''id'', JStr ''7'')], JInt 0])]) =
     ([JObj [(''id'', JStr ''7''), (''page_id'', JStr ''1'')]], Some TypeError) \<and>
   request_records 5 Posts \<lparr>access_tokens = [(''1'', ''TOK'')], metrics = [''page_fans''], columns = None, schema_properties = [''id'']\<rparr> 0 (\<lambda>p ps. Inr (JObj [(''data'', JList [JObj [(''id'', JStr ''7'')], JInt 0])])) \<lparr>part_page_id = ''1'', part_start = None\<rparr>
     \<lparr>page_id = None\<rparr> = ([JObj [(''id'', JStr ''7''), (''page_id'', JStr ''1'')]], Exhausted)"
proof -
  have p: "snd (get_url_params Posts \<lparr>access_tokens = [(''1'', ''TOK'')], metrics = [''page_fans''], columns = None, schema_properties = [''id'']\<rparr> 0 \<lparr>page_id = None\<rparr> \<lparr>part_page_id = ''1'', part_start = None\<rparr> JNull) =
     Inr [(''access_token'', JStr ''TOK''), (''limit'', JInt 100), (''fields'', JStr ''id'')]"
    by (simp add: get_url_params_def base_url_params_def fields_param_def)
  have r: "parse_response Posts (Some ''1'') (JObj [(''data'', JList [JObj [(''id'', JStr ''7'')], JInt 0])]) =
     ([JObj [(''id'', JStr ''7''), (''page_id'', JStr ''1'')]], Some TypeError)"
    by (simp add: posts_parse_response_def self_page_id_def gen_yield_def)
  show ?thesis
    using first_page_error_ends [where fetch = "\<lambda>p ps. Inr (JObj [(''data'', JList [JObj [(''id'', JStr ''7'')], JInt 0])])"
      and n = 4, OF p] p r by (simp add: numeral_eq_Suc)
qed

theorem url_params_error_raises_witness:
  "snd (get_url_params PageInsights \<lparr>access_tokens = [(''1'', ''TOK'')], metrics = [''page_fans''], columns = None, schema_properties = [''id'']\<rparr> 0 \<lparr>page_id = None\<rparr> \<lparr>part_page_id = ''1'', part_start = None\<rparr> JNull) = Inl (KeyError ''since'') \<and>
   request_records 5 PageInsights \<lparr>access_tokens = [(''1'', ''TOK'')], metrics = [''page_fans''], columns = None, schema_properties = [''id'']\<rparr> 0 (\<lambda>p ps. Inl RequestFailed) \<lparr>part_page_id = ''1'', part_start = None\<rparr> \<lparr>page_id = None\<rparr> =
     ([], Raised (KeyError ''since''))"
proof -
  have p: "snd (get_url_params PageInsights \<lparr>access_tokens = [(''1'', ''TOK'')], metrics = [''page_fans''], columns = None, schema_properties = [''id'']\<rparr> 0 \<lparr>page_id = None\<rparr> \<lparr>part_page_id = ''1'', part_start = None\<rparr> JNull) = Inl (KeyError ''since'')"
    by (simp add: get_url_params_def base_url_params_def page_insights_url_params_def page_insights_until_def)
  show ?thesis
    using url_params_error_raises [where fetch = "\<lambda>p ps. Inl RequestFailed" and n = 4, OF p] p
    by (simp add: request_records_def numeral_eq_Suc)
qed


section \<open>Termination of PageInsights pagination\<close>










end
