(* ===== verification/Sync.thy ===== *)
theory Sync
  imports Engine
begin

text \<open>
  The partition and state coordinator. From \<open>streams.py\<close>: \<open>post_process\<close>
  (lines 104-107, and \<open>Page\<close>'s override at lines 163-164), which writes the
  partition's \<open>page_id\<close> into each row, and \<open>get_stream_or_partition_state\<close>
  (lines 136-144), which selects the state dict of the stream or of one partition
  and resets a list-valued \<open>progress_markers\<close> in place. The state is the SDK's
  per-stream dict: its own keys, and under \<open>partitions\<close> a list of dicts, each
  with the partition's \<open>context\<close>. The selected dict is the stored one, so the
  reset changes the stream's state; the model returns the updated state together
  with the selected dict. The SDK code the method calls (\<open>get_partition_state\<close>,
  which finds the entry of a context, raising \<open>ValueError\<close> on duplicates, or
  appends a new one), the replication cursor (the maximum replication key over
  the emitted rows) and the sync of one partition (rows of \<open>request_records\<close>,
  post-processed, then the cursor advanced) are modelled from the spec.
\<close>

section \<open>Post-processing\<close>

definition post_process :: "dict \<Rightarrow> json \<Rightarrow> json result" where
  "post_process ctx row =
     r_bind (py_contains (JObj ctx) ''page_id'') (\<lambda>has_page.
       if has_page then
         r_bind (py_getitem (JObj ctx) ''page_id'') (\<lambda>p. py_setitem row ''page_id'' p)
       else Inr row)"

fun stream_post_process :: "stream_kind \<Rightarrow> dict \<Rightarrow> json \<Rightarrow> json result" where
  "stream_post_process Page ctx row = Inr row"
| "stream_post_process k ctx row = post_process ctx row"

text \<open>The partition context the tap passes for a page: \<open>{"page_id": page_id}\<close>.\<close>

definition part_context :: "partition \<Rightarrow> dict" where
  "part_context part = [(''page_id'', JStr (part_page_id part))]"

section \<open>Stream and partition state\<close>

record stream_state =
  ss_own :: dict
  ss_partitions :: "dict list"

fun is_jlist :: "json \<Rightarrow> bool" where
  "is_jlist (JList xs) = True"
| "is_jlist _ = False"

text \<open>\<open>if "progress_markers" in state and isinstance(state.get(...), list):
  state["progress_markers"] = {}\<close>.\<close>

definition reset_progress_markers :: "dict \<Rightarrow> dict" where
  "reset_progress_markers st =
     (if ''progress_markers'' \<in> set (dict_keys st) \<and>
         (case map_of st ''progress_markers'' of Some v \<Rightarrow> is_jlist v | None \<Rightarrow> False)
      then dict_set st ''progress_markers'' (JObj [])
      else st)"

text \<open>Python's \<open>==\<close> on a stored context and a partition dict: the same keys,
  and the same value under each.\<close>

definition same_context :: "json \<Rightarrow> dict \<Rightarrow> bool" where
  "same_context c part =
     (case c of
        JObj d \<Rightarrow> set (dict_keys d) = set (dict_keys part) \<and>
                   list_all (\<lambda>k. map_of d k = map_of part k) (dict_keys d)
      | _ \<Rightarrow> False)"

text \<open>The SDK's \<open>_find_in_partitions_list\<close>: the positions of the entries whose
  \<open>context\<close> equals the partition, reading \<open>partition_state["context"]\<close> of each.\<close>

fun scan_partitions :: "dict \<Rightarrow> nat \<Rightarrow> dict list \<Rightarrow> nat list result" where
  "scan_partitions part i [] = Inr []"
| "scan_partitions part i (p # ps) =
     (case map_of p ''context'' of
        None \<Rightarrow> Inl (KeyError ''context'')
      | Some c \<Rightarrow> r_bind (scan_partitions part (Suc i) ps) (\<lambda>is.
                   Inr (if same_context c part then i # is else is)))"

definition find_partition :: "dict list \<Rightarrow> dict \<Rightarrow> nat option result" where
  "find_partition ps part =
     r_bind (scan_partitions part 0 ps) (\<lambda>is.
       case is of [] \<Rightarrow> Inr None | [i] \<Rightarrow> Inr (Some i) | _ \<Rightarrow> Inl ValueError)"

text \<open>The SDK's \<open>get_partition_state\<close>: the entry of the partition, appended
  with only its context when there is none.\<close>

definition get_partition_state :: "stream_state \<Rightarrow> dict \<Rightarrow> (stream_state \<times> nat) result" where
  "get_partition_state ss part =
     r_bind (find_partition (ss_partitions ss) part) (\<lambda>found.
       case found of
         Some i \<Rightarrow> Inr (ss, i)
       | None \<Rightarrow> Inr (ss\<lparr>ss_partitions := ss_partitions ss @ [[(''context'', JObj part)]]\<rparr>,
                     length (ss_partitions ss)))"

definition get_stream_or_partition_state ::
  "stream_state \<Rightarrow> dict option \<Rightarrow> (stream_state \<times> dict) result" where
  "get_stream_or_partition_state ss ctx =
     (case ctx of
        Some part \<Rightarrow>
          if part \<noteq> [] then
            r_bind (get_partition_state ss part) (\<lambda>(ss1, i).
              let st = reset_progress_markers (ss_partitions ss1 ! i)
              in Inr (ss1\<lparr>ss_partitions := (ss_partitions ss1)[i := st]\<rparr>, st))
          else
            (let st = reset_progress_markers (ss_own ss) in Inr (ss\<lparr>ss_own := st\<rparr>, st))
      | None \<Rightarrow>
          (let st = reset_progress_markers (ss_own ss) in Inr (ss\<lparr>ss_own := st\<rparr>, st)))"

text \<open>The context a stored partition state carries, when it is a dict.\<close>

definition entry_ctx :: "dict \<Rightarrow> dict option" where
  "entry_ctx p = (case map_of p ''context'' of Some (JObj d) \<Rightarrow> Some d | _ \<Rightarrow> None)"

definition same_ctx :: "dict option \<Rightarrow> dict option \<Rightarrow> bool" where
  "same_ctx c c' = (case (c, c') of (Some d, Some e) \<Rightarrow> same_context (JObj d) e | _ \<Rightarrow> False)"

text \<open>The shape the SDK keeps: every partition state has a dict context, and no two
  have equal contexts (a duplicate makes the lookup raise \<open>ValueError\<close>).\<close>

definition partitions_wf :: "dict list \<Rightarrow> bool" where
  "partitions_wf ps =
     (list_all (\<lambda>c. c \<noteq> None) (map entry_ctx ps) \<and>
      sorted_wrt (\<lambda>c c'. \<not> same_ctx c c') (map entry_ctx ps))"

definition state_wf :: "stream_state \<Rightarrow> bool" where
  "state_wf ss = partitions_wf (ss_partitions ss)"

section \<open>Replication cursor\<close>

text \<open>The cursor over any ordered key type: each row with a key raises it to the
  maximum of the old value and the key.\<close>

definition cursor_step :: "('r \<Rightarrow> 'a::linorder option) \<Rightarrow> 'a option \<Rightarrow> 'r \<Rightarrow> 'a option" where
  "cursor_step key cur r =
     (case key r of
        None \<Rightarrow> cur
      | Some v \<Rightarrow> Some (case cur of None \<Rightarrow> v | Some c \<Rightarrow> max c v))"

definition advance_cursor :: "('r \<Rightarrow> 'a::linorder option) \<Rightarrow> 'a option \<Rightarrow> 'r list \<Rightarrow> 'a option" where
  "advance_cursor key cur rows = foldl (cursor_step key) cur rows"

text \<open>The maximum of a finite set of keys, \<open>None\<close> for the empty set.\<close>

definition Max_opt :: "'a::linorder set \<Rightarrow> 'a option" where
  "Max_opt S = (if S = {} then None else Some (Max S))"

text \<open>The replication key of a row, a timestamp in seconds.\<close>

definition row_key :: "string \<Rightarrow> json \<Rightarrow> int option" where
  "row_key rk row = (case py_getitem row rk of Inr (JInt v) \<Rightarrow> Some v | _ \<Rightarrow> None)"

text \<open>The stored cursor, and the starting timestamp the next run reads from it.\<close>

definition save_cursor :: "dict \<Rightarrow> int option \<Rightarrow> dict" where
  "save_cursor st cur =
     (case cur of None \<Rightarrow> st | Some c \<Rightarrow> dict_set st ''replication_key_value'' (JInt c))"

definition starting_timestamp :: "dict \<Rightarrow> int option" where
  "starting_timestamp st =
     (case map_of st ''replication_key_value'' of Some (JInt v) \<Rightarrow> Some v | _ \<Rightarrow> None)"

section \<open>Syncing one partition\<close>

text \<open>The rows of \<open>request_records\<close>, each post-processed (an exception there
  ends the stream), and the cursor advanced over the rows emitted.\<close>

definition sync_partition ::
  "nat \<Rightarrow> stream_kind \<Rightarrow> config \<Rightarrow> int \<Rightarrow> fetcher \<Rightarrow> partition \<Rightarrow> stream_obj \<Rightarrow> int option \<Rightarrow>
   json list \<times> int option \<times> run_end" where
  "sync_partition fuel k cfg now fetch part st cur =
     (let (rows, e) = request_records fuel k cfg now fetch part st;
          (out, err) = gen_for (\<lambda>r. gen_let (stream_post_process k (part_context part) r) gen_yield) rows;
          cur' = (case replication_key k of None \<Rightarrow> cur | Some rk \<Rightarrow> advance_cursor (row_key rk) cur out)
      in (out, cur', case err of Some x \<Rightarrow> Raised x | None \<Rightarrow> e))"

section \<open>Syncing the partitions of a stream\<close>

text \<open>The SDK's \<open>_increment_stream_state\<close>: it asks
  \<open>get_stream_or_partition_state\<close> again for the partition's dict, the stored
  entry, and writes the bookmark into it in place.\<close>

definition store_cursor :: "stream_state \<Rightarrow> dict \<Rightarrow> int option \<Rightarrow> stream_state result" where
  "store_cursor ss part cur =
     r_bind (get_partition_state ss part) (\<lambda>(ss1, i).
       let st = save_cursor (reset_progress_markers (ss_partitions ss1 ! i)) cur
       in Inr (ss1\<lparr>ss_partitions := (ss_partitions ss1)[i := st]\<rparr>))"

text \<open>The SDK's sync of a stream over its partitions, one at a time in the
  caller's order: the partition's state dict (\<open>get_stream_or_partition_state\<close>),
  its starting timestamp, the sync of the partition, and the bookmark stored. A
  partition whose \<open>request_records\<close> ends (its pages exhausted, or a failure caught
  inside the loop) lets the run go on with the next one; an exception that escapes
  ends the whole run.\<close>

fun sync_partitions ::
  "nat \<Rightarrow> stream_kind \<Rightarrow> config \<Rightarrow> int \<Rightarrow> fetcher \<Rightarrow> stream_obj \<Rightarrow> stream_state \<Rightarrow> partition list \<Rightarrow>
   json list \<times> stream_state \<times> run_end" where
  "sync_partitions fuel k cfg now fetch st ss [] = ([], ss, Exhausted)"
| "sync_partitions fuel k cfg now fetch st ss (p # ps) =
     (case get_stream_or_partition_state ss (Some (part_context p)) of
        Inl e \<Rightarrow> ([], ss, Raised e)
      | Inr (ss1, pst) \<Rightarrow>
          (let cur0 = starting_timestamp pst;
               (rows, cur, r) = sync_partition fuel k cfg now fetch (p\<lparr>part_start := cur0\<rparr>) st cur0
           in case store_cursor ss1 (part_context p) cur of
                Inl e \<Rightarrow> (rows, ss1, Raised e)
              | Inr ss2 \<Rightarrow>
                  (case r of
                     Exhausted \<Rightarrow>
                       (let (rows', ss3, r') = sync_partitions fuel k cfg now fetch st ss2 ps
                        in (rows @ rows', ss3, r'))
                   | _ \<Rightarrow> (rows, ss2, r))))"

text \<open>The bookmark stored for a partition, \<open>None\<close> when it has no entry.\<close>

definition partition_cursor :: "stream_state \<Rightarrow> dict \<Rightarrow> int option" where
  "partition_cursor ss part =
     (case find_partition (ss_partitions ss) part of
        Inr (Some i) \<Rightarrow> starting_timestamp (ss_partitions ss ! i)
      | _ \<Rightarrow> None)"

text \<open>The position of the partition a row belongs to, by its \<open>page_id\<close>: the
  first partition whose page id the row carries (the length of the list when
  none does).\<close>

definition row_partition :: "partition list \<Rightarrow> json \<Rightarrow> nat" where
  "row_partition parts r = length (takeWhile (\<lambda>p. \<not> has_page_id (part_page_id p) r) parts)"

section \<open>Lemmas\<close>

lemma Max_opt_option [simp]: "Max_opt (set_option c) = c"
  by (cases c) (simp_all add: Max_opt_def)

lemma cursor_step_Max_opt:
  "cursor_step key cur r = Max_opt (set_option cur \<union> set_option (key r))"
  by (auto simp: cursor_step_def Max_opt_def max_def split: option.splits)

lemma Max_insert_Max:
  assumes "finite S" "S \<noteq> {}" "finite C"
  shows "Max (insert (Max S) C) = Max (S \<union> C)"
proof (cases "C = {}")
  case True
  then show ?thesis by simp
next
  case False
  with assms show ?thesis by (simp add: Max.union)
qed

lemma Max_opt_union:
  assumes "finite A" "finite B" "finite C"
  shows "Max_opt (set_option (Max_opt (A \<union> B)) \<union> C) = Max_opt (A \<union> B \<union> C)"
proof (cases "A \<union> B = {}")
  case True
  then show ?thesis by (simp add: Max_opt_def)
next
  case False
  then have "set_option (Max_opt (A \<union> B)) \<union> C = insert (Max (A \<union> B)) C"
    unfolding Max_opt_def by (simp only: if_False) simp
  moreover have "Max (insert (Max (A \<union> B)) C) = Max (A \<union> B \<union> C)"
    using assms False by (intro Max_insert_Max) simp_all
  ultimately show ?thesis using False by (simp add: Max_opt_def del: Max_insert, blast)
qed

lemma set_map_filter_Union: "set (List.map_filter f xs) = (\<Union>x \<in> set xs. set_option (f x))"
  by (induction xs) (auto simp: List.map_filter_simps split: option.splits)

lemma advance_cursor_Max_opt:
  "advance_cursor key cur rows = Max_opt (set_option cur \<union> set (List.map_filter key rows))"
proof (induction rows arbitrary: cur)
  case Nil
  then show ?case by (simp add: advance_cursor_def List.map_filter_simps)
next
  case (Cons r rows)
  have "advance_cursor key cur (r # rows) = advance_cursor key (cursor_step key cur r) rows"
    by (simp add: advance_cursor_def)
  also have "\<dots> = Max_opt (set_option (Max_opt (set_option cur \<union> set_option (key r))) \<union>
                               set (List.map_filter key rows))"
    by (simp add: Cons.IH cursor_step_Max_opt)
  also have "\<dots> = Max_opt (set_option cur \<union> set (List.map_filter key (r # rows)))"
    by (subst Max_opt_union) (auto simp: List.map_filter_simps split: option.splits
        intro: arg_cong [where f = Max_opt])
  finally show ?case .
qed

text \<open>Python's dict equality is equality of the lookups.\<close>

lemma same_context_iff: "same_context (JObj d) e \<longleftrightarrow> map_of d = map_of e"
proof
  assume a: "same_context (JObj d) e"
  show "map_of d = map_of e"
  proof
    fix k
    show "map_of d k = map_of e k"
    proof (cases "k \<in> set (dict_keys d)")
      case True
      with a show ?thesis by (simp add: same_context_def list_all_iff)
    next
      case False
      with a have "k \<notin> set (dict_keys e)" by (simp add: same_context_def)
      with False have "map_of d k = None" "map_of e k = None"
        by (simp_all add: dict_keys_def map_of_eq_None_iff)
      then show ?thesis by simp
    qed
  qed
next
  assume "map_of d = map_of e"
  then have "dom (map_of d) = dom (map_of e)" by simp
  then have "set (dict_keys d) = set (dict_keys e)" by (simp add: dict_keys_def dom_map_of_conv_image_fst)
  with \<open>map_of d = map_of e\<close> show "same_context (JObj d) e" by (simp add: same_context_def list_all_iff)
qed

lemma same_ctx_iff: "same_ctx c c' \<longleftrightarrow> (\<exists>d e. c = Some d \<and> c' = Some e \<and> map_of d = map_of e)"
  by (auto simp: same_ctx_def same_context_iff split: option.splits)

lemma map_of_reset_context [simp]:
  "map_of (reset_progress_markers p) ''context'' = map_of p ''context''"
  by (simp add: reset_progress_markers_def)

lemma entry_ctx_reset [simp]: "entry_ctx (reset_progress_markers p) = entry_ctx p"
  by (simp add: entry_ctx_def)

lemma scan_partitions_Inr:
  "list_all (\<lambda>p. map_of p ''context'' \<noteq> None) ps \<Longrightarrow>
   scan_partitions part i ps =
     Inr (map (\<lambda>j. j + i) (filter (\<lambda>j. same_ctx (entry_ctx (ps ! j)) (Some part)) [0..<length ps]))"
proof (induction ps arbitrary: i)
  case Nil
  then show ?case by simp
next
  case (Cons p ps)
  then obtain c where c: "map_of p ''context'' = Some c" by auto
  have m: "same_context c part = same_ctx (entry_ctx p) (Some part)"
    using c by (cases c) (simp_all add: entry_ctx_def same_ctx_def same_context_def)
  have up: "[0..<length (p # ps)] = 0 # map Suc [0..<length ps]"
    by (simp only: length_Cons upt_conv_Cons [OF zero_less_Suc] map_Suc_upt)
  from Cons c m show ?case
    unfolding up by (simp add: filter_map comp_def map_map del: upt_Suc)
qed

lemma partitions_wf_context: "partitions_wf ps \<Longrightarrow> list_all (\<lambda>p. map_of p ''context'' \<noteq> None) ps"
  by (auto simp: partitions_wf_def list_all_iff entry_ctx_def split: option.splits)

lemma partitions_wf_unique:
  assumes "partitions_wf ps" "j < length ps" "k < length ps"
    and "same_ctx (entry_ctx (ps ! j)) (Some part)" "same_ctx (entry_ctx (ps ! k)) (Some part)"
  shows "j = k"
proof (rule ccontr)
  assume "j \<noteq> k"
  from assms(4,5) have jk: "same_ctx (entry_ctx (ps ! j)) (entry_ctx (ps ! k))"
    and kj: "same_ctx (entry_ctx (ps ! k)) (entry_ctx (ps ! j))"
    by (auto simp: same_ctx_iff)
  have sw: "sorted_wrt (\<lambda>c c'. \<not> same_ctx c c') (map entry_ctx ps)"
    using assms(1) by (simp add: partitions_wf_def)
  from \<open>j \<noteq> k\<close> have "j < k \<or> k < j" by linarith
  then show False
    using sorted_wrt_nth_less [OF sw, of j k] sorted_wrt_nth_less [OF sw, of k j] assms(2,3) jk kj
    by auto
qed

lemma find_partition_wf:
  assumes "partitions_wf ps"
  shows "find_partition ps part =
     Inr (if \<exists>j < length ps. same_ctx (entry_ctx (ps ! j)) (Some part)
          then Some (hd (filter (\<lambda>j. same_ctx (entry_ctx (ps ! j)) (Some part)) [0..<length ps]))
          else None)"
proof -
  let ?js = "filter (\<lambda>j. same_ctx (entry_ctx (ps ! j)) (Some part)) [0..<length ps]"
  have scan: "scan_partitions part 0 ps = Inr ?js"
    using scan_partitions_Inr [OF partitions_wf_context [OF assms], of part 0] by simp
  have "\<forall>a \<in> set ?js. \<forall>b \<in> set ?js. a = b"
    using partitions_wf_unique [OF assms] by auto
  moreover have "distinct ?js" by simp
  ultimately have len: "length ?js \<le> 1"
    using distinct_card [of ?js] card_le_Suc0_iff_eq [of "set ?js"] by simp
  show ?thesis
  proof (cases "\<exists>j < length ps. same_ctx (entry_ctx (ps ! j)) (Some part)")
    case True
    then have "?js \<noteq> []" by (auto simp: filter_empty_conv)
    with len obtain j where "?js = [j]" by (cases ?js) auto
    with scan True show ?thesis by (simp add: find_partition_def)
  next
    case False
    then have "?js = []" by (auto simp: filter_empty_conv)
    with scan False show ?thesis by (simp add: find_partition_def)
  qed
qed

lemma partitions_wf_update_ctx:
  assumes "partitions_wf ps" "i < length ps" "entry_ctx q = entry_ctx (ps ! i)"
  shows "partitions_wf (ps[i := q])"
proof -
  have "map entry_ctx (ps[i := q]) = (map entry_ctx ps)[i := entry_ctx (ps ! i)]"
    using assms(3) by (simp add: map_update)
  also have "\<dots> = map entry_ctx ps"
    using assms(2) by (metis list_update_id nth_map)
  finally show ?thesis using assms(1) by (simp add: partitions_wf_def)
qed

lemma partitions_wf_update_reset:
  assumes "partitions_wf ps" "i < length ps"
  shows "partitions_wf (ps[i := reset_progress_markers (ps ! i)])"
  using assms by (rule partitions_wf_update_ctx) simp

lemma entry_ctx_new [simp]: "entry_ctx [(''context'', JObj part)] = Some part"
  by (simp add: entry_ctx_def)

lemma same_ctx_refl [simp]: "same_ctx (Some d) (Some d)"
  by (simp add: same_ctx_iff)

lemma get_partition_state_wf:
  assumes "partitions_wf (ss_partitions ss)"
  shows "\<exists>ss1 i. get_partition_state ss part = Inr (ss1, i) \<and> i < length (ss_partitions ss1) \<and>
     same_ctx (entry_ctx (ss_partitions ss1 ! i)) (Some part) \<and>
     partitions_wf (ss_partitions ss1) \<and> ss_own ss1 = ss_own ss"
proof -
  let ?ps = "ss_partitions ss"
  let ?js = "filter (\<lambda>j. same_ctx (entry_ctx (?ps ! j)) (Some part)) [0..<length ?ps]"
  show ?thesis
  proof (cases "\<exists>j < length ?ps. same_ctx (entry_ctx (?ps ! j)) (Some part)")
    case True
    then have "?js \<noteq> []" by (auto simp: filter_empty_conv)
    define j where "j = hd ?js"
    have "j \<in> set ?js" unfolding j_def using \<open>?js \<noteq> []\<close> by (rule hd_in_set)
    then have "j < length ?ps" "same_ctx (entry_ctx (?ps ! j)) (Some part)"
      by (auto simp del: upt_Suc)
    with True assms show ?thesis
      unfolding j_def
      by (auto simp: get_partition_state_def find_partition_wf simp del: upt_Suc)
  next
    case False
    have "partitions_wf (?ps @ [[(''context'', JObj part)]])"
      using assms False by (auto simp: partitions_wf_def sorted_wrt_append in_set_conv_nth)
    with False assms show ?thesis
      by (auto simp: get_partition_state_def find_partition_wf nth_append)
  qed
qed

lemma reset_progress_markers_not_list:
  "case map_of (reset_progress_markers st) ''progress_markers'' of Some v \<Rightarrow> \<not> is_jlist v | None \<Rightarrow> True"
proof (cases "''progress_markers'' \<in> set (dict_keys st)")
  case True
  then show ?thesis by (auto simp: reset_progress_markers_def split: option.splits)
next
  case False
  then have "map_of st ''progress_markers'' = None"
    by (simp add: dict_keys_def map_of_eq_None_iff)
  with False show ?thesis by (simp add: reset_progress_markers_def)
qed

lemma post_process_obj [simp]:
  "post_process (part_context part) (JObj d) = Inr (JObj (dict_set d ''page_id'' (JStr (part_page_id part))))"
  by (simp add: post_process_def part_context_def)

lemma stream_post_process_page_id:
  "k \<noteq> Page \<Longrightarrow> stream_post_process k (part_context part) r = Inr r' \<Longrightarrow>
   has_page_id (part_page_id part) r'"
  by (cases k; cases r) (auto simp: post_process_def part_context_def has_page_id_def)

lemma sync_partition_out:
  "fst (sync_partition fuel k cfg now fetch part st cur) =
   fst (gen_for (\<lambda>r. gen_let (stream_post_process k (part_context part) r) gen_yield)
          (fst (request_records fuel k cfg now fetch part st)))"
  by (simp add: sync_partition_def split: prod.splits)

lemma sync_partition_cursor:
  "replication_key k = Some rk \<Longrightarrow>
   fst (snd (sync_partition fuel k cfg now fetch part st cur)) =
   advance_cursor (row_key rk) cur (fst (sync_partition fuel k cfg now fetch part st cur))"
  by (simp add: sync_partition_def split: prod.splits)

lemma post_process_rows_obj:
  "k \<noteq> Page \<Longrightarrow>
   gen_for (\<lambda>r. gen_let (stream_post_process k (part_context part) r) gen_yield) (map JObj ds) =
   (map (\<lambda>d. JObj (dict_set d ''page_id'' (JStr (part_page_id part)))) ds, None)"
  by (rule gen_for_map_yield) (cases k; simp)

section \<open>Properties of the coordinator\<close>

text \<open>C8 The state shape is an invariant of \<open>get_stream_or_partition_state\<close>: on a
  well-formed state it never raises, and the state it leaves is well-formed.\<close>

theorem state_wf_preserved:
  assumes "state_wf ss"
  shows "\<exists>ss' st. get_stream_or_partition_state ss ctx = Inr (ss', st) \<and> state_wf ss'"
proof (cases "\<exists>part. ctx = Some part \<and> part \<noteq> []")
  case True
  then obtain part where ctx: "ctx = Some part" "part \<noteq> []" by blast
  from assms obtain ss1 i where g: "get_partition_state ss part = Inr (ss1, i)"
    and i: "i < length (ss_partitions ss1)" and wf1: "partitions_wf (ss_partitions ss1)"
    using get_partition_state_wf [of ss part] by (auto simp: state_wf_def)
  show ?thesis
    using ctx g partitions_wf_update_reset [OF wf1 i]
    by (simp add: get_stream_or_partition_state_def state_wf_def Let_def)
next
  case False
  then have "ctx = None \<or> ctx = Some []" by (cases ctx) auto
  with assms show ?thesis
    by (auto simp: get_stream_or_partition_state_def state_wf_def Let_def)
qed

theorem state_wf_preserved_witness:
  "state_wf \<lparr>ss_own = [(''progress_markers'', JList [])],
      ss_partitions = [[(''context'', JObj [(''page_id'', JStr ''1'')]), (''progress_markers'', JList [JInt 3])]]\<rparr> \<and>
   (\<exists>ss' st. get_stream_or_partition_state \<lparr>ss_own = [(''progress_markers'', JList [])],
      ss_partitions = [[(''context'', JObj [(''page_id'', JStr ''1'')]), (''progress_markers'', JList [JInt 3])]]\<rparr> (Some [(''page_id'', JStr ''2'')]) = Inr (ss', st) \<and>
      state_wf ss')"
proof -
  have wf: "state_wf \<lparr>ss_own = [(''progress_markers'', JList [])],
      ss_partitions = [[(''context'', JObj [(''page_id'', JStr ''1'')]), (''progress_markers'', JList [JInt 3])]]\<rparr>"
    by (simp add: state_wf_def partitions_wf_def entry_ctx_def)
  show ?thesis using state_wf_preserved [OF wf, of "Some [(''page_id'', JStr ''2'')]"] wf by simp
qed

text \<open>C18 The dict \<open>get_stream_or_partition_state\<close> returns for a partition is the
  one stored in the stream's state for it: the entry whose context equals the
  partition, with \<open>progress_markers\<close> no longer a list, so the reset the method
  makes persists in the state.\<close>

theorem partition_state_is_stored:
  assumes "state_wf ss" "part \<noteq> []"
    and "get_stream_or_partition_state ss (Some part) = Inr (ss', st)"
  shows "\<exists>i < length (ss_partitions ss'). ss_partitions ss' ! i = st \<and>
           same_ctx (entry_ctx st) (Some part) \<and>
           (case map_of st ''progress_markers'' of Some v \<Rightarrow> \<not> is_jlist v | None \<Rightarrow> True)"
proof -
  from assms(1) obtain ss1 i where g: "get_partition_state ss part = Inr (ss1, i)"
    and i: "i < length (ss_partitions ss1)"
    and m: "same_ctx (entry_ctx (ss_partitions ss1 ! i)) (Some part)"
    using get_partition_state_wf [of ss part] by (auto simp: state_wf_def)
  with assms(2,3) have "ss' = ss1\<lparr>ss_partitions := (ss_partitions ss1)[i := st]\<rparr>"
    and st: "st = reset_progress_markers (ss_partitions ss1 ! i)"
    by (auto simp: get_stream_or_partition_state_def Let_def)
  with i m show ?thesis
    using reset_progress_markers_not_list [of "ss_partitions ss1 ! i"]
    by (intro exI [of _ i]) simp
qed

theorem partition_state_is_stored_witness:
  "state_wf \<lparr>ss_own = [(''progress_markers'', JList [])],
      ss_partitions = [[(''context'', JObj [(''page_id'', JStr ''1'')]), (''progress_markers'', JList [JInt 3])]]\<rparr> \<and> [(''page_id'', JStr ''1'')] \<noteq> [] \<and>
   get_stream_or_partition_state \<lparr>ss_own = [(''progress_markers'', JList [])],
      ss_partitions = [[(''context'', JObj [(''page_id'', JStr ''1'')]), (''progress_markers'', JList [JInt 3])]]\<rparr> (Some [(''page_id'', JStr ''1'')]) =
     Inr (\<lparr>ss_own = [(''progress_markers'', JList [])],
            ss_partitions = [[(''context'', JObj [(''page_id'', JStr ''1'')]), (''progress_markers'', JObj [])]]\<rparr>,
          [(''context'', JObj [(''page_id'', JStr ''1'')]), (''progress_markers'', JObj [])]) \<and>
   (\<exists>i < 1. [[(''context'', JObj [(''page_id'', JStr ''1'')]), (''progress_markers'', JObj [])]] ! i =
        [(''context'', JObj [(''page_id'', JStr ''1'')]), (''progress_markers'', JObj [])] \<and>
      same_ctx (entry_ctx [(''context'', JObj [(''page_id'', JStr ''1'')]), (''progress_markers'', JObj [])])
        (Some [(''page_id'', JStr ''1'')]) \<and>
      (case map_of [(''context'', JObj [(''page_id'', JStr ''1'')]), (''progress_markers'', JObj [])] ''progress_markers'' of
         Some v \<Rightarrow> \<not> is_jlist v | None \<Rightarrow> True))"
proof -
  have wf: "state_wf \<lparr>ss_own = [(''progress_markers'', JList [])],
      ss_partitions = [[(''context'', JObj [(''page_id'', JStr ''1'')]), (''progress_markers'', JList [JInt 3])]]\<rparr>"
    by (simp add: state_wf_def partitions_wf_def entry_ctx_def)
  have g: "get_stream_or_partition_state \<lparr>ss_own = [(''progress_markers'', JList [])],
      ss_partitions = [[(''context'', JObj [(''page_id'', JStr ''1'')]), (''progress_markers'', JList [JInt 3])]]\<rparr> (Some [(''page_id'', JStr ''1'')]) =
     Inr (\<lparr>ss_own = [(''progress_markers'', JList [])],
            ss_partitions = [[(''context'', JObj [(''page_id'', JStr ''1'')]), (''progress_markers'', JObj [])]]\<rparr>,
          [(''context'', JObj [(''page_id'', JStr ''1'')]), (''progress_markers'', JObj [])])"
    by (simp add: get_stream_or_partition_state_def get_partition_state_def find_partition_def
        same_context_def reset_progress_markers_def dict_keys_def)
  show ?thesis using partition_state_is_stored [OF wf _ g] wf g by simp
qed

text \<open>The replication cursor does not depend on the order in which rows arrive,
  nor on repeated rows: any two row sequences with the same rows give the same
  cursor.\<close>

lemma cursor_order_independent:
  assumes "set rows = set rows'"
  shows "advance_cursor key cur rows = advance_cursor key cur rows'"
  using assms by (simp add: advance_cursor_Max_opt set_map_filter_Union)

lemma sync_partition_tagged:
  "k \<noteq> Page \<Longrightarrow> r \<in> set (fst (sync_partition fuel k cfg now fetch part st cur)) \<Longrightarrow>
   has_page_id (part_page_id part) r"
  unfolding sync_partition_out
  by (fastforce dest!: gen_for_yields gen_yieldsD stream_post_process_page_id)

text \<open>C19 Every row a stream other than \<open>Page\<close> emits, on every page of every run,
  is a dict whose \<open>page_id\<close> is the partition's page id: \<open>post_process\<close>
  writes it, also into the rows of \<open>PageInsights\<close>, whose parser does not.\<close>

theorem sync_rows_page_id:
  assumes "k \<noteq> Page"
  shows "list_all (has_page_id (part_page_id part)) (fst (sync_partition fuel k cfg now fetch part st cur))"
  using sync_partition_tagged [OF assms] by (simp add: list_all_iff)

theorem sync_rows_page_id_witness:
  "PageInsights \<noteq> Page \<and>
   list_all (has_page_id ''1'') (fst (sync_partition 2 PageInsights
      \<lparr>access_tokens = [], metrics = [''page_fans''], columns = None, schema_properties = []\<rparr> 0
      (\<lambda>p ps. Inr (JObj [(''data'', JList [JObj [(''name'', JStr ''page_fans''), (''period'', JStr ''day''),
          (''title'', JStr ''Fans''), (''id'', JStr ''m1''), (''values'', JList [JObj [(''value'', JInt 5), (''end_time'', JStr ''t'')]])]])]))
      \<lparr>part_page_id = ''1'', part_start = Some 0\<rparr> \<lparr>page_id = None\<rparr> None)) \<and>
   fst (sync_partition 2 PageInsights
      \<lparr>access_tokens = [], metrics = [''page_fans''], columns = None, schema_properties = []\<rparr> 0
      (\<lambda>p ps. Inr (JObj [(''data'', JList [JObj [(''name'', JStr ''page_fans''), (''period'', JStr ''day''),
          (''title'', JStr ''Fans''), (''id'', JStr ''m1''), (''values'', JList [JObj [(''value'', JInt 5), (''end_time'', JStr ''t'')]])]])]))
      \<lparr>part_page_id = ''1'', part_start = Some 0\<rparr> \<lparr>page_id = None\<rparr> None) =
   [JObj [(''value'', JInt 5), (''end_time'', JStr ''t''), (''name'', JStr ''page_fans''), (''period'', JStr ''day''),
          (''title'', JStr ''Fans''), (''id'', JStr ''m1''), (''page_id'', JStr ''1'')]]"
proof -
  have run: "fst (sync_partition 2 PageInsights
      \<lparr>access_tokens = [], metrics = [''page_fans''], columns = None, schema_properties = []\<rparr> 0
      (\<lambda>p ps. Inr (JObj [(''data'', JList [JObj [(''name'', JStr ''page_fans''), (''period'', JStr ''day''),
          (''title'', JStr ''Fans''), (''id'', JStr ''m1''), (''values'', JList [JObj [(''value'', JInt 5), (''end_time'', JStr ''t'')]])]])]))
      \<lparr>part_page_id = ''1'', part_start = Some 0\<rparr> \<lparr>page_id = None\<rparr> None) =
   [JObj [(''value'', JInt 5), (''end_time'', JStr ''t''), (''name'', JStr ''page_fans''), (''period'', JStr ''day''),
          (''title'', JStr ''Fans''), (''id'', JStr ''m1''), (''page_id'', JStr ''1'')]]"
    by (simp add: sync_partition_def request_records_def numeral_eq_Suc page_step_def get_url_params_def
        base_url_params_def page_insights_url_params_def page_insights_until_def window_seconds_def day_seconds_def
        page_insights_parse_response_def page_insights_row_def page_base_item_def page_insight_values_parse_def
        emit_tagged_def gen_yield_def insights_next_page_token_def post_process_def part_context_def)
  show ?thesis
    using sync_rows_page_id [where k = PageInsights and fuel = 2
      and cfg = "\<lparr>access_tokens = [], metrics = [''page_fans''], columns = None, schema_properties = []\<rparr>"
      and now = 0 and fetch = "(\<lambda>p ps. Inr (JObj [(''data'', JList [JObj [(''name'', JStr ''page_fans''), (''period'', JStr ''day''),
          (''title'', JStr ''Fans''), (''id'', JStr ''m1''), (''values'', JList [JObj [(''value'', JInt 5), (''end_time'', JStr ''t'')]])]])]))"
      and part = "\<lparr>part_page_id = ''1'', part_start = Some 0\<rparr>" and st = "\<lparr>page_id = None\<rparr>" and cur = None] run
    by simp
qed

text \<open>C7 The cursor is advanced by the rows of a page that fails: when the first page
  yields rows and then raises, the run ends as exhausted, and the cursor already
  counts the keys of the rows yielded before the error.\<close>

theorem failed_page_advances_cursor:
  assumes "snd (get_url_params k cfg now st part JNull) = Inr ps"
    and "fetch (request_path k part) ps = Inr resp"
    and "parse_response k (Some (part_page_id part)) resp = (map JObj ds, Some e)"
    and "k \<noteq> Page" and "replication_key k = Some rk"
  shows "sync_partition (Suc n) k cfg now fetch part st cur =
     (map (\<lambda>d. JObj (dict_set d ''page_id'' (JStr (part_page_id part)))) ds,
      advance_cursor (row_key rk) cur (map (\<lambda>d. JObj (dict_set d ''page_id'' (JStr (part_page_id part)))) ds),
      Exhausted)"
proof -
  have "page_step k cfg now fetch part st JNull =
    (st\<lparr>page_id := Some (part_page_id part)\<rparr>, map JObj ds, Inr (\<not> py_truthy JNull, JNull))"
    by (rule page_step_parse_error [where fetch = fetch, OF assms(1-3)])
  then have "request_records (Suc n) k cfg now fetch part st = (map JObj ds, Exhausted)"
    by (simp add: request_records_def)
  with post_process_rows_obj [OF assms(4)] assms(5) show ?thesis
    by (simp add: sync_partition_def)
qed

theorem failed_page_advances_cursor_witness:
  "snd (get_url_params Posts \<lparr>access_tokens = [], metrics = [], columns = None, schema_properties = [''id'']\<rparr> 0
      \<lparr>page_id = None\<rparr> \<lparr>part_page_id = ''1'', part_start = None\<rparr> JNull) =
     Inr [(''limit'', JInt 100), (''fields'', JStr ''id'')] \<and>
   parse_response Posts (Some ''1'')
      (JObj [(''data'', JList [JObj [(''id'', JStr ''7''), (''created_time'', JInt 12)], JInt 0])]) =
     (map JObj [[(''id'', JStr ''7''), (''created_time'', JInt 12), (''page_id'', JStr ''1'')]], Some TypeError) \<and>
   sync_partition 3 Posts \<lparr>access_tokens = [], metrics = [], columns = None, schema_properties = [''id'']\<rparr> 0
      (\<lambda>p ps. Inr (JObj [(''data'', JList [JObj [(''id'', JStr ''7''), (''created_time'', JInt 12)], JInt 0])]))
      \<lparr>part_page_id = ''1'', part_start = None\<rparr> \<lparr>page_id = None\<rparr> (Some 5) =
     ([JObj [(''id'', JStr ''7''), (''created_time'', JInt 12), (''page_id'', JStr ''1'')]], Some 12, Exhausted)"
proof -
  have p: "snd (get_url_params Posts \<lparr>access_tokens = [], metrics = [], columns = None, schema_properties = [''id'']\<rparr> 0
      \<lparr>page_id = None\<rparr> \<lparr>part_page_id = ''1'', part_start = None\<rparr> JNull) =
     Inr [(''limit'', JInt 100), (''fields'', JStr ''id'')]"
    by (simp add: get_url_params_def base_url_params_def fields_param_def)
  have r: "parse_response Posts (Some ''1'')
      (JObj [(''data'', JList [JObj [(''id'', JStr ''7''), (''created_time'', JInt 12)], JInt 0])]) =
     (map JObj [[(''id'', JStr ''7''), (''created_time'', JInt 12), (''page_id'', JStr ''1'')]], Some TypeError)"
    by (simp add: posts_parse_response_def self_page_id_def gen_yield_def)
  show ?thesis
    using failed_page_advances_cursor [where fetch = "\<lambda>p ps. Inr (JObj [(''data'', JList [JObj [(''id'', JStr ''7''),
        (''created_time'', JInt 12)], JInt 0])])" and n = 2 and cur = "Some 5" and k = Posts
        and cfg = "\<lparr>access_tokens = [], metrics = [], columns = None, schema_properties = [''id'']\<rparr>" and now = 0
        and st = "\<lparr>page_id = None\<rparr>" and part = "\<lparr>part_page_id = ''1'', part_start = None\<rparr>"
        and ps = "[(''limit'', JInt 100), (''fields'', JStr ''id'')]"
        and resp = "JObj [(''data'', JList [JObj [(''id'', JStr ''7''), (''created_time'', JInt 12)], JInt 0])]"
        and ds = "[[(''id'', JStr ''7''), (''created_time'', JInt 12), (''page_id'', JStr ''1'')]]"
        and e = TypeError and rk = "''created_time''"] p r
    by (simp add: numeral_eq_Suc advance_cursor_def cursor_step_def row_key_def)
qed

section \<open>Properties of the partition run\<close>


lemma entry_ctx_save_cursor [simp]: "entry_ctx (save_cursor p cur) = entry_ctx p"
  by (simp add: save_cursor_def entry_ctx_def split: option.splits)

lemma starting_timestamp_reset [simp]:
  "starting_timestamp (reset_progress_markers p) = starting_timestamp p"
  by (simp add: reset_progress_markers_def starting_timestamp_def)

lemma starting_timestamp_save:
  "starting_timestamp (save_cursor p cur) = (case cur of None \<Rightarrow> starting_timestamp p | Some c \<Rightarrow> Some c)"
  by (simp add: save_cursor_def starting_timestamp_def split: option.splits)

lemma find_partition_found:
  assumes "partitions_wf ps" "i < length ps" "same_ctx (entry_ctx (ps ! i)) (Some part)"
  shows "find_partition ps part = Inr (Some i)"
proof -
  let ?js = "filter (\<lambda>j. same_ctx (entry_ctx (ps ! j)) (Some part)) [0..<length ps]"
  have "?js \<noteq> []" using assms(2,3) by (auto simp: filter_empty_conv)
  then have "hd ?js \<in> set ?js" by (rule hd_in_set)
  then have "hd ?js = i" using partitions_wf_unique [OF assms(1) _ assms(2) _ assms(3)] by auto
  with assms show ?thesis by (auto simp: find_partition_wf)
qed

lemma partition_cursor_gps:
  assumes "state_wf ss" "get_partition_state ss part = Inr (ss1, i)"
  shows "partition_cursor ss part = starting_timestamp (ss_partitions ss1 ! i)"
  using assms
  by (auto simp: partition_cursor_def get_partition_state_def find_partition_wf state_wf_def
      starting_timestamp_def nth_append split: if_splits)

lemma partition_step_wf:
  assumes "state_wf ss"
  shows "\<exists>ss1 i. get_stream_or_partition_state ss (Some (part_context p)) = Inr (ss1, ss_partitions ss1 ! i) \<and>
     i < length (ss_partitions ss1) \<and> same_ctx (entry_ctx (ss_partitions ss1 ! i)) (Some (part_context p)) \<and>
     state_wf ss1 \<and> partition_cursor ss (part_context p) = starting_timestamp (ss_partitions ss1 ! i) \<and>
     (\<forall>cur. store_cursor ss1 (part_context p) cur =
        Inr (ss1\<lparr>ss_partitions := (ss_partitions ss1)[i := save_cursor (reset_progress_markers (ss_partitions ss1 ! i)) cur]\<rparr>))"
proof -
  from assms obtain ss0 i where g: "get_partition_state ss (part_context p) = Inr (ss0, i)"
    and i: "i < length (ss_partitions ss0)"
    and m: "same_ctx (entry_ctx (ss_partitions ss0 ! i)) (Some (part_context p))"
    and wf0: "partitions_wf (ss_partitions ss0)"
    using get_partition_state_wf [of ss "part_context p"] by (auto simp: state_wf_def)
  define ss1 where "ss1 = ss0\<lparr>ss_partitions := (ss_partitions ss0)[i := reset_progress_markers (ss_partitions ss0 ! i)]\<rparr>"
  have wf1: "partitions_wf (ss_partitions ss1)"
    unfolding ss1_def using partitions_wf_update_reset [OF wf0 i] by simp
  have i1: "i < length (ss_partitions ss1)" and m1: "same_ctx (entry_ctx (ss_partitions ss1 ! i)) (Some (part_context p))"
    using i m by (simp_all add: ss1_def)
  have gs: "get_stream_or_partition_state ss (Some (part_context p)) = Inr (ss1, ss_partitions ss1 ! i)"
    using g i by (simp add: get_stream_or_partition_state_def part_context_def ss1_def Let_def)
  have g1: "get_partition_state ss1 (part_context p) = Inr (ss1, i)"
    using find_partition_found [OF wf1 i1 m1] by (simp add: get_partition_state_def)
  have "partition_cursor ss (part_context p) = starting_timestamp (ss_partitions ss1 ! i)"
    using partition_cursor_gps [OF assms g] i by (simp add: ss1_def)
  with gs i1 m1 wf1 g1 show ?thesis
    by (intro exI [of _ ss1] exI [of _ i]) (simp add: state_wf_def store_cursor_def)
qed

text \<open>One partition of the run: what its state lookup, sync and bookmark give.\<close>

lemma sync_partitions_ConsE:
  assumes "sync_partitions fuel k cfg now fetch st ss (p # ps) = (rows, ss', r)"
  obtains (lookup) e where "get_stream_or_partition_state ss (Some (part_context p)) = Inl e"
      "rows = []" "ss' = ss" "r = Raised e"
  | (store) ss1 pst cur r0 e where "get_stream_or_partition_state ss (Some (part_context p)) = Inr (ss1, pst)"
      "sync_partition fuel k cfg now fetch (p\<lparr>part_start := starting_timestamp pst\<rparr>) st (starting_timestamp pst) = (rows, cur, r0)"
      "store_cursor ss1 (part_context p) cur = Inl e" "ss' = ss1" "r = Raised e"
  | (stop) ss1 pst cur ss2 where "get_stream_or_partition_state ss (Some (part_context p)) = Inr (ss1, pst)"
      "sync_partition fuel k cfg now fetch (p\<lparr>part_start := starting_timestamp pst\<rparr>) st (starting_timestamp pst) = (rows, cur, r)"
      "store_cursor ss1 (part_context p) cur = Inr ss2" "ss' = ss2" "r \<noteq> Exhausted"
  | (more) ss1 pst rows0 cur ss2 rows' where "get_stream_or_partition_state ss (Some (part_context p)) = Inr (ss1, pst)"
      "sync_partition fuel k cfg now fetch (p\<lparr>part_start := starting_timestamp pst\<rparr>) st (starting_timestamp pst) = (rows0, cur, Exhausted)"
      "store_cursor ss1 (part_context p) cur = Inr ss2"
      "sync_partitions fuel k cfg now fetch st ss2 ps = (rows', ss', r)" "rows = rows0 @ rows'"
proof (cases "get_stream_or_partition_state ss (Some (part_context p))")
  case (Inl e)
  with assms show ?thesis by (intro lookup) auto
next
  case (Inr a)
  note g = Inr
  obtain ss1 pst where a: "a = (ss1, pst)" by (cases a)
  obtain rows0 cur r0 where sp: "sync_partition fuel k cfg now fetch (p\<lparr>part_start := starting_timestamp pst\<rparr>) st
      (starting_timestamp pst) = (rows0, cur, r0)"
    by (metis prod_cases3)
  show ?thesis
  proof (cases "store_cursor ss1 (part_context p) cur")
    case (Inl e)
    with assms g a sp show ?thesis by (intro store) auto
  next
    case (Inr ss2)
    note s = Inr
    obtain rows' ss3 r' where rec: "sync_partitions fuel k cfg now fetch st ss2 ps = (rows', ss3, r')"
      by (metis prod_cases3)
    show ?thesis
    proof (cases "r0 = Exhausted")
      case True
      with assms g a sp s rec show ?thesis by (intro more) auto
    next
      case False
      with assms g a sp s have "rows = rows0 \<and> ss' = ss2 \<and> r = r0"
        by (cases r0) auto
      with g a sp s False show ?thesis by (intro stop) auto
    qed
  qed
qed

text \<open>C13 The state shape is an invariant of a whole sync: from a well-formed
  state, the run over any list of partitions leaves a well-formed state, whatever
  the pages and failures of each partition.\<close>

theorem sync_partitions_wf:
  assumes "state_wf ss"
  shows "state_wf (fst (snd (sync_partitions fuel k cfg now fetch st ss parts)))"
  using assms
proof (induction parts arbitrary: ss)
  case Nil
  then show ?case by simp
next
  case (Cons p ps)
  obtain rows ss' r where run: "sync_partitions fuel k cfg now fetch st ss (p # ps) = (rows, ss', r)"
    by (metis prod_cases3)
  from partition_step_wf [OF Cons.prems, of p] obtain ss1 i
    where g: "get_stream_or_partition_state ss (Some (part_context p)) = Inr (ss1, ss_partitions ss1 ! i)"
      and i: "i < length (ss_partitions ss1)" and wf1: "state_wf ss1"
      and sc: "\<And>cur. store_cursor ss1 (part_context p) cur =
        Inr (ss1\<lparr>ss_partitions := (ss_partitions ss1)[i := save_cursor (reset_progress_markers (ss_partitions ss1 ! i)) cur]\<rparr>)"
    by blast
  have wf2: "state_wf ss2" if "store_cursor ss1 (part_context p) cur = Inr ss2" for cur ss2
    using that sc [of cur] partitions_wf_update_ctx [of "ss_partitions ss1" i] wf1 i
    by (auto simp: state_wf_def)
  from run show ?case
  proof (cases rule: sync_partitions_ConsE)
    case (lookup e)
    with g show ?thesis by simp
  next
    case (store ss1' pst cur r0 e)
    with g sc show ?thesis by simp
  next
    case (stop ss1' pst cur ss2)
    with run wf2 g show ?thesis by auto
  next
    case (more ss1' pst rows0 cur ss2 rows')
    with run g wf2 Cons.IH [of ss2] show ?thesis by (metis fst_conv snd_conv old.prod.inject sum.inject(2))
  qed
qed



lemma row_partition_Cons [simp]:
  "row_partition (p # ps) r = (if has_page_id (part_page_id p) r then 0 else Suc (row_partition ps r))"
  by (simp add: row_partition_def)






text \<open>C12 The bookmark a sync stores is the cursor of the spec: after the run
  over a partition of a stream with a replication key, the partition's stored
  cursor is the maximum of the one stored before and the keys of the rows
  emitted, so the next run starts from it.\<close>

theorem sync_partitions_stores_cursor:
  assumes "state_wf ss" and "replication_key k = Some rk"
    and "sync_partitions fuel k cfg now fetch st ss [p] = (rows, ss', r)"
  shows "partition_cursor ss' (part_context p) =
     Max_opt (set_option (partition_cursor ss (part_context p)) \<union> set (List.map_filter (row_key rk) rows))"
proof -
  from partition_step_wf [OF assms(1), of p] obtain ss1 i
    where g: "get_stream_or_partition_state ss (Some (part_context p)) = Inr (ss1, ss_partitions ss1 ! i)"
      and i: "i < length (ss_partitions ss1)"
      and m: "same_ctx (entry_ctx (ss_partitions ss1 ! i)) (Some (part_context p))"
      and wf1: "state_wf ss1"
      and c0: "partition_cursor ss (part_context p) = starting_timestamp (ss_partitions ss1 ! i)"
      and sc: "\<And>cur. store_cursor ss1 (part_context p) cur =
        Inr (ss1\<lparr>ss_partitions := (ss_partitions ss1)[i := save_cursor (reset_progress_markers (ss_partitions ss1 ! i)) cur]\<rparr>)"
    by blast
  let ?e = "ss_partitions ss1 ! i"
  let ?c0 = "starting_timestamp ?e"
  obtain rows0 cur r0 where sp: "sync_partition fuel k cfg now fetch (p\<lparr>part_start := ?c0\<rparr>) st ?c0 = (rows0, cur, r0)"
    by (metis prod_cases3)
  have cur: "cur = Max_opt (set_option ?c0 \<union> set (List.map_filter (row_key rk) rows0))"
    using sync_partition_cursor [OF assms(2), of fuel cfg now fetch "p\<lparr>part_start := ?c0\<rparr>" st ?c0] sp
    by (simp add: advance_cursor_Max_opt)
  have run: "rows = rows0 \<and> ss' = ss1\<lparr>ss_partitions := (ss_partitions ss1)[i := save_cursor (reset_progress_markers ?e) cur]\<rparr>"
    using assms(3) g sp sc [of cur] by (cases r0) auto
  have wf2: "partitions_wf ((ss_partitions ss1)[i := save_cursor (reset_progress_markers ?e) cur])"
    using partitions_wf_update_ctx [of "ss_partitions ss1" i] wf1 i by (simp add: state_wf_def)
  have "partition_cursor ss' (part_context p) = starting_timestamp (save_cursor (reset_progress_markers ?e) cur)"
    using find_partition_found [OF wf2, of i "part_context p"] i m run
    by (simp add: partition_cursor_def)
  also have "\<dots> = Max_opt (set_option ?c0 \<union> set (List.map_filter (row_key rk) rows0))"
    using cur by (auto simp: starting_timestamp_save Max_opt_def split: option.splits if_splits)
  finally show ?thesis using c0 run by simp
qed

theorem sync_partitions_wf_witness:
  "state_wf \<lparr>ss_own = [], ss_partitions = [[(''context'', JObj [(''page_id'', JStr ''1'')])]]\<rparr> \<and>
   state_wf (fst (snd (sync_partitions 3 Posts \<lparr>access_tokens = [], metrics = [], columns = None, schema_properties = [''id'']\<rparr> 0
      (\<lambda>u ps. Inl RequestFailed) \<lparr>page_id = None\<rparr>
      \<lparr>ss_own = [], ss_partitions = [[(''context'', JObj [(''page_id'', JStr ''1'')])]]\<rparr>
      [\<lparr>part_page_id = ''1'', part_start = None\<rparr>, \<lparr>part_page_id = ''2'', part_start = None\<rparr>])))"
proof -
  have wf: "state_wf \<lparr>ss_own = [], ss_partitions = [[(''context'', JObj [(''page_id'', JStr ''1'')])]]\<rparr>"
    by (simp add: state_wf_def partitions_wf_def entry_ctx_def)
  show ?thesis using sync_partitions_wf [OF wf] wf by blast
qed



theorem sync_partitions_stores_cursor_witness:
  "state_wf \<lparr>ss_own = [], ss_partitions = [[(''context'', JObj [(''page_id'', JStr ''1'')]), (''replication_key_value'', JInt 5)]]\<rparr> \<and> replication_key Posts = Some ''created_time'' \<and>
   sync_partitions 3 Posts \<lparr>access_tokens = [], metrics = [], columns = None, schema_properties = [''id'']\<rparr> 0 (\<lambda>u ps. Inr (JObj [(''data'', JList [JObj [(''id'', JStr ''7''), (''created_time'', JInt 12)]])])) \<lparr>page_id = None\<rparr> \<lparr>ss_own = [], ss_partitions = [[(''context'', JObj [(''page_id'', JStr ''1'')]), (''replication_key_value'', JInt 5)]]\<rparr> [\<lparr>part_page_id = ''1'', part_start = None\<rparr>] = ([JObj [(''id'', JStr ''7''), (''created_time'', JInt 12), (''page_id'', JStr ''1'')]], \<lparr>ss_own = [], ss_partitions = [[(''context'', JObj [(''page_id'', JStr ''1'')]), (''replication_key_value'', JInt 12)]]\<rparr>, Exhausted) \<and>
   partition_cursor \<lparr>ss_own = [], ss_partitions = [[(''context'', JObj [(''page_id'', JStr ''1'')]), (''replication_key_value'', JInt 12)]]\<rparr> (part_context \<lparr>part_page_id = ''1'', part_start = None\<rparr>) = Some 12"
proof -
  have wf: "state_wf \<lparr>ss_own = [], ss_partitions = [[(''context'', JObj [(''page_id'', JStr ''1'')]), (''replication_key_value'', JInt 5)]]\<rparr>"
    by (simp add: state_wf_def partitions_wf_def entry_ctx_def)
  have run: "sync_partitions 3 Posts \<lparr>access_tokens = [], metrics = [], columns = None, schema_properties = [''id'']\<rparr> 0 (\<lambda>u ps. Inr (JObj [(''data'', JList [JObj [(''id'', JStr ''7''), (''created_time'', JInt 12)]])])) \<lparr>page_id = None\<rparr> \<lparr>ss_own = [], ss_partitions = [[(''context'', JObj [(''page_id'', JStr ''1'')]), (''replication_key_value'', JInt 5)]]\<rparr> [\<lparr>part_page_id = ''1'', part_start = None\<rparr>] = ([JObj [(''id'', JStr ''7''), (''created_time'', JInt 12), (''page_id'', JStr ''1'')]], \<lparr>ss_own = [], ss_partitions = [[(''context'', JObj [(''page_id'', JStr ''1'')]), (''replication_key_value'', JInt 12)]]\<rparr>, Exhausted)"
    by (simp add: numeral_eq_Suc get_stream_or_partition_state_def get_partition_state_def find_partition_def
        part_context_def same_context_def reset_progress_markers_def starting_timestamp_def store_cursor_def
        save_cursor_def sync_partition_def request_records_def page_step_def get_url_params_def
        base_url_params_def request_path_def posts_parse_response_def self_page_id_def gen_yield_def
        base_next_page_token_def post_process_def advance_cursor_def cursor_step_def row_key_def Let_def gen_skip_def)
  have "partition_cursor \<lparr>ss_own = [], ss_partitions = [[(''context'', JObj [(''page_id'', JStr ''1'')]), (''replication_key_value'', JInt 5)]]\<rparr> (part_context \<lparr>part_page_id = ''1'', part_start = None\<rparr>) = Some 5"
    by (simp add: partition_cursor_def find_partition_def part_context_def same_context_def starting_timestamp_def)
  moreover have rk: "replication_key Posts = Some ''created_time''" by simp
  ultimately show ?thesis
    using sync_partitions_stores_cursor [OF wf rk run] run wf
    by (simp add: Max_opt_def row_key_def List.map_filter_def del: sync_partitions.simps)
qed

end
