(* ===== verification/Catalog.thy ===== *)
theory Catalog
  imports Stream
begin

text \<open>
  Catalog metadata, \<open>FacebookPagesStream._singer_metadata\<close> (lines 110-134), and
  the class attributes it reads (\<open>tap_stream_id\<close>, \<open>primary_keys\<close>,
  \<open>replication_key\<close>, \<open>replication_method\<close> or
  \<open>forced_replication_method\<close>). An input catalog is the list of its streams,
  each with its \<open>tap_stream_id\<close> and metadata, or \<open>None\<close> when the tap got no
  catalog. \<open>singer.Catalog.get_stream\<close> returns the first stream with the id.
  The singer library's \<open>get_standard_metadata\<close> is represented by the arguments
  the method passes to it.
\<close>

definition tap_stream_id :: "stream_kind \<Rightarrow> string option" where
  "tap_stream_id k = cls_tap_stream_id (class_of k)"

definition primary_keys :: "stream_kind \<Rightarrow> string list" where
  "primary_keys k = cls_primary_keys (class_of k)"

text \<open>The SDK's \<open>replication_method\<close> property: the
  \<open>forced_replication_method\<close> when set, else incremental exactly when there is
  a replication key.\<close>

definition sdk_replication_method :: "stream_class \<Rightarrow> string" where
  "sdk_replication_method c =
     (case cls_forced_replication_method c of
        Some m \<Rightarrow> m
      | None \<Rightarrow> if cls_replication_key c \<noteq> None then ''INCREMENTAL'' else ''FULL_TABLE'')"

text \<open>\<open>self.replication_method\<close>: the class attribute \<open>replication_method =
  "INCREMENTAL"\<close> of the post streams replaces the SDK's property; \<open>Page\<close> and
  \<open>PageInsights\<close> inherit the property and force \<open>FULL_TABLE\<close>.\<close>

definition replication_method :: "stream_kind \<Rightarrow> string" where
  "replication_method k =
     (case cls_replication_method (class_of k) of
        Some m \<Rightarrow> m
      | None \<Rightarrow> sdk_replication_method (class_of k))"

record std_metadata =
  md_replication_method :: string
  md_key_properties :: "string list option"
  md_valid_replication_keys :: "string list option"

datatype stream_metadata = CatalogEntry json | StandardMetadata std_metadata

type_synonym input_catalog = "(string option \<times> json) list"

definition standard_metadata :: "stream_kind \<Rightarrow> std_metadata" where
  "standard_metadata k =
     \<lparr>md_replication_method = replication_method k,
      md_key_properties = (if primary_keys k = [] then None else Some (primary_keys k)),
      md_valid_replication_keys =
        (case replication_key k of Some rk \<Rightarrow> if rk = [] then None else Some [rk] | None \<Rightarrow> None)\<rparr>"

definition singer_metadata :: "stream_kind \<Rightarrow> input_catalog option \<Rightarrow> stream_metadata" where
  "singer_metadata k cat =
     (case cat of
        Some streams \<Rightarrow>
          (case map_of streams (tap_stream_id k) of
             Some md \<Rightarrow> CatalogEntry md
           | None \<Rightarrow> StandardMetadata (standard_metadata k))
      | None \<Rightarrow> StandardMetadata (standard_metadata k))"

section \<open>Lemmas\<close>

lemmas catalog_attr_defs [simp] =
  tap_stream_id_def primary_keys_def replication_method_def sdk_replication_method_def

end
