(* ===== verification/Transport.thy ===== *)
theory Transport
  imports PyValue
begin

text \<open>
  The HTTP layer under the pagination engine. \<open>request_records\<close> sends each
  request through the SDK's \<open>_request_with_backoff\<close> (line 51) and the stream's
  \<open>parse_response\<close> decodes the body with \<open>response.json()\<close> (line 188). The SDK
  is not part of the repository, so its retry policy is modelled from the spec
  (sections 4.1 and 5): a transient failure, that is, a failed connection or a
  server error (status 500 and above), is retried after an exponential wait,
  and at most \<open>max_tries\<close> attempts are made. Any other status of 400 and above
  raises at once, and so does the last transient failure. The transport is a
  function from the attempt number (counted from 0) and the request to the
  reply the server gives to that attempt. The wait before a retry is the upper
  end of the randomised exponential wait, \<open>backoff_factor * 2 ^ i\<close> seconds
  after attempt \<open>i\<close>.
\<close>

datatype http_reply = ConnectionFailed | Reply nat "json option"

type_synonym transport = "nat \<Rightarrow> string \<Rightarrow> dict \<Rightarrow> http_reply"

fun transient :: "http_reply \<Rightarrow> bool" where
  "transient ConnectionFailed = True"
| "transient (Reply status body) = (500 \<le> status)"

definition max_tries :: nat where
  "max_tries = 5"

definition backoff_factor :: nat where
  "backoff_factor = 2"

definition backoff_wait :: "nat \<Rightarrow> nat" where
  "backoff_wait i = backoff_factor * 2 ^ i"

text \<open>Attempt \<open>i\<close> and, while it fails transiently and retries remain, the
  later ones: the waits made and the reply that settles the request.\<close>

fun send_with_backoff :: "nat \<Rightarrow> nat \<Rightarrow> transport \<Rightarrow> string \<Rightarrow> dict \<Rightarrow> nat list \<times> http_reply" where
  "send_with_backoff 0 i send url ps = ([], send i url ps)"
| "send_with_backoff (Suc n) i send url ps =
     (let r = send i url ps in
      if transient r then
        (let (ws, r') = send_with_backoff n (Suc i) send url ps in (backoff_wait i # ws, r'))
      else ([], r))"

text \<open>The status check on the settled reply: a failed connection or an error
  status raises, any other reply is the response whose body is read.\<close>

definition raise_for_status :: "http_reply \<Rightarrow> json option result" where
  "raise_for_status r =
     (case r of
        ConnectionFailed \<Rightarrow> Inl RequestFailed
      | Reply status body \<Rightarrow> if 400 \<le> status then Inl RequestFailed else Inr body)"

definition request_with_backoff :: "transport \<Rightarrow> string \<Rightarrow> dict \<Rightarrow> nat list \<times> json option result" where
  "request_with_backoff send url ps =
     (let (ws, r) = send_with_backoff (max_tries - 1) 0 send url ps in (ws, raise_for_status r))"

text \<open>\<open>response.json()\<close>: the decoded body, or \<open>ValueError\<close> (a
  \<open>JSONDecodeError\<close>) when the body is not JSON.\<close>

definition response_json :: "json option \<Rightarrow> json result" where
  "response_json body = (case body of Some j \<Rightarrow> Inr j | None \<Rightarrow> Inl ValueError)"

text \<open>The fetcher the engine runs with: \<open>resp = self._request_with_backoff(...)\<close>
  and the decoding of its body.\<close>

definition backoff_fetch :: "transport \<Rightarrow> string \<Rightarrow> dict \<Rightarrow> json result" where
  "backoff_fetch send url ps = r_bind (snd (request_with_backoff send url ps)) response_json"

section \<open>The retry policy as a specification\<close>

text \<open>The replies to attempts \<open>i\<close>, ..., \<open>i + n - 1\<close>, and the reply that
  settles a request: the first one that is not transient, else the last.\<close>

definition attempts :: "transport \<Rightarrow> nat \<Rightarrow> nat \<Rightarrow> string \<Rightarrow> dict \<Rightarrow> http_reply list" where
  "attempts send i n url ps = map (\<lambda>j. send j url ps) [i..<i + n]"

definition settled_reply :: "http_reply list \<Rightarrow> http_reply" where
  "settled_reply rs = (case find (\<lambda>r. \<not> transient r) rs of Some r \<Rightarrow> r | None \<Rightarrow> last rs)"

section \<open>Lemmas\<close>

lemma attempts_Suc:
  "attempts send i (Suc n) url ps = send i url ps # attempts send (Suc i) n url ps"
  by (simp add: attempts_def upt_conv_Cons del: upt_Suc)

lemma attempts_nonempty [simp]: "attempts send i (Suc n) url ps \<noteq> []"
  by (simp add: attempts_Suc)

lemma settled_reply_Cons:
  "rs \<noteq> [] \<Longrightarrow> settled_reply (r # rs) = (if transient r then settled_reply rs else r)"
  by (simp add: settled_reply_def split: option.splits)

lemma upt_Suc_Cons: "[i..<Suc (i + m)] = i # [Suc i..<Suc (i + m)]"
  by (simp add: upt_conv_Cons del: upt_Suc)

text \<open>The retry loop computes the specification: the waits are those before
  each retry of the leading transient attempts, and the reply is the settled one.\<close>

lemma send_with_backoff_spec:
  "send_with_backoff n i send url ps =
     (map backoff_wait [i..<i + length (takeWhile transient (butlast (attempts send i (Suc n) url ps)))],
      settled_reply (attempts send i (Suc n) url ps))"
proof (induction n arbitrary: i)
  case 0
  then show ?case by (simp add: attempts_def settled_reply_def split: option.splits)
next
  case (Suc n)
  show ?case
  proof (cases "transient (send i url ps)")
    case True
    then show ?thesis
      by (simp add: Suc.IH attempts_Suc [of send i "Suc n"] settled_reply_Cons upt_Suc_Cons del: upt_Suc)
  next
    case False
    then show ?thesis
      by (simp add: attempts_Suc [of send i "Suc n"] settled_reply_Cons)
  qed
qed

text \<open>Only the first \<open>n + 1\<close> attempts are made.\<close>

lemma send_with_backoff_cong:
  "(\<And>j. i \<le> j \<Longrightarrow> j \<le> i + n \<Longrightarrow> send j url ps = send' j url ps) \<Longrightarrow>
   send_with_backoff n i send url ps = send_with_backoff n i send' url ps"
proof (induction n arbitrary: i)
  case 0
  then show ?case by simp
next
  case (Suc n)
  have "send_with_backoff n (Suc i) send url ps = send_with_backoff n (Suc i) send' url ps"
    using Suc.prems by (intro Suc.IH) simp_all
  moreover have "send i url ps = send' i url ps" using Suc.prems by simp
  ultimately show ?case by (simp add: Let_def)
qed

text \<open>The waits: at most one per retry, and together less than the wait a
  further retry would make.\<close>

lemma send_with_backoff_waits:
  "length (fst (send_with_backoff n i send url ps)) \<le> n \<and>
   sum_list (fst (send_with_backoff n i send url ps)) + backoff_factor * 2 ^ i \<le> backoff_factor * 2 ^ (i + n)"
proof (induction n arbitrary: i)
  case 0
  then show ?case by simp
next
  case (Suc n)
  have ih: "sum_list (fst (send_with_backoff n (Suc i) send url ps)) + backoff_factor * 2 ^ Suc i
            \<le> backoff_factor * 2 ^ (Suc i + n)"
    and len: "length (fst (send_with_backoff n (Suc i) send url ps)) \<le> n"
    using Suc.IH [of "Suc i"] by simp_all
  have pow: "backoff_factor * 2 ^ i \<le> backoff_factor * 2 ^ (i + Suc n)"
    by (intro mult_le_mono2 power_increasing) simp_all
  show ?case
    using ih len pow by (auto simp: Let_def backoff_wait_def split: prod.splits)
qed

lemma raise_for_status_Inr:
  "raise_for_status r = Inr b \<longleftrightarrow> (\<exists>s. r = Reply s b \<and> s < 400)"
  by (cases r) (auto simp: raise_for_status_def)

lemma request_with_backoff_spec:
  "request_with_backoff send url ps =
     (map backoff_wait [0..<length (takeWhile transient (butlast (attempts send 0 max_tries url ps)))],
      raise_for_status (settled_reply (attempts send 0 max_tries url ps)))"
  by (simp add: request_with_backoff_def send_with_backoff_spec max_tries_def del: upt_Suc)

lemma request_with_backoff_cong:
  "(\<And>j. j < max_tries \<Longrightarrow> send j url ps = send' j url ps) \<Longrightarrow>
   request_with_backoff send url ps = request_with_backoff send' url ps"
  unfolding request_with_backoff_def
  by (subst send_with_backoff_cong [where send' = send']) (simp_all add: max_tries_def)

section \<open>Properties of the transport\<close>

text \<open>C11 The fetcher the engine runs with returns the decoded body of the
  reply that settles the request: the first of the first \<open>max_tries\<close> attempts
  that is not a transient failure, or the last attempt when all of them are,
  raising for an error status and for a body that is not JSON.\<close>

theorem backoff_fetch_refines:
  "backoff_fetch send url ps =
     r_bind (raise_for_status (settled_reply (attempts send 0 max_tries url ps))) response_json"
  by (simp add: backoff_fetch_def request_with_backoff_spec)

text \<open>C22 Retries are bounded: the fetch depends only on the replies to the
  first \<open>max_tries\<close> attempts, makes at most \<open>max_tries - 1\<close> waits, and waits
  at most 30 seconds in all.\<close>

theorem backoff_fetch_bounded:
  assumes "\<forall>j < max_tries. send j url ps = send' j url ps"
  shows "backoff_fetch send url ps = backoff_fetch send' url ps \<and>
         length (fst (request_with_backoff send url ps)) < max_tries \<and>
         sum_list (fst (request_with_backoff send url ps)) \<le> 30"
proof -
  have "request_with_backoff send url ps = request_with_backoff send' url ps"
    using assms by (intro request_with_backoff_cong) simp
  moreover have "length (fst (send_with_backoff 4 0 send url ps)) \<le> 4 \<and>
      sum_list (fst (send_with_backoff 4 0 send url ps)) + 2 \<le> 32"
    using send_with_backoff_waits [of 4 0 send url ps] by (simp add: backoff_factor_def)
  ultimately show ?thesis
    by (simp add: backoff_fetch_def request_with_backoff_def max_tries_def split: prod.splits)
qed

theorem backoff_fetch_bounded_witness:
  "backoff_fetch (\<lambda>j u p. if j < 5 then ConnectionFailed else Reply 200 (Some JNull)) ''u'' [] =
   backoff_fetch (\<lambda>j u p. ConnectionFailed) ''u'' [] \<and>
   backoff_fetch (\<lambda>j u p. ConnectionFailed) ''u'' [] = Inl RequestFailed"
proof -
  have h: "\<forall>j < max_tries. (\<lambda>j u p. if j < 5 then ConnectionFailed else Reply 200 (Some JNull)) j ''u'' []
      = (\<lambda>j u p. ConnectionFailed) j ''u'' []"
    by (simp add: max_tries_def)
  show ?thesis
    using backoff_fetch_bounded [OF h] h
    by (simp add: backoff_fetch_def request_with_backoff_def max_tries_def raise_for_status_def
                  numeral_eq_Suc)
qed

text \<open>C23 A client error (a status from 400 to 499) is not retried: the first
  attempt settles the request, no wait is made, and the fetch raises.\<close>

theorem client_error_not_retried:
  assumes "send 0 url ps = Reply s b" and "400 \<le> s" and "s < 500"
  shows "request_with_backoff send url ps = ([], Inl RequestFailed) \<and>
         backoff_fetch send url ps = Inl RequestFailed"
  using assms
  by (simp add: backoff_fetch_def request_with_backoff_def max_tries_def raise_for_status_def
                numeral_eq_Suc)

theorem client_error_not_retried_witness:
  "(\<lambda>j u p. if j = 0 then Reply 404 None else Reply 200 (Some JNull)) 0 ''u'' [] = Reply 404 None \<and>
   request_with_backoff (\<lambda>j u p. if j = 0 then Reply 404 None else Reply 200 (Some JNull)) ''u'' [] =
     ([], Inl RequestFailed)"
  using client_error_not_retried [of "\<lambda>j u p. if j = 0 then Reply 404 None else Reply 200 (Some JNull)"
      "''u''" "[]" 404 None]
  by simp

end
