(* ===== verification/Spec2Isabelle.thy ===== *)
theory Spec2Isabelle
  imports Redact Sync Catalog Transport
begin

text \<open>
  Verification development of tap-facebook-pages, a Singer tap whose only source
  file is \<open>src/tap_facebook_pages/streams.py\<close>: six stream classes
  (\<open>Page\<close>, \<open>Posts\<close>, \<open>PostTaggedProfile\<close>, \<open>PostAttachments\<close>,
  \<open>PageInsights\<close>, \<open>PostInsights\<close>) over a common base
  \<open>FacebookPagesStream\<close>. For one partition (one page id) the SDK calls
  \<open>get_stream_or_partition_state\<close>, then \<open>request_records\<close>, which loops over
  pages: \<open>prepare_request\<close> builds the request from \<open>get_url_params\<close> and logs
  its URL with the token redacted, the response is fetched, \<open>parse_response\<close>
  flattens it into rows, and \<open>get_next_page_token\<close> gives the next token. Each
  row goes through \<open>post_process\<close>, and the SDK raises the replication cursor
  and writes it into the partition's state. The SDK syncs the partitions of a
  stream one after the other, and sends each request through its retrying HTTP
  layer (\<open>_request_with_backoff\<close>).

  \<^bold>\<open>Theories.\<close>
  \<^item> \<open>Prelude\<close>: Python exceptions (\<open>py_error\<close>), fallible values
    (\<open>'a result\<close>, with \<open>r_bind\<close>), and generators as the rows they
    yielded and the exception that ended them (\<open>'a gen\<close>, \<open>gen_for\<close>,
    \<open>gen_let\<close>, \<open>gen_seq\<close>).
  \<^item> \<open>PyValue\<close>: decoded JSON (\<open>json\<close>) and the dict, list and
    truthiness operations the source applies, each with the exception Python
    raises (\<open>py_getitem\<close>, \<open>py_setitem\<close>, \<open>py_update\<close>, \<open>py_pop\<close>,
    \<open>py_contains\<close>, \<open>py_index\<close>).
  \<^item> \<open>PyStr\<close>: \<open>int\<close>, \<open>str\<close>, \<open>','.join\<close>, \<open>urlparse\<close>,
    \<open>unquote\<close> and \<open>parse_qs\<close> on byte strings.
  \<^item> \<open>Stream\<close>: the classes as \<open>stream_kind\<close>; each class's attribute
    block (lines 147-154, 167-174, 194-201, 225-232, 261-268, 322-331) as a
    \<open>stream_class\<close> record value (\<open>page_class\<close>, ..., \<open>post_insights_class\<close>),
    read through \<open>class_of\<close> by \<open>stream_path\<close> and \<open>replication_key\<close>;
    the configuration and partition records.
  \<^item> \<open>Flatten\<close>: every \<open>parse_response\<close> (lines 187-367) and, beside
    it, a typed description of the responses the API sends with the rows the
    spec promises for them (\<open>*_spec\<close>). The refinement lemmas show that each
    parser computes its spec on every encoded response.
  \<^item> \<open>Params\<close>: every \<open>get_url_params\<close> and \<open>get_next_page_token\<close>,
    with the time window of \<open>PageInsights\<close> (lines 270-295). The clock
    \<open>now\<close> is a parameter of each call.
  \<^item> \<open>Engine\<close>: the loop of \<open>request_records\<close> (lines 37-67). One
    iteration is \<open>page_step\<close>. The HTTP layer is a parameter \<open>fetch\<close>.
    \<open>request_loop\<close> runs the loop with fuel, and the inductive \<open>loop_ends\<close>
    is its big-step semantics. The two agree (\<open>loop_ends_iff_fuel\<close>), so
    that ``the loop never ends'' is a statement about \<open>loop_ends\<close>, not a
    matter of fuel.
  \<^item> \<open>Redact\<close>: the logged line of \<open>prepare_request\<close> (lines 69-72),
    \<open>re.sub\<close> of \<open>access_token=[a-zA-Z0-9]+&\<close> as a left-to-right
    scan, a \<open>function\<close> whose termination is proved by a length measure.
  \<^item> \<open>Sync\<close>: \<open>post_process\<close> and \<open>get_stream_or_partition_state\<close>
    (lines 104-107, 136-144, 163-164). The state is explicit, so the in-place
    reset of \<open>progress_markers\<close> reaches the stored state. This theory also
    holds, modelled from the spec, the SDK's partition lookup, the cursor, the
    sync of one partition (\<open>sync_partition\<close>), the bookmark write
    (\<open>store_cursor\<close>, into the dict \<open>get_stream_or_partition_state\<close> returns)
    and the run over the partition list (\<open>sync_partitions\<close>), with an
    elimination rule \<open>sync_partitions_ConsE\<close> for its four ways through one
    partition.
  \<^item> \<open>Catalog\<close>: \<open>_singer_metadata\<close> (lines 110-134) and the class
    attributes it reads, with the SDK's \<open>replication_method\<close> property that
    \<open>forced_replication_method\<close> feeds. The library call
    \<open>get_standard_metadata\<close> is represented by its arguments.
  \<^item> \<open>Transport\<close>: the fetcher the engine runs with (\<open>backoff_fetch\<close>, the call
    at line 51 and \<open>response.json()\<close> at line 188) over the SDK's retry policy,
    modelled from the spec: transient failures (connection errors, status 500
    and above) are retried with exponential waits, at most \<open>max_tries\<close> = 5
    attempts, other error statuses raise at once. The server is a function from
    the attempt number and the request to its reply. The retry loop
    \<open>send_with_backoff\<close> is shown equal to a reference that takes the first
    settled reply of the attempt list (\<open>settled_reply\<close>, \<open>attempts\<close>).
  \<^item> this theory: properties that span the parsers and the engine.

  \<^bold>\<open>What is shown.\<close> Each parser refines its specification. The engine
  never ends when a page's next link repeats its token, or when a page after the
  first keeps failing: it re-yields that page's rows forever. An error on the
  first page ends the run, and an error in \<open>get_url_params\<close> propagates.
  PageInsights pagination does end against a server whose next links move
  \<open>since\<close> forward: the stall rule of \<open>get_next_page_token\<close> refuses any link
  that starts within two days of now, which bounds the number of pages. The
  parameter builders respect the window clamp and the stall rule, and they only
  build ints, strings and lists of strings. The
  redaction masks a token followed by \<open>&\<close> and misses one at the end of the
  URL. The coordinator keeps the state well-formed. Every emitted row carries
  the partition's page id. The cursor is the maximum key, it counts the rows of
  a failed page. Over a run of several partitions the state stays
  well-formed, the rows follow the caller's order of partitions, a partition
  whose requests all fail contributes no rows and the run goes on with the
  others, and the bookmark stored for a partition is the maximum of the old one
  and its rows' keys. The fetcher returns the first settled reply of at most
  five attempts, waits at most 30 seconds, and never retries a client error.

  \<^bold>\<open>Bounds and fuel.\<close> \<open>request_loop\<close> takes its fuel as a parameter.
  Every finishing run is reached by enough fuel, and more fuel does not change
  it (\<open>request_loop_complete\<close>). A decreasing measure bounds the fuel
  needed: any fuel above its initial value (\<open>loop_terminates_by_variant\<close>).
  For PageInsights the measure is the number of seconds from the \<open>since\<close> of
  the current token to two days before now, so \<open>nat (now - 172800 - start) + 2\<close>
  iterations are enough (\<open>insights_loop_terminates\<close>).
  Non-termination is stated for every fuel and
  as the absence of a \<open>loop_ends\<close> run. The run over the partitions and
  the retry loop recurse on a list and on the retry budget, so they need no
  fuel. The waits of the retry loop are bounded by the upper end of the
  randomised exponential wait, \<open>2 * 2 ^ i\<close> seconds after attempt \<open>i\<close>, which
  bounds every draw of the jitter. Python integers are \<open>int\<close>: nothing in
  the source overflows.

  \<^bold>\<open>Not modelled.\<close>
  \<^item> The SDK's retry policy is modelled from the spec, with the SDK's
    defaults (5 attempts, factor 2); which statuses an SDK version retries may
    differ. The engine's theorems hold for any \<open>fetch\<close>; \<open>backoff_fetch\<close> is
    the instance.
  \<^item> The tap module and the schema files are not in the repository; the schema
    file names are class attributes, and the schema's property names a field of
    the configuration.
  \<^item> The SDK's URL assembly in \<open>prepare_request\<close> is not modelled; the
    redaction is stated on any URL.
  \<^item> The singer library's \<open>Catalog.from_dict\<close> and
    \<open>get_standard_metadata\<close> are represented by the catalog's list of
    streams and by the arguments passed to the call.
  \<^item> The logger setup (lines 18-22) is I/O.
  \<^item> Dicts are association lists with Python's insertion order. Strings are
    byte strings, so Unicode digits in \<open>int()\<close> and UTF-8 decoding after
    \<open>unquote\<close> are out of scope.
  \<^item> Replication keys are compared as integers (the spec's seconds), not as
    the API's timestamp strings.
\<close>

section \<open>Properties across the components\<close>

text \<open>C14 Every row a post stream yields (\<open>Posts\<close>, \<open>PostTaggedProfile\<close>,
  \<open>PostAttachments\<close>, \<open>PostInsights\<close>), on every page of every run, finished
  or not, is a dict whose \<open>page_id\<close> is the page id of the partition being
  read: \<open>get_url_params\<close> sets \<open>self.page_id\<close> before each request, and each
  parser writes it into the row last.\<close>

theorem post_stream_rows_page_id:
  assumes "k \<in> {Posts, PostTaggedProfile, PostAttachments, PostInsights}"
  shows "list_all (has_page_id (part_page_id part)) (fst (request_loop n k cfg now fetch part st tok))"
proof -
  have "has_page_id (part_page_id part) r"
    if "r \<in> set (fst (request_loop n k cfg now fetch part st tok))" for r
  proof -
    from that obtain resp where "r \<in> set (fst (parse_response k (Some (part_page_id part)) resp))"
      by (blast dest: request_loop_yieldsD)
    with assms show ?thesis
      by (auto dest: posts_yields_page_id tagged_profile_yields_page_id
          post_attachments_yields_page_id post_insights_yields_page_id)
  qed
  then show ?thesis by (simp add: list_all_iff)
qed

theorem post_stream_rows_page_id_witness:
  "PostAttachments \<in> {Posts, PostTaggedProfile, PostAttachments, PostInsights} \<and>
   list_all (has_page_id ''1'') (fst (request_loop 4 PostAttachments \<lparr>access_tokens = [], metrics = [], columns = None, schema_properties = []\<rparr> 0
       (\<lambda>p ps. Inr (JObj [(''data'', JList [JObj [(''id'', JStr ''7''), (''created_time'', JStr ''t''),
          (''attachments'', JObj [(''data'', JList [JObj [(''page_id'', JStr ''other'')]])])]])]))
       \<lparr>part_page_id = ''1'', part_start = None\<rparr> \<lparr>page_id = None\<rparr> JNull)) \<and>
   request_loop 4 PostAttachments \<lparr>access_tokens = [], metrics = [], columns = None, schema_properties = []\<rparr> 0
       (\<lambda>p ps. Inr (JObj [(''data'', JList [JObj [(''id'', JStr ''7''), (''created_time'', JStr ''t''),
          (''attachments'', JObj [(''data'', JList [JObj [(''page_id'', JStr ''other'')]])])]])]))
       \<lparr>part_page_id = ''1'', part_start = None\<rparr> \<lparr>page_id = None\<rparr> JNull =
   ([JObj [(''page_id'', JStr ''1''), (''post_id'', JStr ''7''), (''post_created_time'', JStr ''t'')]], Exhausted)"
proof -
  have run: "request_loop 4 PostAttachments \<lparr>access_tokens = [], metrics = [], columns = None, schema_properties = []\<rparr> 0
       (\<lambda>p ps. Inr (JObj [(''data'', JList [JObj [(''id'', JStr ''7''), (''created_time'', JStr ''t''),
          (''attachments'', JObj [(''data'', JList [JObj [(''page_id'', JStr ''other'')]])])]])]))
       \<lparr>part_page_id = ''1'', part_start = None\<rparr> \<lparr>page_id = None\<rparr> JNull =
   ([JObj [(''page_id'', JStr ''1''), (''post_id'', JStr ''7''), (''post_created_time'', JStr ''t'')]], Exhausted)"
    by (simp add: numeral_eq_Suc page_step_def get_url_params_def base_url_params_def
        post_attachments_parse_response_def post_attachments_row_def parent_info_def self_page_id_def
        getitem2_def attachment_parse_def emit_tagged_def gen_yield_def base_next_page_token_def)
  show ?thesis
    using post_stream_rows_page_id [where k = PostAttachments and n = 4
      and cfg = "\<lparr>access_tokens = [], metrics = [], columns = None, schema_properties = []\<rparr>" and now = 0
      and part = "\<lparr>part_page_id = ''1'', part_start = None\<rparr>" and st = "\<lparr>page_id = None\<rparr>" and tok = JNull
      and fetch = "\<lambda>p ps. Inr (JObj [(''data'', JList [JObj [(''id'', JStr ''7''), (''created_time'', JStr ''t''),
          (''attachments'', JObj [(''data'', JList [JObj [(''page_id'', JStr ''other'')]])])]])])"] run
    by simp
qed

end
